theory Spec2Isabelle
  imports Complex_Main "HOL-Library.Word" "HOL-Library.AList" "HOL-Library.List_Lexorder"
begin

section \<open>The MAVFTP client engine (mavftp.py)\<close>

text \<open>
  Python integers are modelled as \<open>int\<close>, bytes as \<open>8 word\<close>, byte strings as lists of
  bytes. Wall-clock readings (\<open>time_time()\<close>) are real numbers; only their differences
  and comparisons are used. Every \<open>raise\<close> of the source is an \<open>error\<close> value, a loop that
  does not return is the outcome \<open>Diverges\<close>.
\<close>

type_synonym byte = "8 word"

datatype error = StructError | AttributeError | IndexError | KeyError | ValueError
  | ZeroDivisionError | TypeError | UnicodeDecodeError | UnicodeEncodeError

unbundle bit_operations_syntax

subsection \<open>Opcodes and constants\<close>

abbreviation (input) OP_None :: int where "OP_None \<equiv> 0"
abbreviation (input) OP_TerminateSession :: int where "OP_TerminateSession \<equiv> 1"
abbreviation (input) OP_ResetSessions :: int where "OP_ResetSessions \<equiv> 2"
abbreviation (input) OP_ListDirectory :: int where "OP_ListDirectory \<equiv> 3"
abbreviation (input) OP_OpenFileRO :: int where "OP_OpenFileRO \<equiv> 4"
abbreviation (input) OP_ReadFile :: int where "OP_ReadFile \<equiv> 5"
abbreviation (input) OP_CreateFile :: int where "OP_CreateFile \<equiv> 6"
abbreviation (input) OP_WriteFile :: int where "OP_WriteFile \<equiv> 7"
abbreviation (input) OP_RemoveFile :: int where "OP_RemoveFile \<equiv> 8"
abbreviation (input) OP_CreateDirectory :: int where "OP_CreateDirectory \<equiv> 9"
abbreviation (input) OP_RemoveDirectory :: int where "OP_RemoveDirectory \<equiv> 10"
abbreviation (input) OP_OpenFileWO :: int where "OP_OpenFileWO \<equiv> 11"
abbreviation (input) OP_TruncateFile :: int where "OP_TruncateFile \<equiv> 12"
abbreviation (input) OP_Rename :: int where "OP_Rename \<equiv> 13"
abbreviation (input) OP_CalcFileCRC32 :: int where "OP_CalcFileCRC32 \<equiv> 14"
abbreviation (input) OP_BurstReadFile :: int where "OP_BurstReadFile \<equiv> 15"
abbreviation (input) OP_Ack :: int where "OP_Ack \<equiv> 128"
abbreviation (input) OP_Nack :: int where "OP_Nack \<equiv> 129"

abbreviation (input) ERR_None :: int where "ERR_None \<equiv> 0"
abbreviation (input) ERR_EndOfFile :: int where "ERR_EndOfFile \<equiv> 6"

abbreviation (input) HDR_Len :: nat where "HDR_Len \<equiv> 12"
abbreviation (input) MAX_Payload :: nat where "MAX_Payload \<equiv> 239"

subsection \<open>FTP_OP and its wire format\<close>

text \<open>
  \<open>class FTP_OP\<close>. The payload is \<open>None\<close> or a byte string. The fields carry the prefix
  \<open>op_\<close> because the engine has fields \<open>seq\<close> and \<open>session\<close> of its own.
\<close>

record FTP_OP =
  op_seq :: int
  op_session :: int
  op_opcode :: int
  op_size :: int
  op_req_opcode :: int
  op_burst_complete :: int
  op_offset :: int
  op_payload :: "byte list option"

text \<open>The little-endian encodings of \<open>struct\<close> for the formats \<open>H\<close>, \<open>B\<close> and \<open>I\<close>.\<close>

definition pack_B :: "int \<Rightarrow> byte list" where
  "pack_B x = [word_of_int x]"

definition pack_H :: "int \<Rightarrow> byte list" where
  "pack_H x = [word_of_int x, word_of_int (x div 256)]"

definition pack_I :: "int \<Rightarrow> byte list" where
  "pack_I x = [word_of_int x, word_of_int (x div 256), word_of_int (x div 65536),
               word_of_int (x div 16777216)]"

definition unpack_H :: "byte \<Rightarrow> byte \<Rightarrow> int" where
  "unpack_H b0 b1 = uint b0 + 256 * uint b1"

definition unpack_I :: "byte \<Rightarrow> byte \<Rightarrow> byte \<Rightarrow> byte \<Rightarrow> int" where
  "unpack_I b0 b1 b2 b3 = uint b0 + 256 * uint b1 + 65536 * uint b2 + 16777216 * uint b3"

text \<open>\<open>struct.pack\<close> raises \<open>struct.error\<close> when an argument does not fit its format.\<close>

definition fits_B :: "int \<Rightarrow> bool" where
  "fits_B x \<longleftrightarrow> 0 \<le> x \<and> x < 256"

definition fits_H :: "int \<Rightarrow> bool" where
  "fits_H x \<longleftrightarrow> 0 \<le> x \<and> x < 65536"

definition fits_I :: "int \<Rightarrow> bool" where
  "fits_I x \<longleftrightarrow> 0 \<le> x \<and> x < 4294967296"

text \<open>\<open>FTP_OP.pack\<close>: \<open>struct.pack("<HBBBBBBI", ...)\<close> followed by the payload, if any.\<close>

definition pack :: "FTP_OP \<Rightarrow> error + byte list" where
  "pack op =
     (if fits_H (op_seq op) \<and> fits_B (op_session op) \<and> fits_B (op_opcode op)
         \<and> fits_B (op_size op) \<and> fits_B (op_req_opcode op)
         \<and> fits_B (op_burst_complete op) \<and> fits_I (op_offset op)
      then
        (let ret = pack_H (op_seq op) @ pack_B (op_session op) @ pack_B (op_opcode op)
                   @ pack_B (op_size op) @ pack_B (op_req_opcode op)
                   @ pack_B (op_burst_complete op) @ pack_B 0 @ pack_I (op_offset op)
         in case op_payload op of
              None \<Rightarrow> Inr ret
            | Some p \<Rightarrow> Inr (ret @ p))
      else Inl StructError)"

subsection \<open>Messages, files and callbacks\<close>

text \<open>
  An incoming MAVLink message, as far as the engine reads it: \<open>get_type()\<close>,
  \<open>target_system\<close>, \<open>target_component\<close> and \<open>payload\<close>.
\<close>

record mavlink_message =
  m_type :: string
  m_target_system :: int
  m_target_component :: int
  m_payload :: "byte list"

text \<open>
  \<open>MAVFTP.__op_parse\<close>. \<open>struct.unpack\<close> raises \<open>struct.error\<close> unless the header
  slice \<open>m.payload[0:12]\<close> has exactly 12 bytes.
\<close>

definition op_parse :: "mavlink_message \<Rightarrow> error + FTP_OP" where
  "op_parse m =
     (let hdr = take 12 (m_payload m) in
      if length hdr \<noteq> 12 then Inl StructError
      else
        (let seq = unpack_H (hdr ! 0) (hdr ! 1);
             session = uint (hdr ! 2);
             opcode = uint (hdr ! 3);
             size = uint (hdr ! 4);
             req_opcode = uint (hdr ! 5);
             burst_complete = uint (hdr ! 6);
             offset = unpack_I (hdr ! 8) (hdr ! 9) (hdr ! 10) (hdr ! 11);
             payload = take (nat size) (drop 12 (m_payload m))
         in Inr \<lparr>op_seq = seq, op_session = session, op_opcode = opcode, op_size = size,
                 op_req_opcode = req_opcode, op_burst_complete = burst_complete,
                 op_offset = offset, op_payload = Some payload\<rparr>))"

text \<open>
  The file handle \<open>fh\<close> (a \<open>BytesIO\<close> or a binary file): its contents and its cursor.
  \<open>seek\<close> to a negative position raises \<open>ValueError\<close>; \<open>write\<close> past the end fills
  the hole with zero bytes, and a write of no bytes changes nothing; \<open>read(n)\<close> with
  a negative \<open>n\<close> reads to the end.
\<close>

record pyfile =
  fdata :: "byte list"
  fpos :: nat

definition file_tell :: "pyfile \<Rightarrow> int" where
  "file_tell f = int (fpos f)"

definition file_seek :: "pyfile \<Rightarrow> int \<Rightarrow> pyfile option" where
  "file_seek f k = (if k < 0 then None else Some (f\<lparr>fpos := nat k\<rparr>))"

definition file_write :: "pyfile \<Rightarrow> byte list \<Rightarrow> pyfile" where
  "file_write f bs =
     (if bs = [] then f
      else
        (let d = fdata f;
             d1 = (if length d < fpos f then d @ replicate (fpos f - length d) 0 else d)
         in f\<lparr>fdata := take (fpos f) d1 @ bs @ drop (fpos f + length bs) d1,
              fpos := fpos f + length bs\<rparr>))"

definition file_read :: "pyfile \<Rightarrow> int \<Rightarrow> byte list \<times> pyfile" where
  "file_read f n =
     (let rest = drop (fpos f) (fdata f);
          bs = (if n < 0 then rest else take (nat n) rest)
      in (bs, f\<lparr>fpos := fpos f + length bs\<rparr>))"

text \<open>
  The user's callbacks are opaque functions; the model records each call the engine
  makes, with its argument, in the order made. \<open>Callback (Some bytes)\<close> is
  \<open>self.callback(self.fh)\<close> after \<open>seek(0)\<close>: the assembled file is handed over.
\<close>

datatype event =
    Callback "byte list option"
  | CallbackProgress "(int \<times> int) option"
  | PutCallback "int option"
  | PutCallbackProgress "real option"

text \<open>
  What one entry into the engine reads from outside: the clock, the two
  \<open>random_uniform(0, 100)\<close> draws of the packet-loss simulation, whether opening the
  local file for writing fails, the contents of a local file opened for reading
  (\<open>None\<close> when \<open>open\<close> fails), and the library functions \<open>os.path.basename\<close>,
  \<open>bytes.decode('utf-8')\<close> (does it succeed) and \<open>int(str)\<close>.
\<close>

record env =
  now :: real
  rand_rx :: real
  rand_tx :: real
  open_fails :: bool
  open_rb :: "string \<Rightarrow> byte list option"
  basename :: "string \<Rightarrow> string"
  utf8_decodes :: "byte list \<Rightarrow> bool"
  py_int :: "string \<Rightarrow> int option"

subsection \<open>The engine state\<close>

type_synonym gap = "int \<times> int"

text \<open>
  \<open>class MAVFTP\<close>. A callback field is \<open>True\<close> when the callback is not \<open>None\<close>.
  \<open>read_gap_times\<close> is a Python dict, kept as an association list in insertion order,
  because \<open>__check_read_send\<close> iterates over it. \<open>sent\<close> lists the buffers given to
  \<open>file_transfer_protocol_send\<close>, \<open>events\<close> the callback calls made.
  \<open>source_system\<close> and \<open>source_component\<close> are those of \<open>self.master\<close>.
\<close>

record ftp_state =
  ftp_settings_debug :: int
  ftp_settings_pkt_loss_rx :: real
  ftp_settings_pkt_loss_tx :: real
  ftp_settings_burst_read_size :: int
  ftp_settings_max_backlog :: int
  ftp_settings_write_size :: int
  ftp_settings_write_qsize :: int
  ftp_settings_retry_time :: real
  seq :: int
  session :: int
  network :: int
  last_op :: "FTP_OP option"
  fh :: "pyfile option"
  filename :: "string option"
  callback :: bool
  callback_progress :: bool
  put_callback :: bool
  put_callback_progress :: bool
  total_size :: int
  read_gaps :: "gap list"
  read_gap_times :: "(gap \<times> real) list"
  last_gap_send :: real
  read_retries :: int
  read_total :: int
  duplicates :: int
  last_read :: "real option"
  last_burst_read :: "real option"
  op_start :: "real option"
  dir_offset :: int
  last_op_time :: real
  rtt :: real
  reached_eof :: bool
  backlog :: int
  burst_size :: int
  write_list :: "int set option"
  write_block_size :: int
  write_acks :: int
  write_total :: int
  write_file_size :: int
  write_idx :: int
  write_recv_idx :: int
  write_pending :: int
  write_last_send :: "real option"
  open_retries :: int
  source_system :: int
  source_component :: int
  target_system :: int
  target_component :: int
  op_pending :: bool
  sent :: "byte list list"
  events :: "event list"

text \<open>
  What a method call comes to: it returns, it raises, or it never returns. A method that
  returns a flag (\<open>__check_read_finished\<close>) returns it with the state.
\<close>

datatype 'a result = Ok 'a | Raise error | Diverges

type_synonym outcome = "ftp_state result"

text \<open>\<open>MAVFTP.__init__\<close>; \<open>t0\<close> is the clock reading taken there.\<close>

definition MAVFTP_init :: "real \<Rightarrow> int \<Rightarrow> int \<Rightarrow> int \<Rightarrow> int \<Rightarrow> ftp_state" where
  "MAVFTP_init t0 src_sys src_comp tgt_sys tgt_comp =
     \<lparr>ftp_settings_debug = 0, ftp_settings_pkt_loss_rx = 0, ftp_settings_pkt_loss_tx = 0,
      ftp_settings_burst_read_size = 80, ftp_settings_max_backlog = 5,
      ftp_settings_write_size = 80, ftp_settings_write_qsize = 5,
      ftp_settings_retry_time = 0.5,
      seq = 0, session = 0, network = 0, last_op = None, fh = None, filename = None,
      callback = False, callback_progress = False, put_callback = False,
      put_callback_progress = False, total_size = 0, read_gaps = [], read_gap_times = [],
      last_gap_send = 0, read_retries = 0, read_total = 0, duplicates = 0,
      last_read = None, last_burst_read = None, op_start = None, dir_offset = 0, last_op_time = t0,
      rtt = 0.5, reached_eof = False, backlog = 0, burst_size = 80, write_list = None,
      write_block_size = 0, write_acks = 0, write_total = 0, write_file_size = 0,
      write_idx = 0, write_recv_idx = -1, write_pending = 0, write_last_send = None,
      open_retries = 0, source_system = src_sys, source_component = src_comp,
      target_system = tgt_sys, target_component = tgt_comp, op_pending = False,
      sent = [], events = []\<rparr>"

subsection \<open>Sending\<close>

text \<open>
  \<open>MAVFTP.__send\<close>: stamp the frame with the engine's \<open>seq\<close>, pack it, pad the buffer
  with zeros up to 251 bytes, hand it to the transport.
\<close>

definition send :: "env \<Rightarrow> ftp_state \<Rightarrow> FTP_OP \<Rightarrow> outcome" where
  "send e s op0 =
     (let op = op0\<lparr>op_seq := seq s\<rparr> in
      case pack op of
        Inl err \<Rightarrow> Raise err
      | Inr packed \<Rightarrow>
          (let plen = length packed;
               payload = (if plen < MAX_Payload + HDR_Len
                          then packed @ replicate ((HDR_Len + MAX_Payload) - plen) 0
                          else packed)
           in Ok (s\<lparr>sent := sent s @ [payload],
                    seq := (seq s + 1) mod 256,
                    last_op := Some op,
                    last_op_time := now e,
                    op_pending := True\<rparr>)))"

text \<open>
  \<open>MAVFTP.__terminate_session\<close>: send \<open>TerminateSession\<close>, drop the file and the write
  list, call every pending callback with \<open>None\<close>, clear the read state and move to the
  next session id. Each \<open>if cb is not None: cb(None); cb = None\<close> adds its call to
  \<open>events\<close> when the callback is set, and leaves the callback unset.
\<close>

definition terminate_session :: "env \<Rightarrow> ftp_state \<Rightarrow> outcome" where
  "terminate_session e s =
     (case send e s \<lparr>op_seq = seq s, op_session = session s, op_opcode = OP_TerminateSession,
                     op_size = 0, op_req_opcode = 0, op_burst_complete = 0, op_offset = 0,
                     op_payload = None\<rparr> of
        Ok s1 \<Rightarrow>
          Ok (s1\<lparr>fh := None, filename := None, write_list := None,
                 events := events s1
                   @ (if callback s1 then [Callback None] else [])
                   @ (if callback_progress s1 then [CallbackProgress None] else [])
                   @ (if put_callback s1 then [PutCallback None] else [])
                   @ (if put_callback_progress s1 then [PutCallbackProgress None] else []),
                 callback := False, callback_progress := False,
                 put_callback := False, put_callback_progress := False,
                 read_gaps := [], read_total := 0, read_gap_times := [],
                 last_read := None, last_burst_read := None,
                 session := (session s1 + 1) mod 256, reached_eof := False,
                 backlog := 0, duplicates := 0\<rparr>)
      | Raise err \<Rightarrow> Raise err
      | Diverges \<Rightarrow> Diverges)"

subsection \<open>Reading: completion, payload writes, gap reads\<close>

text \<open>
  \<open>MAVFTP.__check_read_finished\<close>. The transfer rate is computed before the callback
  runs: \<open>op_start\<close> being \<open>None\<close> is a \<open>TypeError\<close>, a zero \<open>dt\<close> a
  \<open>ZeroDivisionError\<close>. With no callback and the local name \<open>-\<close> the contents are
  decoded as UTF-8 for the log.
\<close>

definition check_read_finished :: "env \<Rightarrow> ftp_state \<Rightarrow> (bool \<times> ftp_state) result" where
  "check_read_finished e s =
     (if reached_eof s \<and> read_gaps s = [] then
        (case fh s of
           None \<Rightarrow> Raise AttributeError
         | Some f \<Rightarrow>
             (case op_start s of
                None \<Rightarrow> Raise TypeError
              | Some t0 \<Rightarrow>
                  (let dt = now e - t0 in
                   if dt = 0 then Raise ZeroDivisionError
                   else
                     (let r = (if callback s then
                                 Ok (s\<lparr>fh := Some (f\<lparr>fpos := 0\<rparr>),
                                       events := events s @ [Callback (Some (fdata f))],
                                       callback := False\<rparr>)
                               else if filename s = Some ''-'' then
                                 (let (bs, f1) = file_read (f\<lparr>fpos := 0\<rparr>) (- 1) in
                                  if utf8_decodes e bs then Ok (s\<lparr>fh := Some f1\<rparr>)
                                  else Raise UnicodeDecodeError)
                               else Ok s)
                      in case r of
                           Ok s1 \<Rightarrow>
                             (case terminate_session e s1 of
                                Ok s2 \<Rightarrow> Ok (True, s2\<lparr>op_pending := False\<rparr>)
                              | Raise err \<Rightarrow> Raise err
                              | Diverges \<Rightarrow> Diverges)
                         | Raise err \<Rightarrow> Raise err
                         | Diverges \<Rightarrow> Diverges))))
      else Ok (False, s))"

text \<open>\<open>MAVFTP.__write_payload\<close>: seek to the frame's offset and write its payload.\<close>

definition write_payload :: "ftp_state \<Rightarrow> FTP_OP \<Rightarrow> outcome" where
  "write_payload s op =
     (case fh s of
        None \<Rightarrow> Raise AttributeError
      | Some f \<Rightarrow>
          (case file_seek f (op_offset op) of
             None \<Rightarrow> Raise ValueError
           | Some f1 \<Rightarrow>
               (case op_payload op of
                  None \<Rightarrow> Raise TypeError
                | Some p \<Rightarrow>
                    (let total = read_total s + int (length p)
                     in Ok (s\<lparr>fh := Some (file_write f1 p),
                              read_total := total,
                              events := events s
                                @ (if callback_progress s
                                   then [CallbackProgress (Some (total, total + 1))]
                                   else [])\<rparr>)))))"

text \<open>
  \<open>MAVFTP.__send_gap_read\<close>: request the gap with \<open>ReadFile\<close>, move it to the tail of
  the gap list (\<open>list.remove\<close> raises \<open>ValueError\<close> when it is not there), stamp it.
\<close>

definition send_gap_read :: "env \<Rightarrow> ftp_state \<Rightarrow> gap \<Rightarrow> outcome" where
  "send_gap_read e s g =
     (let (offset, len) = g;
          read = \<lparr>op_seq = seq s, op_session = session s, op_opcode = OP_ReadFile,
                  op_size = len, op_req_opcode = 0, op_burst_complete = 0,
                  op_offset = offset, op_payload = None\<rparr>
      in case send e s read of
           Ok s1 \<Rightarrow>
             (if g \<in> set (read_gaps s1) then
                Ok (s1\<lparr>read_gaps := remove1 g (read_gaps s1) @ [g],
                        last_gap_send := now e,
                        read_gap_times := AList.update g (now e) (read_gap_times s1),
                        backlog := backlog s1 + 1\<rparr>)
              else Raise ValueError)
         | Raise err \<Rightarrow> Raise err
         | Diverges \<Rightarrow> Diverges)"

text \<open>
  The loop of \<open>__check_read_send\<close> before EOF: every entry of \<open>read_gap_times\<close> whose
  time is 0 is requested, in the dict's order. A request changes only the time of its
  own gap, so the loop runs over the entries as they were when it started.
\<close>

fun send_unsent_gaps :: "env \<Rightarrow> (gap \<times> real) list \<Rightarrow> ftp_state \<Rightarrow> outcome" where
  "send_unsent_gaps e [] s = Ok s"
| "send_unsent_gaps e ((g, v) # items) s =
     (if v = 0 then
        (case send_gap_read e s g of
           Ok s1 \<Rightarrow> send_unsent_gaps e items s1
         | Raise err \<Rightarrow> Raise err
         | Diverges \<Rightarrow> Diverges)
      else send_unsent_gaps e items s)"

text \<open>\<open>MAVFTP.__check_read_send\<close>.\<close>

definition check_read_send :: "env \<Rightarrow> ftp_state \<Rightarrow> outcome" where
  "check_read_send e s =
     (case read_gaps s of
        [] \<Rightarrow> Ok s
      | g # _ \<Rightarrow>
          (case map_of (read_gap_times s) g of
             None \<Rightarrow> Raise KeyError
           | Some tg \<Rightarrow>
               (let dt = now e - tg in
                if \<not> reached_eof s then send_unsent_gaps e (read_gap_times s) s
                else
                  (let retry = (tg > 0 \<and> dt > ftp_settings_retry_time s);
                       s1 = (if retry
                             then s\<lparr>backlog := (if backlog s > 0 then backlog s - 1
                                                  else backlog s),
                                    read_gap_times := AList.update g 0 (read_gap_times s)\<rparr>
                             else s)
                   in case map_of (read_gap_times s1) g of
                        None \<Rightarrow> Raise KeyError
                      | Some t1 \<Rightarrow>
                          if t1 \<noteq> 0 then Ok s1
                          else if \<not> reached_eof s1
                                  \<and> backlog s1 \<ge> ftp_settings_max_backlog s1 then Ok s1
                          else if now e - last_gap_send s1 < 0.05 then Ok s1
                          else send_gap_read e s1 g))))"

subsection \<open>Burst read replies\<close>

text \<open>
  The \<open>while True\<close> loop of \<open>__handle_burst_read\<close> that cuts the missing range
  \<open>(start, len)\<close> into gaps of at most \<open>max_read\<close> bytes, appending each to
  \<open>read_gaps\<close> and giving it the time 0 in \<open>read_gap_times\<close>. With \<open>max_read \<le> 0\<close>
  the loop never ends: the value is then \<open>None\<close>.
\<close>

partial_function (option) split_gap ::
  "gap list \<Rightarrow> (gap \<times> real) list \<Rightarrow> int \<Rightarrow> int \<Rightarrow> int \<Rightarrow> (gap list \<times> (gap \<times> real) list) option"
where
  "split_gap gaps gap_times start len max_read =
     (if len \<le> max_read
      then Some (gaps @ [(start, len)], AList.update (start, len) 0 gap_times)
      else split_gap (gaps @ [(start, max_read)]) (AList.update (start, max_read) 0 gap_times)
             (start + max_read) (len - max_read) max_read)"

text \<open>
  The log line written when EOF is first seen with \<open>debug > 0\<close> has the argument
  \<open>time_time() - self.op_start\<close>, a \<open>TypeError\<close> when \<open>op_start\<close> is \<open>None\<close>.
\<close>

definition eof_log_raises :: "ftp_state \<Rightarrow> bool" where
  "eof_log_raises s \<longleftrightarrow>
     \<not> reached_eof s \<and> ftp_settings_debug s > 0 \<and> op_start s = None"

text \<open>
  The end of both EOF paths of \<open>__handle_burst_read\<close>: set \<open>reached_eof\<close>, deliver the
  file if it is complete, otherwise schedule gap reads.
\<close>

definition burst_eof :: "env \<Rightarrow> ftp_state \<Rightarrow> outcome" where
  "burst_eof e s =
     (if eof_log_raises s then Raise TypeError
      else
        (case check_read_finished e (s\<lparr>reached_eof := True\<rparr>) of
           Ok (True, s1) \<Rightarrow> Ok s1
         | Ok (False, s1) \<Rightarrow> check_read_send e s1
         | Raise err \<Rightarrow> Raise err
         | Diverges \<Rightarrow> Diverges))"

text \<open>
  \<open>__handle_burst_read\<close>, an Ack, lines 395 to 428: the payload is stored according
  to where its offset lies relative to the cursor \<open>ofs\<close>. The flag of the result is
  \<open>True\<close> when the method has returned (a duplicate, or the file was completed).
\<close>

definition burst_ack_store ::
  "env \<Rightarrow> ftp_state \<Rightarrow> FTP_OP \<Rightarrow> byte list \<Rightarrow> (bool \<times> ftp_state) result" where
  "burst_ack_store e s op payload =
     (case fh s of
        None \<Rightarrow> Raise AttributeError
      | Some f \<Rightarrow>
          (let ofs = file_tell f in
           if op_offset op < ofs then
             (let gap = (op_offset op, int (length payload)) in
              if gap \<in> set (read_gaps s) then
                (case map_of (read_gap_times s) gap of
                   None \<Rightarrow> Raise KeyError
                 | Some _ \<Rightarrow>
                     (case write_payload
                             (s\<lparr>read_gaps := remove1 gap (read_gaps s),
                                read_gap_times := AList.delete gap (read_gap_times s)\<rparr>) op of
                        Ok s1 \<Rightarrow>
                          (case fh s1 of
                             None \<Rightarrow> Raise AttributeError
                           | Some f1 \<Rightarrow>
                               (case file_seek f1 ofs of
                                  None \<Rightarrow> Raise ValueError
                                | Some f2 \<Rightarrow> check_read_finished e (s1\<lparr>fh := Some f2\<rparr>)))
                      | Raise err \<Rightarrow> Raise err
                      | Diverges \<Rightarrow> Diverges))
              else Ok (True, s\<lparr>duplicates := duplicates s + 1\<rparr>))
           else if op_offset op > ofs then
             (case split_gap (read_gaps s) (read_gap_times s) ofs (op_offset op - ofs)
                     (burst_size s) of
                None \<Rightarrow> Diverges
              | Some (gaps, gap_times) \<Rightarrow>
                  (case write_payload (s\<lparr>read_gaps := gaps, read_gap_times := gap_times\<rparr>) op of
                     Ok s1 \<Rightarrow> Ok (False, s1)
                   | Raise err \<Rightarrow> Raise err
                   | Diverges \<Rightarrow> Diverges))
           else
             (case write_payload s op of
                Ok s1 \<Rightarrow> Ok (False, s1)
              | Raise err \<Rightarrow> Raise err
              | Diverges \<Rightarrow> Diverges)))"

text \<open>
  \<open>__handle_burst_read\<close>, an Ack, lines 429 to 445: what a set \<open>burst_complete\<close>
  leads to. The continuation re-sends the engine's \<open>last_op\<close> with a new offset.
\<close>

definition burst_ack_complete :: "env \<Rightarrow> ftp_state \<Rightarrow> FTP_OP \<Rightarrow> outcome" where
  "burst_ack_complete e s op =
     (if op_burst_complete op \<noteq> 0 then
        (if op_size op > 0 \<and> op_size op < burst_size s then burst_eof e s
         else
           (case last_op s of
              None \<Rightarrow> Raise AttributeError
            | Some more_op \<Rightarrow> send e s (more_op\<lparr>op_offset := op_offset op + op_size op\<rparr>)))
      else Ok s)"

text \<open>\<open>__handle_burst_read\<close>, a Nack, lines 446 to 464.\<close>

definition burst_nack :: "env \<Rightarrow> ftp_state \<Rightarrow> FTP_OP \<Rightarrow> byte list \<Rightarrow> outcome" where
  "burst_nack e s op payload =
     (case payload of
        [] \<Rightarrow> Raise IndexError
      | b # _ \<Rightarrow>
          (let ecode = uint b in
           if ecode = ERR_EndOfFile \<or> ecode = 0 then
             (case fh s of
                None \<Rightarrow> Raise AttributeError
              | Some f \<Rightarrow>
                  if \<not> reached_eof s \<and> op_offset op > file_tell f then Ok s
                  else burst_eof e s)
           else Ok s))"

text \<open>\<open>MAVFTP.__handle_burst_read\<close>.\<close>

definition handle_burst_read :: "env \<Rightarrow> ftp_state \<Rightarrow> FTP_OP \<Rightarrow> outcome" where
  "handle_burst_read e s0 op =
     (if ftp_settings_pkt_loss_tx s0 > 0 \<and> rand_tx e < ftp_settings_pkt_loss_tx s0 then Ok s0
      else if fh s0 = None \<or> filename s0 = None then Ok s0
      else
        (case op_payload op of
           None \<Rightarrow> Raise TypeError
         | Some payload \<Rightarrow>
             (let size = int (length payload);
                  s = s0\<lparr>last_burst_read := Some (now e),
                         burst_size := (if size > burst_size s0 then int MAX_Payload
                                        else burst_size s0)\<rparr>
              in if op_opcode op = OP_Ack then
                   (case burst_ack_store e s op payload of
                      Ok (True, s2) \<Rightarrow> Ok s2
                    | Ok (False, s2) \<Rightarrow> burst_ack_complete e s2 op
                    | Raise err \<Rightarrow> Raise err
                    | Diverges \<Rightarrow> Diverges)
                 else if op_opcode op = OP_Nack then burst_nack e s op payload
                 else Ok s)))"

subsection \<open>Gap read replies\<close>

text \<open>\<open>MAVFTP.__handle_reply_read\<close>.\<close>

definition handle_reply_read :: "env \<Rightarrow> ftp_state \<Rightarrow> FTP_OP \<Rightarrow> outcome" where
  "handle_reply_read e s0 op =
     (if fh s0 = None \<or> filename s0 = None then Ok s0
      else
        (let s = s0\<lparr>backlog := (if backlog s0 > 0 then backlog s0 - 1 else backlog s0)\<rparr>;
             r = (if op_opcode op = OP_Ack then
                    (let gap = (op_offset op, op_size op) in
                     if gap \<in> set (read_gaps s) then
                       (case map_of (read_gap_times s) gap of
                          None \<Rightarrow> Raise KeyError
                        | Some _ \<Rightarrow>
                            (case fh s of
                               None \<Rightarrow> Raise AttributeError
                             | Some f \<Rightarrow>
                                 (let ofs = file_tell f in
                                  case write_payload
                                         (s\<lparr>read_gaps := remove1 gap (read_gaps s),
                                            read_gap_times :=
                                              AList.delete gap (read_gap_times s)\<rparr>) op of
                                    Ok s1 \<Rightarrow>
                                      (case fh s1 of
                                         None \<Rightarrow> Raise AttributeError
                                       | Some f1 \<Rightarrow>
                                           (case file_seek f1 ofs of
                                              None \<Rightarrow> Raise ValueError
                                            | Some f2 \<Rightarrow>
                                                check_read_finished e (s1\<lparr>fh := Some f2\<rparr>)))
                                  | Raise err \<Rightarrow> Raise err
                                  | Diverges \<Rightarrow> Diverges)))
                     else if op_size op < burst_size s then
                       (case terminate_session e s of
                          Ok s1 \<Rightarrow> Ok (False, s1)
                        | Raise err \<Rightarrow> Raise err
                        | Diverges \<Rightarrow> Diverges)
                     else Ok (False, s\<lparr>duplicates := duplicates s + 1\<rparr>))
                  else if op_opcode op = OP_Nack then
                    (case terminate_session e s of
                       Ok s1 \<Rightarrow> Ok (False, s1)
                     | Raise err \<Rightarrow> Raise err
                     | Diverges \<Rightarrow> Diverges)
                  else Ok (False, s))
         in case r of
              Ok (True, s1) \<Rightarrow> Ok s1
            | Ok (False, s1) \<Rightarrow> check_read_send e s1
            | Raise err \<Rightarrow> Raise err
            | Diverges \<Rightarrow> Diverges))"

subsection \<open>Writing\<close>

text \<open>
  \<open>MAVFTP.__put_finished\<close>. Without a put callback the rate is logged, which divides
  by the time since \<open>op_start\<close>.
\<close>

definition put_finished :: "env \<Rightarrow> ftp_state \<Rightarrow> int \<Rightarrow> outcome" where
  "put_finished e s flen =
     (let s1 = s\<lparr>events := events s
                       @ (if put_callback_progress s then [PutCallbackProgress (Some 1)]
                          else []),
                    put_callback_progress := False\<rparr>
      in if put_callback s
         then Ok (s1\<lparr>events := events s1 @ [PutCallback (Some flen)], put_callback := False\<rparr>)
         else
           (case op_start s of
              None \<Rightarrow> Raise TypeError
            | Some t0 \<Rightarrow> if now e - t0 = 0 then Raise ZeroDivisionError else Ok s1))"

text \<open>
  The inner \<open>while idx not in self.write_list\<close> loop of \<open>__send_more_writes\<close>. It
  does not end when no index of the cycle is in the write list (the value \<open>None\<close>).
\<close>

partial_function (option) next_idx :: "int set \<Rightarrow> int \<Rightarrow> int \<Rightarrow> (error + int) option" where
  "next_idx wl wtotal idx =
     (if idx \<in> wl then Some (Inr idx)
      else if wtotal = 0 then Some (Inl ZeroDivisionError)
      else next_idx wl wtotal ((idx + 1) mod wtotal))"

text \<open>
  One turn of the \<open>for _i in range(n)\<close> loop of \<open>__send_more_writes\<close>: find the
  next block that is not acked, read it from the file, send it.
\<close>

definition write_block :: "env \<Rightarrow> ftp_state \<Rightarrow> outcome" where
  "write_block e s =
     (case write_list s of
        None \<Rightarrow> Raise TypeError
      | Some wl \<Rightarrow>
          (case next_idx wl (write_total s) (write_idx s) of
             None \<Rightarrow> Diverges
           | Some (Inl err) \<Rightarrow> Raise err
           | Some (Inr idx) \<Rightarrow>
               (let ofs = idx * write_block_size s in
                case fh s of
                  None \<Rightarrow> Raise AttributeError
                | Some f \<Rightarrow>
                    (case file_seek f ofs of
                       None \<Rightarrow> Raise ValueError
                     | Some f1 \<Rightarrow>
                         (let (data, f2) = file_read f1 (write_block_size s);
                              write = \<lparr>op_seq = seq s, op_session = session s,
                                       op_opcode = OP_WriteFile, op_size = int (length data),
                                       op_req_opcode = 0, op_burst_complete = 0,
                                       op_offset = ofs, op_payload = Some data\<rparr>
                          in case send e (s\<lparr>fh := Some f2\<rparr>) write of
                               Ok s1 \<Rightarrow>
                                 (if write_total s1 = 0 then Raise ZeroDivisionError
                                  else Ok (s1\<lparr>write_idx := (idx + 1) mod write_total s1,
                                             write_pending := write_pending s1 + 1,
                                             write_last_send := Some (now e)\<rparr>))
                             | Raise err \<Rightarrow> Raise err
                             | Diverges \<Rightarrow> Diverges)))))"

text \<open>The \<open>for _i in range(n)\<close> loop of \<open>__send_more_writes\<close>.\<close>

fun write_loop :: "env \<Rightarrow> nat \<Rightarrow> ftp_state \<Rightarrow> outcome" where
  "write_loop e 0 s = Ok s"
| "write_loop e (Suc k) s =
     (case write_block e s of
        Ok s1 \<Rightarrow> write_loop e k s1
      | Raise err \<Rightarrow> Raise err
      | Diverges \<Rightarrow> Diverges)"

text \<open>\<open>MAVFTP.__send_more_writes\<close>. \<open>len(None)\<close> is a \<open>TypeError\<close>.\<close>

definition send_more_writes :: "env \<Rightarrow> ftp_state \<Rightarrow> outcome" where
  "send_more_writes e s =
     (case write_list s of
        None \<Rightarrow> Raise TypeError
      | Some wl \<Rightarrow>
          if wl = {} then
            (case put_finished e s (write_file_size s) of
               Ok s1 \<Rightarrow>
                 (case terminate_session e s1 of
                    Ok s2 \<Rightarrow> Ok (s2\<lparr>op_pending := False\<rparr>)
                  | Raise err \<Rightarrow> Raise err
                  | Diverges \<Rightarrow> Diverges)
             | Raise err \<Rightarrow> Raise err
             | Diverges \<Rightarrow> Diverges)
          else
            (let pending = (case write_last_send s of
                              None \<Rightarrow> write_pending s
                            | Some t \<Rightarrow>
                                if now e - t > max (min (10 * rtt s) 1) 0.2
                                then max 0 (write_pending s - 1)
                                else write_pending s);
                 n = min (ftp_settings_write_qsize s - pending) (int (card wl))
             in write_loop e (nat n) (s\<lparr>write_pending := pending\<rparr>)))"

text \<open>
  \<open>MAVFTP.__handle_write_reply\<close>. \<open>//\<close> and \<open>%\<close> raise \<open>ZeroDivisionError\<close> on a
  zero divisor; \<open>None.discard\<close> is an \<open>AttributeError\<close>.
\<close>

definition handle_write_reply :: "env \<Rightarrow> ftp_state \<Rightarrow> FTP_OP \<Rightarrow> outcome" where
  "handle_write_reply e s op =
     (if fh s = None then terminate_session e s
      else if op_opcode op \<noteq> OP_Ack then terminate_session e s
      else if write_block_size s = 0 then Raise ZeroDivisionError
      else
        (let idx = op_offset op div write_block_size s in
         if write_total s = 0 then Raise ZeroDivisionError
         else
           (let count = (idx - write_recv_idx s) mod write_total s;
                s1 = s\<lparr>write_pending := max 0 (write_pending s - count),
                       write_recv_idx := idx\<rparr>
            in case write_list s1 of
                 None \<Rightarrow> Raise AttributeError
               | Some wl \<Rightarrow>
                   (let s2 = s1\<lparr>write_list := Some (wl - {idx}),
                                 write_acks := write_acks s1 + 1\<rparr>
                    in send_more_writes e
                         (s2\<lparr>events := events s2
                              @ (if put_callback_progress s2
                                 then [PutCallbackProgress
                                         (Some (real_of_int (write_acks s2)
                                                / real_of_int (write_total s2)))]
                                 else [])\<rparr>)))))"

text \<open>\<open>MAVFTP.__handle_create_file_reply\<close>.\<close>

definition handle_create_file_reply :: "env \<Rightarrow> ftp_state \<Rightarrow> FTP_OP \<Rightarrow> outcome" where
  "handle_create_file_reply e s op =
     (if fh s = None then
        (case terminate_session e s of
           Ok s1 \<Rightarrow> Ok (s1\<lparr>op_pending := False\<rparr>)
         | Raise err \<Rightarrow> Raise err
         | Diverges \<Rightarrow> Diverges)
      else if op_opcode op = OP_Ack then send_more_writes e s
      else
        (case terminate_session e s of
           Ok s1 \<Rightarrow> Ok (s1\<lparr>op_pending := False\<rparr>)
         | Raise err \<Rightarrow> Raise err
         | Diverges \<Rightarrow> Diverges))"

subsection \<open>The other reply handlers\<close>

text \<open>
  \<open>bytes.split(sep)\<close> and \<open>str.split(sep)\<close> with a separator given; decoding as
  ASCII, which fails on a byte above 127.
\<close>

fun split_on :: "'a \<Rightarrow> 'a list \<Rightarrow> 'a list list" where
  "split_on sep [] = [[]]"
| "split_on sep (x # xs) =
     (if x = sep then [] # split_on sep xs
      else (case split_on sep xs of
              [] \<Rightarrow> [[x]]
            | y # ys \<Rightarrow> (x # y) # ys))"

definition ascii_decode :: "byte list \<Rightarrow> string option" where
  "ascii_decode d =
     (if \<forall>b \<in> set d. uint b < 128 then Some (map (\<lambda>b. char_of (uint b)) d) else None)"

text \<open>The \<open>for d in dentries\<close> loop of \<open>__handle_list_reply\<close>.\<close>

fun list_entries :: "env \<Rightarrow> byte list list \<Rightarrow> ftp_state \<Rightarrow> outcome" where
  "list_entries e [] s = Ok s"
| "list_entries e (d # ds) s =
     (if d = [] then list_entries e ds s
      else
        (let s1 = s\<lparr>dir_offset := dir_offset s + 1\<rparr> in
         case ascii_decode d of
           None \<Rightarrow> list_entries e ds s1
         | Some str \<Rightarrow>
             if hd str = CHR ''D'' then list_entries e ds s1
             else if hd str = CHR ''F'' then
               (case split_on (CHR 0x09) (tl str) of
                  [name, sz] \<Rightarrow>
                    (case py_int e sz of
                       None \<Rightarrow> Raise ValueError
                     | Some n \<Rightarrow> list_entries e ds (s1\<lparr>total_size := total_size s1 + n\<rparr>))
                | _ \<Rightarrow> Raise ValueError)
             else list_entries e ds s1))"

text \<open>\<open>MAVFTP.__handle_list_reply\<close>.\<close>

definition handle_list_reply :: "env \<Rightarrow> ftp_state \<Rightarrow> FTP_OP \<Rightarrow> outcome" where
  "handle_list_reply e s op =
     (if op_opcode op = OP_Ack then
        (case op_payload op of
           None \<Rightarrow> Raise AttributeError
         | Some p \<Rightarrow>
             (case list_entries e (sort (split_on 0 p)) s of
                Ok s1 \<Rightarrow>
                  (case last_op s1 of
                     None \<Rightarrow> Raise AttributeError
                   | Some more_op \<Rightarrow> send e s1 (more_op\<lparr>op_offset := dir_offset s1\<rparr>))
              | Raise err \<Rightarrow> Raise err
              | Diverges \<Rightarrow> Diverges))
      else
        (case op_payload op of
           None \<Rightarrow> (if op_opcode op = OP_Nack then Raise TypeError else Ok s)
         | Some p \<Rightarrow>
             if op_opcode op = OP_Nack \<and> length p = 1 \<and> uint (hd p) = ERR_EndOfFile
             then Ok (s\<lparr>total_size := 0, op_pending := False\<rparr>)
             else Ok s))"

text \<open>
  \<open>MAVFTP.__handle_open_ro_reply\<close>. The sink is a fresh \<open>BytesIO\<close> when there is a
  callback or the local name is \<open>-\<close>, otherwise a file opened for writing, which can
  fail.
\<close>

definition handle_open_ro_reply :: "env \<Rightarrow> ftp_state \<Rightarrow> FTP_OP \<Rightarrow> outcome" where
  "handle_open_ro_reply e s op =
     (if op_opcode op = OP_Ack then
        (if filename s = None then Ok s
         else if \<not> (callback s \<or> filename s = Some ''-'') \<and> open_fails e
         then terminate_session e s
         else
           (let s1 = s\<lparr>fh := Some \<lparr>fdata = [], fpos = 0\<rparr>\<rparr>;
                read = \<lparr>op_seq = seq s1, op_session = session s1,
                        op_opcode = OP_BurstReadFile, op_size = burst_size s1,
                        op_req_opcode = 0, op_burst_complete = 0, op_offset = 0,
                        op_payload = None\<rparr>
            in send e (s1\<lparr>last_burst_read := Some (now e)\<rparr>) read))
      else terminate_session e s)"

text \<open>
  \<open>__handle_remove_reply\<close>, \<open>__handle_rename_reply\<close> and \<open>__handle_mkdir_reply\<close> log a
  failure and clear \<open>op_pending\<close>.
\<close>

definition handle_remove_reply :: "ftp_state \<Rightarrow> FTP_OP \<Rightarrow> outcome" where
  "handle_remove_reply s op = Ok (s\<lparr>op_pending := False\<rparr>)"

definition handle_rename_reply :: "ftp_state \<Rightarrow> FTP_OP \<Rightarrow> outcome" where
  "handle_rename_reply s op = Ok (s\<lparr>op_pending := False\<rparr>)"

definition handle_mkdir_reply :: "ftp_state \<Rightarrow> FTP_OP \<Rightarrow> outcome" where
  "handle_mkdir_reply s op = Ok (s\<lparr>op_pending := False\<rparr>)"

text \<open>
  \<open>MAVFTP.__handle_crc_reply\<close>: \<open>struct.unpack("<I", payload)\<close> needs four bytes, and
  the log line subtracts \<open>op_start\<close> from the clock.
\<close>

definition handle_crc_reply :: "ftp_state \<Rightarrow> FTP_OP \<Rightarrow> outcome" where
  "handle_crc_reply s op =
     (if op_opcode op = OP_Ack \<and> op_size op = 4 then
        (case op_payload op of
           None \<Rightarrow> Raise TypeError
         | Some p \<Rightarrow>
             if length p \<noteq> 4 then Raise StructError
             else if op_start s = None then Raise TypeError
             else Ok (s\<lparr>op_pending := False\<rparr>))
      else Ok (s\<lparr>op_pending := False\<rparr>))"

subsection \<open>Incoming packets and the idle task\<close>

text \<open>\<open>MAVFTP.__mavlink_packet\<close>.\<close>

definition mavlink_packet :: "env \<Rightarrow> ftp_state \<Rightarrow> mavlink_message \<Rightarrow> outcome" where
  "mavlink_packet e s m =
     (if m_type m = ''FILE_TRANSFER_PROTOCOL'' then
        (if m_target_system m \<noteq> source_system s \<or> m_target_component m \<noteq> source_component s
         then Ok s
         else
           (case op_parse m of
              Inl err \<Rightarrow> Raise err
            | Inr op \<Rightarrow>
                (let dt = now e - last_op_time s;
                     s1 = s\<lparr>last_op_time := now e\<rparr>
                 in if ftp_settings_pkt_loss_rx s1 > 0 \<and> rand_rx e < ftp_settings_pkt_loss_rx s1
                    then Ok s1
                    else
                      (case last_op s1 of
                         None \<Rightarrow> Raise AttributeError
                       | Some lop \<Rightarrow>
                           (let s2 = (if op_req_opcode op = op_opcode lop
                                         \<and> op_seq op = (op_seq lop + 1) mod 256
                                      then s1\<lparr>rtt := max (min (rtt s1) dt) 0.01\<rparr>
                                      else s1)
                            in if op_req_opcode op = OP_ListDirectory
                                 then handle_list_reply e s2 op
                               else if op_req_opcode op = OP_OpenFileRO
                                 then handle_open_ro_reply e s2 op
                               else if op_req_opcode op = OP_BurstReadFile
                                 then handle_burst_read e s2 op
                               else if op_req_opcode op = OP_TerminateSession
                                 then Ok s2
                               else if op_req_opcode op = OP_CreateFile
                                 then handle_create_file_reply e s2 op
                               else if op_req_opcode op = OP_WriteFile
                                 then handle_write_reply e s2 op
                               else if op_req_opcode op = OP_RemoveFile
                                       \<or> op_req_opcode op = OP_RemoveDirectory
                                 then handle_remove_reply s2 op
                               else if op_req_opcode op = OP_Rename
                                 then handle_rename_reply s2 op
                               else if op_req_opcode op = OP_CreateDirectory
                                 then handle_mkdir_reply s2 op
                               else if op_req_opcode op = OP_ReadFile
                                 then handle_reply_read e s2 op
                               else if op_req_opcode op = OP_CalcFileCRC32
                                 then handle_crc_reply s2 op
                               else Ok s2)))))
      else Ok s)"

text \<open>
  \<open>MAVFTP.__idle_task\<close>, first part: a lost reply to \<open>OpenFileRO\<close>. The flag of the
  result is \<open>True\<close> when the method has returned.
\<close>

definition idle_open_retry :: "env \<Rightarrow> ftp_state \<Rightarrow> (bool \<times> ftp_state) result" where
  "idle_open_retry e s =
     (case op_start s of
        None \<Rightarrow> Ok (False, s)
      | Some t0 \<Rightarrow>
          if now e - t0 > 1.0 then
            (case last_op s of
               None \<Rightarrow> Raise AttributeError
             | Some send_op \<Rightarrow>
                 if op_opcode send_op = OP_OpenFileRO then
                   (let s1 = s\<lparr>op_start := Some (now e), open_retries := open_retries s + 1\<rparr>
                    in if open_retries s1 > 2 then
                         (case terminate_session e (s1\<lparr>op_start := None\<rparr>) of
                            Ok s2 \<Rightarrow> Ok (True, s2)
                          | Raise err \<Rightarrow> Raise err
                          | Diverges \<Rightarrow> Diverges)
                       else
                         (case send e s1 \<lparr>op_seq = seq s1, op_session = session s1,
                                          op_opcode = OP_TerminateSession, op_size = 0,
                                          op_req_opcode = 0, op_burst_complete = 0,
                                          op_offset = 0, op_payload = None\<rparr> of
                            Ok s2 \<Rightarrow>
                              (let s3 = s2\<lparr>session := (session s2 + 1) mod 256\<rparr> in
                               case send e s3 (send_op\<lparr>op_session := session s3\<rparr>) of
                                 Ok s4 \<Rightarrow> Ok (False, s4)
                               | Raise err \<Rightarrow> Raise err
                               | Diverges \<Rightarrow> Diverges)
                          | Raise err \<Rightarrow> Raise err
                          | Diverges \<Rightarrow> Diverges))
                 else Ok (False, s))
          else Ok (False, s))"

text \<open>\<open>MAVFTP.__idle_task\<close>.\<close>

definition idle_task :: "env \<Rightarrow> ftp_state \<Rightarrow> outcome" where
  "idle_task e s0 =
     (case idle_open_retry e s0 of
        Ok (True, s) \<Rightarrow> Ok s
      | Ok (False, s) \<Rightarrow>
          if read_gaps s = [] \<and> last_burst_read s = None \<and> write_list s = None then Ok s
          else
            (case fh s of
               None \<Rightarrow> Ok s
             | Some f \<Rightarrow>
                 (let r = (case last_burst_read s of
                             None \<Rightarrow> Ok s
                           | Some t \<Rightarrow>
                               if \<not> reached_eof s \<and> now e - t > ftp_settings_retry_time s then
                                 (case send e (s\<lparr>last_burst_read := Some (now e)\<rparr>)
                                         \<lparr>op_seq = seq s, op_session = session s,
                                          op_opcode = OP_BurstReadFile, op_size = burst_size s,
                                          op_req_opcode = 0, op_burst_complete = 0,
                                          op_offset = file_tell f, op_payload = None\<rparr> of
                                    Ok s1 \<Rightarrow> Ok (s1\<lparr>read_retries := read_retries s1 + 1\<rparr>)
                                  | Raise err \<Rightarrow> Raise err
                                  | Diverges \<Rightarrow> Diverges)
                               else Ok s)
                  in case r of
                       Ok s1 \<Rightarrow> check_read_send e s1
                     | Raise err \<Rightarrow> Raise err
                     | Diverges \<Rightarrow> Diverges))
      | Raise err \<Rightarrow> Raise err
      | Diverges \<Rightarrow> Diverges)"

subsection \<open>Starting a put\<close>

text \<open>\<open>bytearray(name, 'ascii')\<close>: a character above 127 is a \<open>UnicodeEncodeError\<close>.\<close>

definition ascii_encode :: "string \<Rightarrow> byte list option" where
  "ascii_encode str =
     (if \<forall>c \<in> set str. (of_char c :: nat) < 128
      then Some (map (\<lambda>c. word_of_nat (of_char c)) str) else None)"

text \<open>
  \<open>MAVFTP.cmd_put\<close>. \<open>fh_arg\<close> is the handle the caller supplies, if any;
  \<open>callback_arg\<close> and \<open>progress_callback\<close> tell whether the callbacks are given.
  \<open>set(range(n))\<close> is the set of the integers from 0 below \<open>n\<close>.
\<close>

definition cmd_put ::
  "env \<Rightarrow> ftp_state \<Rightarrow> string list \<Rightarrow> pyfile option \<Rightarrow> bool \<Rightarrow> bool \<Rightarrow> outcome" where
  "cmd_put e s args fh_arg callback_arg progress_callback =
     (case args of
        [] \<Rightarrow> Ok s
      | fname # rest \<Rightarrow>
          if write_list s \<noteq> None then Ok s
          else
            (case (case fh_arg of
                     Some f \<Rightarrow> Some f
                   | None \<Rightarrow> (case open_rb e fname of
                                None \<Rightarrow> None
                              | Some d \<Rightarrow> Some \<lparr>fdata = d, fpos = 0\<rparr>)) of
               None \<Rightarrow> Ok (s\<lparr>fh := None\<rparr>)
             | Some f \<Rightarrow>
                 (let fn0 = (case rest of [] \<Rightarrow> basename e fname | a # _ \<Rightarrow> a);
                      fn = (if fn0 \<noteq> [] \<and> last fn0 = CHR ''/''
                            then fn0 @ basename e fname else fn0);
                      file_size = int (length (fdata f));
                      bsize = ftp_settings_write_size s
                  in if bsize = 0 then Raise ZeroDivisionError
                     else
                       (let write_blockcount =
                              (if file_size mod bsize \<noteq> 0 then file_size div bsize + 1
                               else file_size div bsize);
                            s1 = s\<lparr>fh := Some (f\<lparr>fpos := 0\<rparr>), filename := Some fn,
                                   write_block_size := bsize, write_file_size := file_size,
                                   write_list := Some {0..<write_blockcount},
                                   write_acks := 0, write_total := write_blockcount,
                                   write_idx := 0, write_recv_idx := - 1,
                                   write_pending := 0, write_last_send := None,
                                   put_callback := callback_arg,
                                   put_callback_progress := progress_callback,
                                   read_retries := 0, op_start := Some (now e)\<rparr>
                        in case ascii_encode fn of
                             None \<Rightarrow> Raise UnicodeEncodeError
                           | Some enc_fname \<Rightarrow>
                               send e s1 \<lparr>op_seq = seq s1, op_session = session s1,
                                          op_opcode = OP_CreateFile,
                                          op_size = int (length enc_fname),
                                          op_req_opcode = 0, op_burst_complete = 0,
                                          op_offset = 0, op_payload = Some enc_fname\<rparr>))))"

subsection \<open>The parameter blob decoder\<close>

text \<open>
  A decoded value: an integer (formats \<open>b\<close>, \<open>h\<close>, \<open>i\<close>) or a single-precision float
  (format \<open>f\<close>), kept as its four bytes.
\<close>

datatype pvalue = IntValue int | FloatValue "byte list"

type_synonym param = "byte list \<times> pvalue \<times> int"

text \<open>\<open>class ParamData\<close>: \<open>defaults\<close> is \<open>None\<close> until the first default is added.\<close>

record ParamData =
  params :: "param list"
  defaults :: "param list option"

definition add_param :: "ParamData \<Rightarrow> byte list \<Rightarrow> pvalue \<Rightarrow> int \<Rightarrow> ParamData" where
  "add_param pd name v ptype = pd\<lparr>params := params pd @ [(name, v, ptype)]\<rparr>"

definition add_default :: "ParamData \<Rightarrow> byte list \<Rightarrow> pvalue \<Rightarrow> int \<Rightarrow> ParamData" where
  "add_default pd name v ptype =
     pd\<lparr>defaults := Some ((case defaults pd of None \<Rightarrow> [] | Some ds \<Rightarrow> ds)
                            @ [(name, v, ptype)])\<rparr>"

text \<open>The table \<open>data_types\<close>: type tag to length and \<open>struct\<close> format.\<close>

definition data_types :: "int \<Rightarrow> (nat \<times> char) option" where
  "data_types ptype =
     (if ptype = 1 then Some (1, CHR ''b'')
      else if ptype = 2 then Some (2, CHR ''h'')
      else if ptype = 3 then Some (4, CHR ''i'')
      else if ptype = 4 then Some (4, CHR ''f'')
      else None)"

text \<open>
  \<open>struct.unpack("<" + fmt, bs)\<close> for one value of the format \<open>fmt\<close>; \<open>bs\<close> has the
  format's length. The integer formats are signed.
\<close>

definition unpack_value :: "char \<Rightarrow> byte list \<Rightarrow> pvalue" where
  "unpack_value fmt bs =
     (if fmt = CHR ''b'' then IntValue (sint (bs ! 0))
      else if fmt = CHR ''h'' then
        (let u = unpack_H (bs ! 0) (bs ! 1) in
         IntValue (if u \<ge> 32768 then u - 65536 else u))
      else if fmt = CHR ''i'' then
        (let u = unpack_I (bs ! 0) (bs ! 1) (bs ! 2) (bs ! 3) in
         IntValue (if u \<ge> 2147483648 then u - 4294967296 else u))
      else FloatValue bs)"

text \<open>
  One turn of the \<open>while True\<close> loop of \<open>ftp_param_decode\<close>, up to the values read:
  the input is used up, a \<open>struct.unpack\<close> fails, the type is unknown, or a record is
  read, with its \<open>has_default\<close> flag, name, value, default (the value again when the
  record has none), type and the remaining input.
\<close>

datatype param_step =
    StepEnd
  | StepRaise error
  | StepBadType
  | StepRecord bool "byte list" pvalue pvalue int "byte list"

definition param_record :: "bool \<Rightarrow> byte list \<Rightarrow> byte list \<Rightarrow> param_step" where
  "param_record with_defaults data0 last_name =
     (let data = dropWhile (\<lambda>b. b = 0) data0 in
      if data = [] then StepEnd
      else if length (take 2 data) \<noteq> 2 then StepRaise StructError
      else
        (let ptype0 = uint (data ! 0);
             plen = uint (data ! 1);
             flags = (drop_bit 4 ptype0) AND 0x0F;
             has_default = (with_defaults \<and> (flags AND 1) \<noteq> 0);
             ptype = ptype0 AND 0x0F
         in case data_types ptype of
              None \<Rightarrow> StepBadType
            | Some (type_len, type_format) \<Rightarrow>
                (let default_len = (if has_default then type_len else 0);
                     name_len = nat ((drop_bit 4 plen) AND 0x0F) + 1;
                     common_len = nat (plen AND 0x0F);
                     name = take common_len last_name @ take name_len (drop 2 data);
                     vdata = take (type_len + default_len) (drop (2 + name_len) data);
                     rest = drop (2 + name_len + type_len + default_len) data
                 in if length vdata \<noteq> type_len + default_len then StepRaise StructError
                    else if has_default then
                      StepRecord True name (unpack_value type_format (take type_len vdata))
                        (unpack_value type_format (drop type_len vdata)) ptype rest
                    else
                      StepRecord False name (unpack_value type_format vdata)
                        (unpack_value type_format vdata) ptype rest)))"

text \<open>
  The loop: each record is added to the parameters and, when the blob carries
  defaults, to the defaults. The result is the count and the data collected, \<open>None\<close>
  for the \<open>return None\<close> on an unknown type.
\<close>

function param_loop ::
  "bool \<Rightarrow> byte list \<Rightarrow> byte list \<Rightarrow> int \<Rightarrow> ParamData \<Rightarrow> error + (int \<times> ParamData) option"
where
  "param_loop with_defaults data last_name count pdata =
     (case param_record with_defaults data last_name of
        StepEnd \<Rightarrow> Inr (Some (count, pdata))
      | StepRaise err \<Rightarrow> Inl err
      | StepBadType \<Rightarrow> Inr None
      | StepRecord has_default name v vdef ptype rest \<Rightarrow>
          param_loop with_defaults rest name (count + 1)
            (if with_defaults then
               (if has_default
                then add_default (add_param pdata name v ptype) name vdef ptype
                else add_default (add_param pdata name v ptype) name v ptype)
             else add_param pdata name v ptype))"
  by pat_completeness auto
termination
proof (relation "measure (\<lambda>(with_defaults, data, last_name, count, pdata). length data)")
  show "wf (measure (\<lambda>(with_defaults, data, last_name, count, pdata). length data))"
    by simp
next
  fix with_defaults :: bool and data last_name :: "byte list" and count :: int
    and pdata :: ParamData and has_default name v vdef ptype rest
  assume step: "param_record with_defaults data last_name
                = StepRecord has_default name v vdef ptype rest"
  let ?d = "dropWhile (\<lambda>b. b = 0) data"
  have le: "length ?d \<le> length data"
    by (rule length_dropWhile_le)
  have ne: "?d \<noteq> []"
  proof
    assume "?d = []"
    then have "param_record with_defaults data last_name = StepEnd"
      by (simp add: param_record_def)
    with step show False by simp
  qed
  from step have "\<exists>k. rest = drop (Suc k) ?d"
    by (auto simp: param_record_def Let_def split: if_splits option.splits)
  then obtain k where "rest = drop (Suc k) ?d" ..
  with ne have "length rest < length ?d"
    by (cases ?d) auto
  with le show "((with_defaults, rest, name, count + 1,
           if with_defaults
           then if has_default
                then add_default (add_param pdata name v ptype) name vdef ptype
                else add_default (add_param pdata name v ptype) name v ptype
           else add_param pdata name v ptype),
          with_defaults, data, last_name, count, pdata)
         \<in> measure (\<lambda>(with_defaults, data, last_name, count, pdata). length data)"
    by simp
qed

text \<open>
  \<open>MAVFTP.ftp_param_decode\<close>: \<open>Inr None\<close> is the \<open>return None\<close> of the source,
  \<open>Inl\<close> an exception.
\<close>

definition ftp_param_decode :: "byte list \<Rightarrow> error + ParamData option" where
  "ftp_param_decode data =
     (if length data < 6 then Inr None
      else
        (let magic2 = unpack_H (data ! 0) (data ! 1);
             total_params = unpack_H (data ! 4) (data ! 5)
         in if magic2 \<noteq> 0x671b \<and> magic2 \<noteq> 0x671c then Inr None
            else
              (let with_defaults = (magic2 = 0x671c) in
               case param_loop with_defaults (drop 6 data) [] 0
                      \<lparr>params = [], defaults = None\<rparr> of
                 Inl err \<Rightarrow> Inl err
               | Inr None \<Rightarrow> Inr None
               | Inr (Some (count, pdata)) \<Rightarrow>
                   if count \<noteq> total_params then Inr None else Inr (Some pdata))))"

section \<open>Notions used to state the properties\<close>

subsection \<open>The wire buffer\<close>

text \<open>
  The bytes of a frame's payload (\<open>None\<close> adds none), the 12-byte header that
  \<open>struct.pack\<close> produces, the 251-byte buffer made of the header, the payload and the
  zero padding, and the condition under which \<open>struct.pack\<close> accepts the fields.
\<close>

definition payload_bytes :: "FTP_OP \<Rightarrow> byte list" where
  "payload_bytes op = (case op_payload op of None \<Rightarrow> [] | Some p \<Rightarrow> p)"

definition header :: "FTP_OP \<Rightarrow> byte list" where
  "header op = pack_H (op_seq op) @ pack_B (op_session op) @ pack_B (op_opcode op)
                   @ pack_B (op_size op) @ pack_B (op_req_opcode op)
                   @ pack_B (op_burst_complete op) @ pack_B 0 @ pack_I (op_offset op)"

definition wire_buffer :: "FTP_OP \<Rightarrow> byte list" where
  "wire_buffer op =
     header op @ payload_bytes op @ replicate (MAX_Payload - length (payload_bytes op)) 0"

definition wire_fits :: "FTP_OP \<Rightarrow> bool" where
  "wire_fits op \<longleftrightarrow> fits_H (op_seq op) \<and> fits_B (op_session op) \<and> fits_B (op_opcode op)
     \<and> fits_B (op_size op) \<and> fits_B (op_req_opcode op) \<and> fits_B (op_burst_complete op)
     \<and> fits_I (op_offset op)"

subsection \<open>Puts\<close>


text \<open>
  The remote name \<open>cmd_put\<close> computes from its arguments, the \<open>CreateFile\<close> and
  \<open>TerminateSession\<close> frames it and \<open>__terminate_session\<close> build, and the engine state
  after \<open>cmd_put\<close> has started the put of an empty file with both callbacks given.
\<close>

definition put_remote_name :: "env \<Rightarrow> string \<Rightarrow> string list \<Rightarrow> string" where
  "put_remote_name e fname rest =
     (let fn0 = (case rest of [] \<Rightarrow> basename e fname | a # _ \<Rightarrow> a)
      in if fn0 \<noteq> [] \<and> last fn0 = CHR ''/'' then fn0 @ basename e fname else fn0)"

definition create_file_op :: "ftp_state \<Rightarrow> byte list \<Rightarrow> FTP_OP" where
  "create_file_op s enc = \<lparr>op_seq = seq s, op_session = session s, op_opcode = OP_CreateFile,
     op_size = int (length enc), op_req_opcode = 0, op_burst_complete = 0, op_offset = 0,
     op_payload = Some enc\<rparr>"

definition terminate_op :: "int \<Rightarrow> int \<Rightarrow> FTP_OP" where
  "terminate_op sq sess = \<lparr>op_seq = sq, op_session = sess, op_opcode = OP_TerminateSession,
     op_size = 0, op_req_opcode = 0, op_burst_complete = 0, op_offset = 0,
     op_payload = None\<rparr>"

definition put_started :: "env \<Rightarrow> ftp_state \<Rightarrow> string \<Rightarrow> byte list \<Rightarrow> ftp_state" where
  "put_started e s fn enc =
     s\<lparr>fh := Some \<lparr>fdata = [], fpos = 0\<rparr>, filename := Some fn,
       write_block_size := ftp_settings_write_size s, write_file_size := 0,
       write_list := Some {}, write_acks := 0, write_total := 0,
       write_idx := 0, write_recv_idx := - 1, write_pending := 0, write_last_send := None,
       put_callback := True, put_callback_progress := True,
       read_retries := 0, op_start := Some (now e),
       sent := sent s @ [wire_buffer (create_file_op s enc)],
       seq := (seq s + 1) mod 256,
       last_op := Some (create_file_op s enc),
       last_op_time := now e,
       op_pending := True\<rparr>"

subsection \<open>Parameter tables\<close>

text \<open>
  The defaults of a decoded table as a list: no list (\<open>None\<close>) counts as no entries.
\<close>

definition the_defaults :: "ParamData \<Rightarrow> param list" where
  "the_defaults pd = (case defaults pd of None \<Rightarrow> [] | Some ds \<Rightarrow> ds)"

text \<open>
  The records of a parameter blob in order, as the decoder's loop reads them: the
  \<open>has_default\<close> flag, the name, the value, the default read and the type of each.
\<close>

function param_records ::
  "bool \<Rightarrow> byte list \<Rightarrow> byte list \<Rightarrow> (bool \<times> byte list \<times> pvalue \<times> pvalue \<times> int) list"
where
  "param_records with_defaults data last_name =
     (case param_record with_defaults data last_name of
        StepRecord has_default name v vdef ptype rest \<Rightarrow>
          (has_default, name, v, vdef, ptype) # param_records with_defaults rest name
      | _ \<Rightarrow> [])"
  by pat_completeness auto
termination
proof (relation "measure (\<lambda>(with_defaults, data, last_name). length data)")
  show "wf (measure (\<lambda>(with_defaults, data, last_name). length data))"
    by simp
next
  fix with_defaults :: bool and data last_name :: "byte list"
    and has_default name v vdef ptype rest
  assume step: "param_record with_defaults data last_name
                = StepRecord has_default name v vdef ptype rest"
  let ?d = "dropWhile (\<lambda>b. b = 0) data"
  have le: "length ?d \<le> length data"
    by (rule length_dropWhile_le)
  have ne: "?d \<noteq> []"
  proof
    assume "?d = []"
    then have "param_record with_defaults data last_name = StepEnd"
      by (simp add: param_record_def)
    with step show False by simp
  qed
  from step have "\<exists>k. rest = drop (Suc k) ?d"
    by (auto simp: param_record_def Let_def split: if_splits option.splits)
  then obtain k where "rest = drop (Suc k) ?d" ..
  with ne have "length rest < length ?d"
    by (cases ?d) auto
  with le show "((with_defaults, rest, name), with_defaults, data, last_name)
         \<in> measure (\<lambda>(with_defaults, data, last_name). length data)"
    by simp
qed

text \<open>
  The \<open>has_default\<close> flags of the records that follow the six-byte header, for a blob
  with defaults.
\<close>

definition default_flags :: "byte list \<Rightarrow> bool list" where
  "default_flags data = map fst (param_records True (drop 6 data) [])"

declare param_loop.simps [simp del] param_records.simps [simp del]

subsection \<open>Reads\<close>

text \<open>
  The \<open>ReadFile\<close> frame \<open>__send_gap_read\<close> builds for a gap, the engine state after
  that gap read has been sent, and the state after \<open>__check_read_send\<close> has reset a
  head gap whose retry time has passed (\<open>tg\<close> is the gap's last-send time).
\<close>

definition gap_read_op :: "ftp_state \<Rightarrow> gap \<Rightarrow> FTP_OP" where
  "gap_read_op s g = \<lparr>op_seq = seq s, op_session = session s, op_opcode = OP_ReadFile,
     op_size = snd g, op_req_opcode = 0, op_burst_complete = 0, op_offset = fst g,
     op_payload = None\<rparr>"

definition gap_read_sent :: "env \<Rightarrow> ftp_state \<Rightarrow> gap \<Rightarrow> ftp_state" where
  "gap_read_sent e s g =
     s\<lparr>sent := sent s @ [wire_buffer (gap_read_op s g)],
       seq := (seq s + 1) mod 256,
       last_op := Some (gap_read_op s g),
       last_op_time := now e,
       op_pending := True,
       read_gaps := remove1 g (read_gaps s) @ [g],
       last_gap_send := now e,
       read_gap_times := AList.update g (now e) (read_gap_times s),
       backlog := backlog s + 1\<rparr>"

definition gap_retry_reset :: "env \<Rightarrow> ftp_state \<Rightarrow> gap \<Rightarrow> real \<Rightarrow> ftp_state" where
  "gap_retry_reset e s g tg =
     (if tg > 0 \<and> now e - tg > ftp_settings_retry_time s
      then s\<lparr>backlog := (if backlog s > 0 then backlog s - 1 else backlog s),
             read_gap_times := AList.update g 0 (read_gap_times s)\<rparr>
      else s)"

text \<open>
  The gaps \<open>gs\<close>, in order, tile the byte range from \<open>a\<close> up to \<open>b\<close>: the first starts
  at \<open>a\<close>, each next one starts where the one before ends, the last ends at \<open>b\<close>.
\<close>

fun tiles :: "gap list \<Rightarrow> int \<Rightarrow> int \<Rightarrow> bool" where
  "tiles [] a b \<longleftrightarrow> a = b"
| "tiles (g # gs) a b \<longleftrightarrow> fst g = a \<and> tiles gs (a + snd g) b"

text \<open>
  The engine state after \<open>__handle_burst_read\<close> has noted the arrival of a reply with
  the payload \<open>p\<close>: the time of the last burst read, and the burst size raised to 239
  when the payload is longer than the burst size.
\<close>

definition burst_received :: "env \<Rightarrow> ftp_state \<Rightarrow> byte list \<Rightarrow> ftp_state" where
  "burst_received e s p =
     s\<lparr>last_burst_read := Some (now e),
       burst_size := (if int (length p) > burst_size s then 239 else burst_size s)\<rparr>"

text \<open>
  What sending gap reads leaves alone: the callback calls made, the sink, the local
  name, the session, the EOF flag, the duplicates counter, the completion callback,
  the burst size and the start time are the same, the gap list holds the same gaps,
  and frames are only added to those sent.
\<close>

definition gap_reads_only :: "ftp_state \<Rightarrow> ftp_state \<Rightarrow> bool" where
  "gap_reads_only s s' \<longleftrightarrow>
     events s' = events s \<and> fh s' = fh s \<and> filename s' = filename s
     \<and> session s' = session s \<and> reached_eof s' = reached_eof s
     \<and> duplicates s' = duplicates s \<and> callback s' = callback s
     \<and> burst_size s' = burst_size s \<and> op_start s' = op_start s
     \<and> set (read_gaps s') = set (read_gaps s)
     \<and> (\<exists>bufs. sent s' = sent s @ bufs)"

text \<open>
  A callback call that hands over the assembled file, and the calls of this kind that
  the engine has made.
\<close>

fun is_delivery :: "event \<Rightarrow> bool" where
  "is_delivery (Callback (Some d)) = True"
| "is_delivery _ = False"

definition deliveries :: "ftp_state \<Rightarrow> event list" where
  "deliveries s = filter is_delivery (events s)"


text \<open>
  The \<open>BurstReadFile\<close> request \<open>__idle_task\<close> builds when a burst has stalled, at the
  sink position, and the engine state after the idle task has re-sent it.
\<close>

definition burst_read_op :: "ftp_state \<Rightarrow> pyfile \<Rightarrow> FTP_OP" where
  "burst_read_op s f = \<lparr>op_seq = seq s, op_session = session s, op_opcode = OP_BurstReadFile,
     op_size = burst_size s, op_req_opcode = 0, op_burst_complete = 0,
     op_offset = file_tell f, op_payload = None\<rparr>"

definition burst_retried :: "env \<Rightarrow> ftp_state \<Rightarrow> pyfile \<Rightarrow> ftp_state" where
  "burst_retried e s f =
     s\<lparr>last_burst_read := Some (now e),
       sent := sent s @ [wire_buffer (burst_read_op s f)],
       seq := (seq s + 1) mod 256,
       last_op := Some (burst_read_op s f),
       last_op_time := now e,
       op_pending := True,
       read_retries := read_retries s + 1\<rparr>"


text \<open>
  A burst read reply that makes \<open>__handle_burst_read\<close> set \<open>reached_eof\<close>: an Ack with
  \<open>burst_complete\<close> set and a size above 0 and below the burst size (raised to 239 by
  an oversize payload), or a Nack whose error code is \<open>EndOfFile\<close> or 0.
\<close>

definition signals_eof :: "ftp_state \<Rightarrow> FTP_OP \<Rightarrow> byte list \<Rightarrow> bool" where
  "signals_eof s op p \<longleftrightarrow>
     op_opcode op = OP_Ack \<and> op_burst_complete op \<noteq> 0 \<and> 0 < op_size op
       \<and> op_size op < (if int (length p) > burst_size s then 239 else burst_size s)
     \<or> op_opcode op = OP_Nack
       \<and> (\<exists>c cs. p = c # cs \<and> (uint c = ERR_EndOfFile \<or> uint c = 0))"

subsection \<open>Example inputs\<close>

text \<open>
  An environment with the clock at \<open>t\<close>, the engine as constructed, and frames and
  messages used to run the definitions on concrete inputs.
\<close>

definition ex_env :: "real \<Rightarrow> env" where
  "ex_env t = \<lparr>now = t, rand_rx = 50, rand_tx = 50, open_fails = False,
              open_rb = (\<lambda>_. Some []), basename = (\<lambda>n. n),
              utf8_decodes = (\<lambda>_. True), py_int = (\<lambda>_. None)\<rparr>"

definition ex_init :: ftp_state where
  "ex_init = MAVFTP_init 0 255 0 1 1"

definition ex_burst_request :: FTP_OP where
  "ex_burst_request = \<lparr>op_seq = 0, op_session = 0, op_opcode = OP_BurstReadFile, op_size = 80,
     op_req_opcode = 0, op_burst_complete = 0, op_offset = 0, op_payload = None\<rparr>"

definition ex_msg :: "byte list \<Rightarrow> mavlink_message" where
  "ex_msg buf = \<lparr>m_type = ''FILE_TRANSFER_PROTOCOL'', m_target_system = 255,
     m_target_component = 0, m_payload = buf\<rparr>"

definition ex_open_request :: FTP_OP where
  "ex_open_request = \<lparr>op_seq = 0, op_session = 0, op_opcode = OP_OpenFileRO, op_size = 2,
     op_req_opcode = 0, op_burst_complete = 0, op_offset = 0, op_payload = Some [97, 98]\<rparr>"



definition ex_create_ack :: FTP_OP where
  "ex_create_ack = \<lparr>op_seq = 1, op_session = 0, op_opcode = OP_Ack, op_size = 0,
     op_req_opcode = OP_CreateFile, op_burst_complete = 0, op_offset = 0,
     op_payload = Some []\<rparr>"

definition ex_param_blob :: "byte list" where
  "ex_param_blob =
     [0x1c, 0x67, 2, 0, 2, 0,
      0x04, 0x20, 0x46, 0x4f, 0x4f, 0x00, 0x00, 0x80, 0x3f,
      0x14, 0x23, 0x42, 0x41, 0x52, 0x00, 0x00, 0x20, 0x40, 0x00, 0x00, 0x00, 0x00]"

definition ex_param_data :: ParamData where
  "ex_param_data =
     \<lparr>params = [([0x46, 0x4f, 0x4f], FloatValue [0x00, 0x00, 0x80, 0x3f], 4),
                ([0x46, 0x4f, 0x4f, 0x42, 0x41, 0x52], FloatValue [0x00, 0x00, 0x20, 0x40], 4)],
      defaults = Some
               [([0x46, 0x4f, 0x4f], FloatValue [0x00, 0x00, 0x80, 0x3f], 4),
                ([0x46, 0x4f, 0x4f, 0x42, 0x41, 0x52], FloatValue [0x00, 0x00, 0x00, 0x00], 4)]\<rparr>"

definition ex_eof_state :: ftp_state where
  "ex_eof_state = ex_init\<lparr>fh := Some \<lparr>fdata = replicate 160 7, fpos = 160\<rparr>,
     filename := Some ''f'', callback := True, reached_eof := True,
     read_gaps := [(0, 80)], read_gap_times := [((0, 80), 0)], backlog := 5,
     op_start := Some 0, last_op := Some ex_burst_request, seq := 1\<rparr>"

definition ex_read_state :: ftp_state where
  "ex_read_state = ex_init\<lparr>fh := Some \<lparr>fdata = replicate 80 1, fpos = 80\<rparr>,
     filename := Some ''f'', callback := True, op_start := Some 0,
     last_op := Some ex_burst_request, seq := 1, last_burst_read := Some 0.5,
     read_total := 80\<rparr>"

definition ex_jump_ack :: FTP_OP where
  "ex_jump_ack = \<lparr>op_seq = 1, op_session = 0, op_opcode = OP_Ack, op_size = 80,
     op_req_opcode = OP_BurstReadFile, op_burst_complete = 0, op_offset = 240,
     op_payload = Some (replicate 80 2)\<rparr>"

definition ex_dup_fill :: FTP_OP where
  "ex_dup_fill = \<lparr>op_seq = 2, op_session = 0, op_opcode = OP_Ack, op_size = 40,
     op_req_opcode = OP_ReadFile, op_burst_complete = 0, op_offset = 0,
     op_payload = Some (replicate 40 1)\<rparr>"

definition ex_dup_burst :: FTP_OP where
  "ex_dup_burst = \<lparr>op_seq = 2, op_session = 0, op_opcode = OP_Ack, op_size = 80,
     op_req_opcode = OP_BurstReadFile, op_burst_complete = 0, op_offset = 0,
     op_payload = Some (replicate 80 1)\<rparr>"

definition ex_eof_ack :: FTP_OP where
  "ex_eof_ack = \<lparr>op_seq = 2, op_session = 0, op_opcode = OP_Ack, op_size = 40,
     op_req_opcode = OP_BurstReadFile, op_burst_complete = 1, op_offset = 80,
     op_payload = Some (replicate 40 3)\<rparr>"



definition ex_done_state :: ftp_state where
  "ex_done_state = ex_eof_state\<lparr>read_gaps := [], read_gap_times := []\<rparr>"

definition ex_fill_ack :: FTP_OP where
  "ex_fill_ack = \<lparr>op_seq = 2, op_session = 0, op_opcode = OP_Ack, op_size = 80,
     op_req_opcode = OP_ReadFile, op_burst_complete = 0, op_offset = 0,
     op_payload = Some (replicate 80 9)\<rparr>"

definition ex_eof_nack :: FTP_OP where
  "ex_eof_nack = \<lparr>op_seq = 2, op_session = 0, op_opcode = OP_Nack, op_size = 1,
     op_req_opcode = OP_BurstReadFile, op_burst_complete = 0, op_offset = 160,
     op_payload = Some [6]\<rparr>"




section \<open>Properties\<close>

subsection \<open>The frame codec\<close>

lemma uint_byte_of_int: "uint (word_of_int x :: byte) = x mod 256"
  by (simp add: uint_word_of_int take_bit_eq_mod)

lemma unpack_B_pack: "fits_B x \<Longrightarrow> uint (word_of_int x :: byte) = x"
  by (simp add: uint_byte_of_int fits_B_def)

lemma unpack_H_pack:
  "fits_H x \<Longrightarrow> unpack_H (word_of_int x) (word_of_int (x div 256)) = x"
proof -
  assume "fits_H x"
  then have "0 \<le> x" "x < 65536"
    by (simp_all add: fits_H_def)
  then have "x div 256 mod 256 = x div 256"
    by (intro mod_pos_pos_trivial) (simp_all add: pos_imp_zdiv_nonneg_iff div_less_iff_less_mult)
  then show ?thesis
    by (simp add: unpack_H_def uint_byte_of_int)
qed

lemma unpack_I_pack:
  "fits_I x \<Longrightarrow> unpack_I (word_of_int x) (word_of_int (x div 256))
       (word_of_int (x div 65536)) (word_of_int (x div 16777216)) = x"
proof -
  assume a: "fits_I x"
  have d2: "x div 65536 = x div 256 div 256" and d3: "x div 16777216 = x div 256 div 256 div 256"
    by (simp_all add: div_mult2_eq [symmetric])
  from a have "0 \<le> x" "x < 4294967296"
    by (simp_all add: fits_I_def)
  then have top: "x div 16777216 mod 256 = x div 16777216"
    by (intro mod_pos_pos_trivial) (simp_all add: pos_imp_zdiv_nonneg_iff div_less_iff_less_mult)
  have "x = x mod 256 + 256 * (x div 256)" by simp
  moreover have "x div 256 = x div 256 mod 256 + 256 * (x div 256 div 256)" by simp
  moreover have "x div 256 div 256 = x div 256 div 256 mod 256 + 256 * (x div 256 div 256 div 256)"
    by simp
  ultimately have "x = x mod 256 + 256 * (x div 256 mod 256) + 65536 * (x div 65536 mod 256)
       + 16777216 * (x div 16777216)"
    unfolding d2 d3 by linarith
  then show ?thesis
    by (simp add: unpack_I_def uint_byte_of_int top)
qed

lemma length_header: "length (header op) = 12"
  by (simp add: header_def pack_H_def pack_B_def pack_I_def)

lemma pack_eq:
  "fits_H (op_seq op) \<Longrightarrow> fits_B (op_session op) \<Longrightarrow> fits_B (op_opcode op) \<Longrightarrow>
   fits_B (op_size op) \<Longrightarrow> fits_B (op_req_opcode op) \<Longrightarrow> fits_B (op_burst_complete op) \<Longrightarrow>
   fits_I (op_offset op) \<Longrightarrow> pack op = Inr (header op @ payload_bytes op)"
  by (simp add: pack_def header_def payload_bytes_def split: option.splits)

lemma op_parse_header:
  assumes "fits_H (op_seq op)" "fits_B (op_session op)" "fits_B (op_opcode op)"
    "fits_B (op_size op)" "fits_B (op_req_opcode op)" "fits_B (op_burst_complete op)"
    "fits_I (op_offset op)"
  shows "op_parse (m\<lparr>m_payload := header op @ rest\<rparr>)
         = Inr (op\<lparr>op_payload := Some (take (nat (op_size op)) rest)\<rparr>)"
  using assms
  by (simp add: op_parse_def header_def pack_H_def pack_B_def pack_I_def Let_def
      unpack_B_pack unpack_H_pack unpack_I_pack)

lemma length_wire_buffer:
  "length (payload_bytes op) \<le> 239 \<Longrightarrow> length (wire_buffer op) = 251"
  by (simp add: wire_buffer_def length_header)

lemma send_eq:
  assumes "wire_fits (op\<lparr>op_seq := seq s\<rparr>)" "length (payload_bytes op) \<le> 239"
  shows "send e s op = Ok (s\<lparr>sent := sent s @ [wire_buffer (op\<lparr>op_seq := seq s\<rparr>)],
                    seq := (seq s + 1) mod 256,
                    last_op := Some (op\<lparr>op_seq := seq s\<rparr>),
                    last_op_time := now e,
                    op_pending := True\<rparr>)"
proof -
  let ?op = "op\<lparr>op_seq := seq s\<rparr>"
  have pb: "payload_bytes ?op = payload_bytes op"
    by (simp add: payload_bytes_def)
  have p: "pack ?op = Inr (header ?op @ payload_bytes op)"
    using assms(1) pack_eq [of ?op] by (simp add: wire_fits_def pb)
  have l: "length (header ?op @ payload_bytes op) = 12 + length (payload_bytes op)"
    by (simp add: length_header)
  show ?thesis
  proof (cases "length (payload_bytes op) = 239")
    case True
    then show ?thesis
      unfolding send_def Let_def p using l by (simp add: wire_buffer_def pb)
  next
    case False
    with assms(2) have "length (payload_bytes op) < 239" by simp
    then show ?thesis
      unfolding send_def Let_def p using l by (simp add: wire_buffer_def pb)
  qed
qed

lemma op_parse_wire_buffer:
  assumes "wire_fits op"
  shows "op_parse (m\<lparr>m_payload := wire_buffer op\<rparr>)
         = Inr (op\<lparr>op_payload := Some (take (nat (op_size op))
               (payload_bytes op @ replicate (MAX_Payload - length (payload_bytes op)) 0))\<rparr>)"
  using assms unfolding wire_buffer_def wire_fits_def
  by (intro op_parse_header) simp_all

text \<open>
  Claim C1, as amended. A frame handed to \<open>send\<close> whose fields fit the wire format
  and whose payload has at most 239 bytes is transmitted as a buffer of exactly 251
  bytes: the 12-byte little-endian header, the payload, zero padding. Parsing that
  buffer gives back \<open>seq\<close> (the engine's), \<open>session\<close>, \<open>opcode\<close>, \<open>size\<close>,
  \<open>req_opcode\<close>, \<open>burst_complete\<close> and \<open>offset\<close>; the parsed payload is the first
  \<open>size\<close> bytes of the padded payload, which is the sent payload when the frame has
  one and \<open>size\<close> is its length.
\<close>

theorem send_parse_roundtrip:
  assumes "wire_fits (op\<lparr>op_seq := seq s\<rparr>)" and "length (payload_bytes op) \<le> 239"
  shows "send e s op = Ok (s\<lparr>sent := sent s @ [wire_buffer (op\<lparr>op_seq := seq s\<rparr>)],
                    seq := (seq s + 1) mod 256,
                    last_op := Some (op\<lparr>op_seq := seq s\<rparr>),
                    last_op_time := now e,
                    op_pending := True\<rparr>)
       \<and> length (wire_buffer (op\<lparr>op_seq := seq s\<rparr>)) = 251
       \<and> op_parse (m\<lparr>m_payload := wire_buffer (op\<lparr>op_seq := seq s\<rparr>)\<rparr>)
           = Inr (op\<lparr>op_seq := seq s, op_payload := Some (take (nat (op_size op))
               (payload_bytes op @ replicate (MAX_Payload - length (payload_bytes op)) 0))\<rparr>)
       \<and> (op_payload op = Some (payload_bytes op) \<and> op_size op = int (length (payload_bytes op))
            \<longrightarrow> op_parse (m\<lparr>m_payload := wire_buffer (op\<lparr>op_seq := seq s\<rparr>)\<rparr>)
                = Inr (op\<lparr>op_seq := seq s\<rparr>))"
proof -
  let ?op = "op\<lparr>op_seq := seq s\<rparr>"
  have pb: "payload_bytes ?op = payload_bytes op"
    by (simp add: payload_bytes_def)
  have 1: "length (wire_buffer ?op) = 251"
    using assms(2) length_wire_buffer [of ?op] by (simp add: pb)
  have 2: "op_parse (m\<lparr>m_payload := wire_buffer ?op\<rparr>)
           = Inr (op\<lparr>op_seq := seq s, op_payload := Some (take (nat (op_size op))
               (payload_bytes op @ replicate (MAX_Payload - length (payload_bytes op)) 0))\<rparr>)"
    using op_parse_wire_buffer [OF assms(1), of m] by (simp add: pb)
  have 3: "op_parse (m\<lparr>m_payload := wire_buffer ?op\<rparr>) = Inr ?op"
    if "op_payload op = Some (payload_bytes op)" "op_size op = int (length (payload_bytes op))"
  proof -
    have "op\<lparr>op_seq := seq s, op_payload := Some (payload_bytes op)\<rparr> = ?op"
      using that(1) by (cases op) simp
    then show ?thesis
      unfolding 2 using that(2) by simp
  qed
  show ?thesis
    using send_eq [OF assms] 1 2 3 by blast
qed

text \<open>
  Claim C1 as stated fails on the burst read request that \<open>__handle_open_ro_reply\<close>
  sends: it has \<open>size = 80\<close> and no payload, and the parser returns a payload of 80
  zero bytes.
\<close>

theorem send_parse_payload_counterexample:
  "send (ex_env 1) ex_init ex_burst_request
     = Ok (ex_init\<lparr>sent := [[0, 0, 0, 15, 80, 0, 0, 0, 0, 0, 0, 0] @ replicate 239 0],
            seq := 1, last_op := Some ex_burst_request, last_op_time := 1, op_pending := True\<rparr>)
   \<and> op_parse (ex_msg ([0, 0, 0, 15, 80, 0, 0, 0, 0, 0, 0, 0] @ replicate 239 0))
     = Inr (ex_burst_request\<lparr>op_payload := Some (replicate 80 0)\<rparr>)
   \<and> length (payload_bytes ex_burst_request) \<le> 239
   \<and> op_payload ex_burst_request = None
   \<and> Some (replicate 80 0) \<noteq> op_payload ex_burst_request"
  by (simp add: send_def pack_def fits_H_def fits_B_def fits_I_def pack_H_def pack_B_def
      pack_I_def ex_init_def MAVFTP_init_def ex_burst_request_def ex_env_def ex_msg_def
      op_parse_def unpack_H_def unpack_I_def payload_bytes_def Let_def)

theorem send_parse_roundtrip_witness:
  "send (ex_env 1) ex_init ex_open_request
     = Ok (ex_init\<lparr>sent := [wire_buffer ex_open_request], seq := 1,
            last_op := Some ex_open_request, last_op_time := 1, op_pending := True\<rparr>)
   \<and> length (wire_buffer ex_open_request) = 251
   \<and> op_parse (ex_msg (wire_buffer ex_open_request)) = Inr ex_open_request"
proof -
  have eq: "ex_open_request\<lparr>op_seq := seq ex_init\<rparr> = ex_open_request"
    by (simp add: ex_open_request_def ex_init_def MAVFTP_init_def)
  have fits: "wire_fits (ex_open_request\<lparr>op_seq := seq ex_init\<rparr>)"
    unfolding eq
    by (simp add: wire_fits_def ex_open_request_def fits_H_def fits_B_def fits_I_def)
  have len: "length (payload_bytes ex_open_request) \<le> 239"
    by (simp add: payload_bytes_def ex_open_request_def)
  have pl: "op_payload ex_open_request = Some (payload_bytes ex_open_request)
      \<and> op_size ex_open_request = int (length (payload_bytes ex_open_request))"
    by (simp add: payload_bytes_def ex_open_request_def)
  have m: "(ex_msg b)\<lparr>m_payload := wire_buffer ex_open_request\<rparr>
      = ex_msg (wire_buffer ex_open_request)" for b
    by (simp add: ex_msg_def)
  show ?thesis
    using send_parse_roundtrip [OF fits len, of "ex_env 1" "ex_msg []"] pl
    unfolding eq m
    by (simp add: ex_init_def MAVFTP_init_def ex_env_def)
qed

subsection \<open>Short incoming buffers\<close>

lemma op_parse_short:
  "length (m_payload m) < 12 \<Longrightarrow> op_parse m = Inl StructError"
  by (simp add: op_parse_def)

text \<open>
  Claim C8, as amended. A \<open>FILE_TRANSFER_PROTOCOL\<close> message addressed to this engine
  whose payload buffer is shorter than 12 bytes is not discarded: the frame parser
  raises \<open>struct.error\<close>, and packet handling propagates the exception to its caller.
\<close>

theorem short_payload_raises:
  assumes "m_type m = ''FILE_TRANSFER_PROTOCOL''"
    and "m_target_system m = source_system s"
    and "m_target_component m = source_component s"
    and "length (m_payload m) < 12"
  shows "op_parse m = Inl StructError \<and> mavlink_packet e s m = Raise StructError"
  using assms by (simp add: mavlink_packet_def op_parse_short)

text \<open>
  Claim C8 as stated fails on a message with a payload of three bytes: packet handling
  raises instead of returning with the state unchanged.
\<close>

theorem short_payload_counterexample:
  "m_type (ex_msg [0, 0, 0]) = ''FILE_TRANSFER_PROTOCOL''
   \<and> m_target_system (ex_msg [0, 0, 0]) = source_system ex_init
   \<and> m_target_component (ex_msg [0, 0, 0]) = source_component ex_init
   \<and> length (m_payload (ex_msg [0, 0, 0])) < 12
   \<and> mavlink_packet (ex_env 1) ex_init (ex_msg [0, 0, 0]) = Raise StructError
   \<and> mavlink_packet (ex_env 1) ex_init (ex_msg [0, 0, 0]) \<noteq> Ok ex_init"
  by (simp add: mavlink_packet_def op_parse_def ex_msg_def ex_init_def MAVFTP_init_def)

theorem short_payload_raises_witness:
  "op_parse (ex_msg [1, 2, 3, 4, 5]) = Inl StructError
   \<and> mavlink_packet (ex_env 2) ex_init (ex_msg [1, 2, 3, 4, 5]) = Raise StructError"
proof -
  have "m_type (ex_msg [1, 2, 3, 4, 5]) = ''FILE_TRANSFER_PROTOCOL''"
    and "m_target_system (ex_msg [1, 2, 3, 4, 5]) = source_system ex_init"
    and "m_target_component (ex_msg [1, 2, 3, 4, 5]) = source_component ex_init"
    and "length (m_payload (ex_msg [1, 2, 3, 4, 5])) < 12"
    by (simp_all add: ex_msg_def ex_init_def MAVFTP_init_def)
  then show ?thesis
    by (rule short_payload_raises)
qed

subsection \<open>Write acknowledgements\<close>

lemma send_Ok:
  assumes "send e s op = Ok s'"
  shows "\<exists>buf. s' = s\<lparr>sent := sent s @ [buf], seq := (seq s + 1) mod 256,
                 last_op := Some (op\<lparr>op_seq := seq s\<rparr>), last_op_time := now e,
                 op_pending := True\<rparr>"
  using assms by (auto simp: send_def Let_def split: sum.splits)

lemma send_not_Diverges: "send e s op \<noteq> Diverges"
  by (simp add: send_def Let_def split: sum.splits)

lemma terminate_session_not_Diverges: "terminate_session e s \<noteq> Diverges"
  by (simp add: terminate_session_def send_def Let_def split: sum.splits)














subsection \<open>Putting an empty file\<close>

lemma terminate_session_eq:
  assumes "fits_B (seq s)" "fits_B (session s)"
  shows "terminate_session e s =
     Ok (s\<lparr>sent := sent s @ [wire_buffer (terminate_op (seq s) (session s))],
           seq := (seq s + 1) mod 256,
           last_op := Some (terminate_op (seq s) (session s)),
           last_op_time := now e,
           op_pending := True,
           fh := None, filename := None, write_list := None,
           events := events s
                   @ (if callback s then [Callback None] else [])
                   @ (if callback_progress s then [CallbackProgress None] else [])
                   @ (if put_callback s then [PutCallback None] else [])
                   @ (if put_callback_progress s then [PutCallbackProgress None] else []),
           callback := False, callback_progress := False,
           put_callback := False, put_callback_progress := False,
           read_gaps := [], read_total := 0, read_gap_times := [],
           last_read := None, last_burst_read := None,
           session := (session s + 1) mod 256, reached_eof := False,
           backlog := 0, duplicates := 0\<rparr>)"
proof -
  let ?t = "terminate_op (seq s) (session s)"
  have t: "?t\<lparr>op_seq := seq s\<rparr> = ?t"
    by (simp add: terminate_op_def)
  have "wire_fits (?t\<lparr>op_seq := seq s\<rparr>)"
    using assms by (simp add: wire_fits_def terminate_op_def fits_B_def fits_H_def fits_I_def)
  moreover have "length (payload_bytes ?t) \<le> 239"
    by (simp add: payload_bytes_def terminate_op_def)
  ultimately have "send e s ?t = Ok (s\<lparr>sent := sent s @ [wire_buffer ?t],
                    seq := (seq s + 1) mod 256,
                    last_op := Some ?t,
                    last_op_time := now e,
                    op_pending := True\<rparr>)"
    using send_eq [where op = ?t and s = s and e = e] unfolding t by simp
  then show ?thesis
    unfolding terminate_session_def terminate_op_def [symmetric]
    by simp
qed

lemma cmd_put_empty:
  assumes "write_list s = None"
    and "fh_arg = Some f \<and> fdata f = [] \<or> fh_arg = None \<and> open_rb e fname = Some []"
    and "ftp_settings_write_size s \<noteq> 0"
    and "ascii_encode (put_remote_name e fname rest) = Some enc" and "length enc \<le> 239"
    and "fits_B (seq s)" and "fits_B (session s)"
  shows "cmd_put e s (fname # rest) fh_arg True True
         = Ok (put_started e s (put_remote_name e fname rest) enc)"
proof -
  let ?s1 = "s\<lparr>fh := Some \<lparr>fdata = [], fpos = 0\<rparr>,
       filename := Some (put_remote_name e fname rest),
       write_block_size := ftp_settings_write_size s, write_file_size := 0,
       write_list := Some {}, write_acks := 0, write_total := 0,
       write_idx := 0, write_recv_idx := - 1, write_pending := 0, write_last_send := None,
       put_callback := True, put_callback_progress := True,
       read_retries := 0, op_start := Some (now e)\<rparr>"
  let ?op = "create_file_op s enc"
  have o: "?op\<lparr>op_seq := seq ?s1\<rparr> = ?op"
    by (simp add: create_file_op_def)
  have "wire_fits (?op\<lparr>op_seq := seq ?s1\<rparr>)"
    unfolding o using assms(5,6,7)
    by (simp add: wire_fits_def create_file_op_def fits_B_def fits_H_def fits_I_def)
  moreover have "length (payload_bytes ?op) \<le> 239"
    using assms(5) by (simp add: payload_bytes_def create_file_op_def)
  ultimately have sd: "send e ?s1 ?op = Ok (put_started e s (put_remote_name e fname rest) enc)"
    using send_eq [where op = ?op and s = ?s1 and e = e] unfolding o
    by (simp add: put_started_def)
  have g0: "g\<lparr>fpos := 0\<rparr> = \<lparr>fdata = [], fpos = 0\<rparr>" if "fdata g = []" for g :: pyfile
    using that by (cases g) simp
  have z: "{0..<(0::int)} = {}" by simp
  from assms(2) show ?thesis
  proof
    assume "fh_arg = Some f \<and> fdata f = []"
    then show ?thesis
      using assms(1,3,4) sd
      by (simp add: cmd_put_def Let_def g0 z put_remote_name_def create_file_op_def)
  next
    assume "fh_arg = None \<and> open_rb e fname = Some []"
    then show ?thesis
      using assms(1,3,4) sd
      by (simp add: cmd_put_def Let_def z put_remote_name_def create_file_op_def)
  qed
qed

lemma put_started_fields:
  "write_list (put_started e s fn enc) = Some {}"
  "write_total (put_started e s fn enc) = 0"
  "write_file_size (put_started e s fn enc) = 0"
  "sent (put_started e s fn enc) = sent s @ [wire_buffer (create_file_op s enc)]"
  "fh (put_started e s fn enc) = Some \<lparr>fdata = [], fpos = 0\<rparr>"
  "put_callback (put_started e s fn enc)"
  "put_callback_progress (put_started e s fn enc)"
  "seq (put_started e s fn enc) = (seq s + 1) mod 256"
  "session (put_started e s fn enc) = session s"
  "events (put_started e s fn enc) = events s"
  "callback (put_started e s fn enc) = callback s"
  "callback_progress (put_started e s fn enc) = callback_progress s"
  by (simp_all add: put_started_def)

lemma create_ack_empty:
  assumes "fits_B (session s)" and "op_opcode ack = OP_Ack"
  shows "\<exists>s2. handle_create_file_reply e' (put_started e s fn enc) ack = Ok s2
          \<and> sent s2 = sent s @ [wire_buffer (create_file_op s enc),
                 wire_buffer (terminate_op ((seq s + 1) mod 256) (session s))]
          \<and> events s2 = events s @ [PutCallbackProgress (Some 1), PutCallback (Some 0)]
                 @ (if callback s then [Callback None] else [])
                 @ (if callback_progress s then [CallbackProgress None] else [])
          \<and> session s2 = (session s + 1) mod 256 \<and> fh s2 = None \<and> write_list s2 = None
          \<and> \<not> op_pending s2"
proof -
  let ?s1 = "put_started e s fn enc"
  let ?s1a = "?s1\<lparr>events := events ?s1 @ [PutCallbackProgress (Some 1)],
                    put_callback_progress := False\<rparr>"
  let ?s1b = "?s1a\<lparr>events := events ?s1a @ [PutCallback (Some 0)], put_callback := False\<rparr>"
  have pf: "put_finished e' ?s1 0 = Ok ?s1b"
    by (simp add: put_finished_def Let_def put_started_fields)
  have fits: "fits_B (seq ?s1b)" "fits_B (session ?s1b)"
    using assms(1) by (simp_all add: put_started_fields fits_B_def)
  have 1: "handle_create_file_reply e' ?s1 ack
        = (case terminate_session e' ?s1b of
                    Ok s2 \<Rightarrow> Ok (s2\<lparr>op_pending := False\<rparr>)
                  | Raise err \<Rightarrow> Raise err
                  | Diverges \<Rightarrow> Diverges)"
    using assms(2) pf
    by (simp add: handle_create_file_reply_def send_more_writes_def put_started_fields)
  show ?thesis
    unfolding 1 terminate_session_eq [OF fits]
    by (simp add: put_started_fields)
qed

text \<open>
  Claim C10. \<open>cmd_put\<close> with a zero-length local file (a supplied handle or a file
  that opens) and both callbacks given, when no put is in progress: the write list is
  empty, \<open>write_total\<close> is 0 and exactly one frame, \<open>CreateFile\<close>, is sent. On the
  \<open>CreateFile\<close> Ack the only frame sent is \<open>TerminateSession\<close> (no \<open>WriteFile\<close>), the
  progress callback is called with 1.0 and the put callback with 0 (before any
  callback of an earlier get is told \<open>None\<close>), and the session is terminated: next
  session id, no file, no write list, \<open>op_pending\<close> cleared.
\<close>

theorem put_empty_file:
  assumes "write_list s = None"
    and "fh_arg = Some f \<and> fdata f = [] \<or> fh_arg = None \<and> open_rb e fname = Some []"
    and "ftp_settings_write_size s \<noteq> 0"
    and "ascii_encode (put_remote_name e fname rest) = Some enc" and "length enc \<le> 239"
    and "fits_B (seq s)" and "fits_B (session s)"
    and "op_opcode ack = OP_Ack"
  shows "cmd_put e s (fname # rest) fh_arg True True
           = Ok (put_started e s (put_remote_name e fname rest) enc)
       \<and> write_list (put_started e s (put_remote_name e fname rest) enc) = Some {}
       \<and> write_total (put_started e s (put_remote_name e fname rest) enc) = 0
       \<and> sent (put_started e s (put_remote_name e fname rest) enc)
           = sent s @ [wire_buffer (create_file_op s enc)]
       \<and> (\<exists>s2. handle_create_file_reply e' (put_started e s (put_remote_name e fname rest) enc)
                  ack = Ok s2
          \<and> sent s2 = sent s @ [wire_buffer (create_file_op s enc),
                 wire_buffer (terminate_op ((seq s + 1) mod 256) (session s))]
          \<and> events s2 = events s @ [PutCallbackProgress (Some 1), PutCallback (Some 0)]
                 @ (if callback s then [Callback None] else [])
                 @ (if callback_progress s then [CallbackProgress None] else [])
          \<and> session s2 = (session s + 1) mod 256 \<and> fh s2 = None \<and> write_list s2 = None
          \<and> \<not> op_pending s2)"
  using cmd_put_empty [OF assms(1-7)] create_ack_empty [OF assms(7,8)]
  by (simp add: put_started_fields)

theorem put_empty_file_witness:
  "cmd_put (ex_env 1) ex_init [''a''] None True True
           = Ok (put_started (ex_env 1) ex_init ''a'' [97])
   \<and> write_list (put_started (ex_env 1) ex_init ''a'' [97]) = Some {}
   \<and> write_total (put_started (ex_env 1) ex_init ''a'' [97]) = 0
   \<and> sent (put_started (ex_env 1) ex_init ''a'' [97])
        = [wire_buffer (create_file_op ex_init [97])]
   \<and> (\<exists>s2. handle_create_file_reply (ex_env 2) (put_started (ex_env 1) ex_init ''a'' [97])
               ex_create_ack = Ok s2
          \<and> sent s2 = [wire_buffer (create_file_op ex_init [97]),
                        wire_buffer (terminate_op 1 0)]
          \<and> events s2 = [PutCallbackProgress (Some 1), PutCallback (Some 0)]
          \<and> session s2 = 1 \<and> fh s2 = None \<and> write_list s2 = None \<and> \<not> op_pending s2)"
proof -
  have n: "put_remote_name (ex_env 1) ''a'' [] = ''a''"
    by (simp add: put_remote_name_def ex_env_def)
  have h: "write_list ex_init = None"
    "None = Some \<lparr>fdata = [], fpos = 0\<rparr> \<and> fdata \<lparr>fdata = [], fpos = 0\<rparr> = []
       \<or> (None :: pyfile option) = None \<and> open_rb (ex_env 1) ''a'' = Some []"
    "ftp_settings_write_size ex_init \<noteq> 0"
    "ascii_encode (put_remote_name (ex_env 1) ''a'' []) = Some [97]"
    "length [97 :: byte] \<le> 239"
    "fits_B (seq ex_init)" "fits_B (session ex_init)"
    "op_opcode ex_create_ack = OP_Ack"
    unfolding n
    by (simp_all add: ex_init_def MAVFTP_init_def ex_env_def ascii_encode_def fits_B_def
        ex_create_ack_def)
  have v: "sent ex_init = []" "events ex_init = []" "seq ex_init = 0" "session ex_init = 0"
    "\<not> callback ex_init" "\<not> callback_progress ex_init"
    by (simp_all add: ex_init_def MAVFTP_init_def)
  from put_empty_file [OF h, of "ex_env 2"] show ?thesis
    unfolding n by (simp add: v)
qed

subsection \<open>Parameter defaults\<close>

lemma the_defaults_add:
  "the_defaults (add_default pd n v t) = the_defaults pd @ [(n, v, t)]"
  "the_defaults (add_param pd n v t) = the_defaults pd"
  "params (add_default pd n v t) = params pd"
  "params (add_param pd n v t) = params pd @ [(n, v, t)]"
  by (simp_all add: the_defaults_def add_default_def add_param_def)

lemma param_loop_records:
  "wd \<Longrightarrow> param_loop wd data last_name count pdata = Inr (Some (c, pd)) \<Longrightarrow>
     params pd = params pdata
        @ map (\<lambda>(h, n, v, vd, t). (n, v, t)) (param_records wd data last_name)
   \<and> the_defaults pd = the_defaults pdata
        @ map (\<lambda>(h, n, v, vd, t). (n, if h then vd else v, t))
            (param_records wd data last_name)"
proof (induction wd data last_name count pdata rule: param_loop.induct)
  case (1 wd data last_name count pdata)
  note wd = \<open>wd\<close>
  note run = \<open>param_loop wd data last_name count pdata = Inr (Some (c, pd))\<close>
  show ?case
  proof (cases "param_record wd data last_name")
    case StepEnd
    with run show ?thesis
      by (simp add: param_loop.simps [of wd data] param_records.simps [of wd data])
  next
    case (StepRaise x2)
    with run show ?thesis
      by (simp add: param_loop.simps [of wd data])
  next
    case StepBadType
    with run show ?thesis
      by (simp add: param_loop.simps [of wd data])
  next
    case (StepRecord h n v vd t rest)
    let ?pd = "if wd then if h then add_default (add_param pdata n v t) n vd t
                         else add_default (add_param pdata n v t) n v t
               else add_param pdata n v t"
    from run StepRecord have rec: "param_loop wd rest n (count + 1) ?pd = Inr (Some (c, pd))"
      by (simp add: param_loop.simps [of wd data])
    have recs: "param_records wd data last_name = (h, n, v, vd, t) # param_records wd rest n"
      using StepRecord by (simp add: param_records.simps [of wd data])
    from "1.IH" [OF StepRecord wd rec] wd show ?thesis
      unfolding recs by (simp add: the_defaults_add)
  qed
qed

text \<open>
  Claim C9. When \<open>ftp_param_decode\<close> accepts a buffer whose magic is \<open>0x671C\<close>, the
  defaults are parallel to the parameters: as many entries, with the same names and
  the same type tags in the same order, one entry per record of the blob; and an
  entry whose record has the \<open>has_default\<close> flag clear is the same in both lists, so
  it carries the same value. The defaults list exists as soon as there is a parameter.
\<close>

theorem param_defaults_parallel:
  assumes "ftp_param_decode data = Inr (Some pd)"
    and "unpack_H (data ! 0) (data ! 1) = 0x671c"
  shows "length (the_defaults pd) = length (params pd)
       \<and> map fst (the_defaults pd) = map fst (params pd)
       \<and> map (\<lambda>p. snd (snd p)) (the_defaults pd) = map (\<lambda>p. snd (snd p)) (params pd)
       \<and> length (default_flags data) = length (params pd)
       \<and> (\<forall>i < length (params pd).
             \<not> default_flags data ! i \<longrightarrow> the_defaults pd ! i = params pd ! i)
       \<and> (params pd \<noteq> [] \<longrightarrow> defaults pd = Some (the_defaults pd))"
proof -
  let ?rs = "param_records True (drop 6 data) []"
  from assms obtain c where
    "param_loop True (drop 6 data) [] 0 \<lparr>params = [], defaults = None\<rparr> = Inr (Some (c, pd))"
    by (auto simp: ftp_param_decode_def Let_def split: if_splits sum.splits option.splits)
  from param_loop_records [OF _ this]
  have p: "params pd = map (\<lambda>(h, n, v, vd, t). (n, v, t)) ?rs"
    and d: "the_defaults pd = map (\<lambda>(h, n, v, vd, t). (n, if h then vd else v, t)) ?rs"
    by (simp_all add: the_defaults_def)
  have 1: "length (the_defaults pd) = length (params pd)"
    by (simp add: p d)
  have 2: "map fst (the_defaults pd) = map fst (params pd)"
    by (simp add: p d case_prod_beta)
  have 3: "map (\<lambda>p. snd (snd p)) (the_defaults pd) = map (\<lambda>p. snd (snd p)) (params pd)"
    by (simp add: p d case_prod_beta)
  have 4: "length (default_flags data) = length (params pd)"
    by (simp add: p default_flags_def)
  have 5: "the_defaults pd ! i = params pd ! i"
    if "i < length (params pd)" "\<not> default_flags data ! i" for i
    using that by (simp add: p d default_flags_def case_prod_beta)
  have 6: "defaults pd = Some (the_defaults pd)" if "params pd \<noteq> []"
  proof -
    from that 1 have "the_defaults pd \<noteq> []" by auto
    then show ?thesis
      by (auto simp: the_defaults_def split: option.splits)
  qed
  from 1 2 3 4 5 6 show ?thesis by blast
qed

lemma ex_param_blob_decodes: "ftp_param_decode ex_param_blob = Inr (Some ex_param_data)"
  by code_simp

lemma ex_param_blob_flags: "default_flags ex_param_blob = [False, True]"
  by code_simp

theorem param_defaults_parallel_witness:
  "ftp_param_decode ex_param_blob = Inr (Some ex_param_data)
   \<and> unpack_H (ex_param_blob ! 0) (ex_param_blob ! 1) = 0x671c
   \<and> length (the_defaults ex_param_data) = length (params ex_param_data)
   \<and> map fst (the_defaults ex_param_data) = map fst (params ex_param_data)
   \<and> map (\<lambda>p. snd (snd p)) (the_defaults ex_param_data)
       = map (\<lambda>p. snd (snd p)) (params ex_param_data)
   \<and> default_flags ex_param_blob = [False, True]
   \<and> the_defaults ex_param_data ! 0 = params ex_param_data ! 0
   \<and> defaults ex_param_data = Some (the_defaults ex_param_data)"
proof -
  have m: "unpack_H (ex_param_blob ! 0) (ex_param_blob ! 1) = 0x671c"
    by (simp add: ex_param_blob_def unpack_H_def)
  have n: "params ex_param_data \<noteq> []" "0 < length (params ex_param_data)"
    by (simp_all add: ex_param_data_def)
  from param_defaults_parallel [OF ex_param_blob_decodes m] n ex_param_blob_flags
  show ?thesis
    using ex_param_blob_decodes m by auto
qed

subsection \<open>Gap reads after EOF\<close>

lemma send_gap_read_eq:
  assumes "wire_fits (gap_read_op s g)" and "g \<in> set (read_gaps s)"
  shows "send_gap_read e s g = Ok (gap_read_sent e s g)"
proof -
  let ?op = "gap_read_op s g"
  have o: "?op\<lparr>op_seq := seq s\<rparr> = ?op"
    by (simp add: gap_read_op_def)
  have "length (payload_bytes ?op) \<le> 239"
    by (simp add: payload_bytes_def gap_read_op_def)
  with assms(1) have "send e s ?op = Ok (s\<lparr>sent := sent s @ [wire_buffer ?op],
                    seq := (seq s + 1) mod 256,
                    last_op := Some ?op,
                    last_op_time := now e,
                    op_pending := True\<rparr>)"
    using send_eq [where op = ?op and s = s and e = e] unfolding o by simp
  then show ?thesis
    using assms(2)
    by (cases g) (simp add: send_gap_read_def gap_read_op_def gap_read_sent_def)
qed

lemma check_read_send_eof:
  assumes "reached_eof s" and "read_gaps s = g # gs"
    and "map_of (read_gap_times s) g = Some tg"
  shows "check_read_send e s =
     (if tg \<noteq> 0 \<and> \<not> (tg > 0 \<and> now e - tg > ftp_settings_retry_time s) then Ok s
      else if now e - last_gap_send s < 0.05 then Ok (gap_retry_reset e s g tg)
      else send_gap_read e (gap_retry_reset e s g tg) g)"
proof -
  consider (retry) "tg > 0" "now e - tg > ftp_settings_retry_time s"
    | (unsent) "\<not> tg > 0"
    | (pending) "tg > 0" "\<not> now e - tg > ftp_settings_retry_time s"
    by blast
  then show ?thesis
  proof cases
    case retry
    then show ?thesis
      using assms
      by (simp add: check_read_send_def Let_def gap_retry_reset_def update_conv')
  next
    case unsent
    then show ?thesis
      using assms
      by (simp add: check_read_send_def Let_def gap_retry_reset_def)
  next
    case pending
    then show ?thesis
      using assms
      by (simp add: check_read_send_def Let_def gap_retry_reset_def)
  qed
qed

lemma gap_retry_reset_fields:
  "seq (gap_retry_reset e s g tg) = seq s"
  "session (gap_retry_reset e s g tg) = session s"
  "sent (gap_retry_reset e s g tg) = sent s"
  "read_gaps (gap_retry_reset e s g tg) = read_gaps s"
  "reached_eof (gap_retry_reset e s g tg) = reached_eof s"
  by (simp_all add: gap_retry_reset_def)

lemma gap_read_op_reset: "gap_read_op (gap_retry_reset e s g tg) g' = gap_read_op s g'"
  by (simp add: gap_read_op_def gap_retry_reset_fields)

text \<open>
  Claim C4, as amended. After \<open>reached_eof\<close> is true \<open>__check_read_send\<close> does not
  compare \<open>backlog\<close> with \<open>max_backlog\<close>: that guard also requires \<open>reached_eof\<close> to be
  false. With a head gap \<open>g\<close> it returns without sending when the gap is still
  pending (sent, and \<open>retry_time\<close> not yet over) or when less than 50 ms have passed
  since \<open>last_gap_send\<close>; otherwise it sends the read for the head gap and adds one
  to \<open>backlog\<close>, whatever \<open>backlog\<close> and \<open>max_backlog\<close> are.
\<close>

theorem gap_read_after_eof:
  assumes "reached_eof s" and "read_gaps s = g # gs"
    and "map_of (read_gap_times s) g = Some tg"
  shows "(tg \<noteq> 0 \<and> \<not> (tg > 0 \<and> now e - tg > ftp_settings_retry_time s)
            \<longrightarrow> check_read_send e s = Ok s)
       \<and> ((tg = 0 \<or> tg > 0 \<and> now e - tg > ftp_settings_retry_time s)
            \<and> now e - last_gap_send s < 0.05
            \<longrightarrow> check_read_send e s = Ok (gap_retry_reset e s g tg))
       \<and> ((tg = 0 \<or> tg > 0 \<and> now e - tg > ftp_settings_retry_time s)
            \<and> \<not> now e - last_gap_send s < 0.05 \<and> wire_fits (gap_read_op s g)
            \<longrightarrow> check_read_send e s = Ok (gap_read_sent e (gap_retry_reset e s g tg) g)
              \<and> backlog (gap_read_sent e (gap_retry_reset e s g tg) g)
                  = backlog (gap_retry_reset e s g tg) + 1
              \<and> sent (gap_read_sent e (gap_retry_reset e s g tg) g)
                  = sent s @ [wire_buffer (gap_read_op s g)])"
proof -
  note eq = check_read_send_eof [OF assms, of e]
  have a: "check_read_send e s = Ok s"
    if "tg \<noteq> 0 \<and> \<not> (tg > 0 \<and> now e - tg > ftp_settings_retry_time s)"
    using that eq by simp
  have b: "check_read_send e s = Ok (gap_retry_reset e s g tg)"
    if "tg = 0 \<or> tg > 0 \<and> now e - tg > ftp_settings_retry_time s"
      "now e - last_gap_send s < 0.05"
    using that eq by auto
  have c: "check_read_send e s = Ok (gap_read_sent e (gap_retry_reset e s g tg) g)
              \<and> backlog (gap_read_sent e (gap_retry_reset e s g tg) g)
                  = backlog (gap_retry_reset e s g tg) + 1
              \<and> sent (gap_read_sent e (gap_retry_reset e s g tg) g)
                  = sent s @ [wire_buffer (gap_read_op s g)]"
    if "tg = 0 \<or> tg > 0 \<and> now e - tg > ftp_settings_retry_time s"
      "\<not> now e - last_gap_send s < 0.05" "wire_fits (gap_read_op s g)"
  proof -
    have "check_read_send e s = send_gap_read e (gap_retry_reset e s g tg) g"
      using that(1,2) eq by auto
    moreover have "send_gap_read e (gap_retry_reset e s g tg) g
        = Ok (gap_read_sent e (gap_retry_reset e s g tg) g)"
      using that(3) assms(2)
      by (intro send_gap_read_eq) (simp_all add: gap_read_op_reset gap_retry_reset_fields)
    ultimately show ?thesis
      by (simp add: gap_read_sent_def gap_read_op_reset gap_retry_reset_fields)
  qed
  from a b c show ?thesis by blast
qed

text \<open>
  Claim C4 as stated fails: after EOF, with \<open>backlog = max_backlog = 5\<close>, an unsent head
  gap and one second since the last gap read, \<open>__check_read_send\<close> sends the gap read
  and \<open>backlog\<close> becomes 6.
\<close>

theorem backlog_bound_counterexample:
  "reached_eof ex_eof_state
   \<and> backlog ex_eof_state \<ge> ftp_settings_max_backlog ex_eof_state
   \<and> check_read_send (ex_env 1) ex_eof_state
       = Ok (ex_eof_state\<lparr>sent := [[1, 0, 0, 5, 80, 0, 0, 0, 0, 0, 0, 0] @ replicate 239 0],
               seq := 2,
               last_op := Some \<lparr>op_seq = 1, op_session = 0, op_opcode = OP_ReadFile,
                  op_size = 80, op_req_opcode = 0, op_burst_complete = 0, op_offset = 0,
                  op_payload = None\<rparr>,
               last_op_time := 1, op_pending := True,
               read_gaps := [(0, 80)], last_gap_send := 1,
               read_gap_times := [((0, 80), 1)], backlog := 6\<rparr>)"
  by (simp add: check_read_send_def send_gap_read_def send_def pack_def fits_H_def fits_B_def
      fits_I_def pack_H_def pack_B_def pack_I_def ex_eof_state_def ex_init_def MAVFTP_init_def
      ex_env_def Let_def)

theorem gap_read_after_eof_witness:
  "backlog ex_eof_state \<ge> ftp_settings_max_backlog ex_eof_state
   \<and> check_read_send (ex_env 1) ex_eof_state
       = Ok (gap_read_sent (ex_env 1) ex_eof_state (0, 80))
   \<and> backlog (gap_read_sent (ex_env 1) ex_eof_state (0, 80)) = 6
   \<and> check_read_send (ex_env 1) (ex_eof_state\<lparr>last_gap_send := 0.99\<rparr>)
       = Ok (ex_eof_state\<lparr>last_gap_send := 0.99\<rparr>)
   \<and> check_read_send (ex_env 1) (ex_eof_state\<lparr>read_gap_times := [((0, 80), 0.8)]\<rparr>)
       = Ok (ex_eof_state\<lparr>read_gap_times := [((0, 80), 0.8)]\<rparr>)"
proof -
  have r: "gap_retry_reset e s g 0 = s" for e s g
    by (simp add: gap_retry_reset_def)
  have h: "reached_eof ex_eof_state" "read_gaps ex_eof_state = [(0, 80)]"
    "map_of (read_gap_times ex_eof_state) (0, 80) = Some 0"
    "wire_fits (gap_read_op ex_eof_state (0, 80))"
    "\<not> now (ex_env 1) - last_gap_send ex_eof_state < 0.05"
    "backlog ex_eof_state = 5" "ftp_settings_max_backlog ex_eof_state = 5"
    "ftp_settings_retry_time ex_eof_state = 0.5" "now (ex_env 1) = 1"
    by (simp_all add: ex_eof_state_def ex_init_def MAVFTP_init_def ex_env_def wire_fits_def
        gap_read_op_def fits_H_def fits_B_def fits_I_def)
  have 1: "check_read_send (ex_env 1) ex_eof_state
       = Ok (gap_read_sent (ex_env 1) ex_eof_state (0, 80))
      \<and> backlog (gap_read_sent (ex_env 1) ex_eof_state (0, 80)) = 6"
    using gap_read_after_eof [OF h(1,2,3), of "ex_env 1"] h(4-) by (simp add: r)
  have 2: "check_read_send (ex_env 1) (ex_eof_state\<lparr>last_gap_send := 0.99\<rparr>)
       = Ok (ex_eof_state\<lparr>last_gap_send := 0.99\<rparr>)"
    using gap_read_after_eof [of "ex_eof_state\<lparr>last_gap_send := 0.99\<rparr>" "(0, 80)" "[]" 0
        "ex_env 1"] h
    by (simp add: r)
  have 3: "check_read_send (ex_env 1) (ex_eof_state\<lparr>read_gap_times := [((0, 80), 0.8)]\<rparr>)
       = Ok (ex_eof_state\<lparr>read_gap_times := [((0, 80), 0.8)]\<rparr>)"
    using gap_read_after_eof [of "ex_eof_state\<lparr>read_gap_times := [((0, 80), 0.8)]\<rparr>"
        "(0, 80)" "[]" "0.8" "ex_env 1"] h
    by simp
  from 1 2 3 h(6,7) show ?thesis by simp
qed

subsection \<open>Forward jumps\<close>

lemma map_of_fold_update:
  "map_of (fold (\<lambda>g. AList.update g (0::real)) gs tms) g
     = (if g \<in> set gs then Some 0 else map_of tms g)"
  by (induction gs arbitrary: tms) (auto simp: update_conv')

lemma split_gap_Some:
  assumes "1 \<le> m" and "1 \<le> len"
  shows "\<exists>gs. split_gap gaps tms start len m
              = Some (gaps @ gs, fold (\<lambda>g. AList.update g 0) gs tms)
            \<and> tiles gs start (start + len)
            \<and> (\<forall>g \<in> set gs. 1 \<le> snd g \<and> snd g \<le> m)"
  using assms(2)
proof (induction "nat len" arbitrary: gaps tms start len rule: less_induct)
  case less
  show ?case
  proof (cases "len \<le> m")
    case True
    with less.prems have "split_gap gaps tms start len m
        = Some (gaps @ [(start, len)], fold (\<lambda>g. AList.update g 0) [(start, len)] tms)
      \<and> tiles [(start, len)] start (start + len)
      \<and> (\<forall>g \<in> set [(start, len)]. 1 \<le> snd g \<and> snd g \<le> m)"
      by (simp add: split_gap.simps [of gaps tms start len m])
    then show ?thesis by blast
  next
    case False
    with assms(1) less.prems have sm: "nat (len - m) < nat len" and pos: "1 \<le> len - m"
      by simp_all
    from less.hyps [OF sm pos, of "gaps @ [(start, m)]" "AList.update (start, m) 0 tms"
        "start + m"]
    obtain gs where gs:
      "split_gap (gaps @ [(start, m)]) (AList.update (start, m) 0 tms) (start + m) (len - m) m
         = Some ((gaps @ [(start, m)]) @ gs,
                 fold (\<lambda>g. AList.update g 0) gs (AList.update (start, m) 0 tms))"
      "tiles gs (start + m) (start + m + (len - m))"
      "\<forall>g \<in> set gs. 1 \<le> snd g \<and> snd g \<le> m"
      by blast
    from False gs assms(1) have "split_gap gaps tms start len m
        = Some (gaps @ ((start, m) # gs), fold (\<lambda>g. AList.update g 0) ((start, m) # gs) tms)
      \<and> tiles ((start, m) # gs) start (start + len)
      \<and> (\<forall>g \<in> set ((start, m) # gs). 1 \<le> snd g \<and> snd g \<le> m)"
      by (simp add: split_gap.simps [of gaps tms start len m])
    then show ?thesis by blast
  qed
qed

lemma file_write_at:
  "take (length p) (drop a (fdata (file_write (f\<lparr>fpos := a\<rparr>) p))) = p"
  by (cases "p = []") (simp_all add: file_write_def Let_def)

lemma write_payload_eq:
  assumes "fh s = Some f" and "0 \<le> op_offset op" and "op_payload op = Some p"
  shows "write_payload s op =
     Ok (s\<lparr>fh := Some (file_write (f\<lparr>fpos := nat (op_offset op)\<rparr>) p),
           read_total := read_total s + int (length p),
           events := events s
             @ (if callback_progress s
                then [CallbackProgress (Some (read_total s + int (length p),
                                              read_total s + int (length p) + 1))]
                else [])\<rparr>)"
  using assms by (simp add: write_payload_def file_seek_def Let_def)

lemma handle_burst_read_ack:
  assumes "fh s = Some f" and "filename s = Some fn"
    and "\<not> (ftp_settings_pkt_loss_tx s > 0 \<and> rand_tx e < ftp_settings_pkt_loss_tx s)"
    and "op_opcode op = OP_Ack" and "op_payload op = Some p"
  shows "handle_burst_read e s op =
     (case burst_ack_store e (burst_received e s p) op p of
        Ok (True, s2) \<Rightarrow> Ok s2
      | Ok (False, s2) \<Rightarrow> burst_ack_complete e s2 op
      | Raise err \<Rightarrow> Raise err
      | Diverges \<Rightarrow> Diverges)"
  using assms by (auto simp add: handle_burst_read_def burst_received_def Let_def)

lemma burst_received_fields:
  "fh (burst_received e s p) = fh s"
  "read_gaps (burst_received e s p) = read_gaps s"
  "read_gap_times (burst_received e s p) = read_gap_times s"
  "burst_size (burst_received e s p)
     = (if int (length p) > burst_size s then 239 else burst_size s)"
  "reached_eof (burst_received e s p) = reached_eof s"
  "last_op (burst_received e s p) = last_op s"
  "events (burst_received e s p) = events s"
  "sent (burst_received e s p) = sent s"
  "session (burst_received e s p) = session s"
  "seq (burst_received e s p) = seq s"
  "duplicates (burst_received e s p) = duplicates s"
  "callback_progress (burst_received e s p) = callback_progress s"
  "read_total (burst_received e s p) = read_total s"
  by (simp_all add: burst_received_def)

text \<open>
  Claim C7. A \<open>BurstReadFile\<close> Ack that is processed (sink open, not dropped by the
  loss simulation, burst size at least 1 as \<open>__init__\<close> and \<open>cmd_get\<close> leave it) and whose
  offset is greater than the sink position \<open>ofs\<close>: the engine appends to the gap list
  gaps that tile the range from \<open>ofs\<close> up to \<open>op.offset\<close>, each of length at least 1 and
  at most \<open>burst_size\<close>, each with the last-send time 0, and writes the payload at
  \<open>op.offset\<close>. This is the state in which the handler goes on to the burst-complete
  check, and the state it returns when \<open>burst_complete\<close> is not set.
\<close>

theorem forward_jump_gaps:
  assumes "fh s = Some f" and "filename s = Some fn"
    and "\<not> (ftp_settings_pkt_loss_tx s > 0 \<and> rand_tx e < ftp_settings_pkt_loss_tx s)"
    and "op_opcode op = OP_Ack" and "op_payload op = Some p"
    and "op_offset op > file_tell f" and "1 \<le> burst_size s"
  shows "\<exists>gs s1. handle_burst_read e s op = burst_ack_complete e s1 op
     \<and> (op_burst_complete op = 0 \<longrightarrow> handle_burst_read e s op = Ok s1)
     \<and> read_gaps s1 = read_gaps s @ gs
     \<and> tiles gs (file_tell f) (op_offset op)
     \<and> (\<forall>g \<in> set gs. 1 \<le> snd g \<and> snd g \<le> burst_size s1)
     \<and> (\<forall>g \<in> set gs. map_of (read_gap_times s1) g = Some 0)
     \<and> burst_size s1 = (if int (length p) > burst_size s then 239 else burst_size s)
     \<and> fh s1 = Some (file_write (f\<lparr>fpos := nat (op_offset op)\<rparr>) p)
     \<and> take (length p) (drop (nat (op_offset op))
           (fdata (file_write (f\<lparr>fpos := nat (op_offset op)\<rparr>) p))) = p"
proof -
  let ?s0 = "burst_received e s p"
  let ?ofs = "file_tell f"
  let ?m = "burst_size ?s0"
  have m: "1 \<le> ?m"
    using assms(7) by (simp add: burst_received_fields)
  have len: "1 \<le> op_offset op - ?ofs"
    using assms(6) by simp
  from split_gap_Some [OF m len, of "read_gaps s" "read_gap_times s" ?ofs]
  obtain gs where gs:
    "split_gap (read_gaps s) (read_gap_times s) ?ofs (op_offset op - ?ofs) ?m
       = Some (read_gaps s @ gs, fold (\<lambda>g. AList.update g 0) gs (read_gap_times s))"
    "tiles gs ?ofs (?ofs + (op_offset op - ?ofs))"
    "\<forall>g \<in> set gs. 1 \<le> snd g \<and> snd g \<le> ?m"
    by blast
  let ?s0g = "?s0\<lparr>read_gaps := read_gaps s @ gs,
                   read_gap_times := fold (\<lambda>g. AList.update g 0) gs (read_gap_times s)\<rparr>"
  let ?s1 = "?s0g\<lparr>fh := Some (file_write (f\<lparr>fpos := nat (op_offset op)\<rparr>) p),
           read_total := read_total ?s0g + int (length p),
           events := events ?s0g
             @ (if callback_progress ?s0g
                then [CallbackProgress (Some (read_total ?s0g + int (length p),
                                              read_total ?s0g + int (length p) + 1))]
                else [])\<rparr>"
  have nn: "0 \<le> op_offset op"
    using assms(6) by (simp add: file_tell_def)
  have w: "write_payload ?s0g op = Ok ?s1"
    using assms(1) nn assms(5)
    by (intro write_payload_eq) (simp_all add: burst_received_fields)
  have store: "burst_ack_store e ?s0 op p = Ok (False, ?s1)"
    using assms(1,6) gs(1) w
    by (simp add: burst_ack_store_def burst_received_fields Let_def)
  have run: "handle_burst_read e s op = burst_ack_complete e ?s1 op"
    unfolding handle_burst_read_ack [OF assms(1-5)] store by simp
  have fin: "handle_burst_read e s op = Ok ?s1" if "op_burst_complete op = 0"
    unfolding run using that by (simp add: burst_ack_complete_def)
  have t: "tiles gs ?ofs (op_offset op)"
    using gs(2) by simp
  have g: "read_gaps ?s1 = read_gaps s @ gs"
    "burst_size ?s1 = (if int (length p) > burst_size s then 239 else burst_size s)"
    "fh ?s1 = Some (file_write (f\<lparr>fpos := nat (op_offset op)\<rparr>) p)"
    "read_gap_times ?s1 = fold (\<lambda>g. AList.update g 0) gs (read_gap_times s)"
    by (simp_all add: burst_received_fields)
  have tm: "\<forall>g \<in> set gs. map_of (read_gap_times ?s1) g = Some 0"
    unfolding g(4) by (simp add: map_of_fold_update)
  have bs: "\<forall>g \<in> set gs. 1 \<le> snd g \<and> snd g \<le> burst_size ?s1"
    using gs(3) unfolding g(2) by (simp add: burst_received_fields)
  from run fin g(1) t bs tm g(2,3) file_write_at [of p "nat (op_offset op)" f]
  show ?thesis by blast
qed

lemma ex_jump_ack_result:
  "\<exists>s1. handle_burst_read (ex_env 1) ex_read_state ex_jump_ack = Ok s1
      \<and> read_gaps s1 = [(80, 80), (160, 80)]
      \<and> read_gap_times s1 = [((80, 80), 0), ((160, 80), 0)]"
  by (simp add: handle_burst_read_def burst_ack_store_def burst_ack_complete_def
      write_payload_def file_seek_def file_tell_def split_gap.simps
      ex_read_state_def ex_jump_ack_def ex_init_def MAVFTP_init_def ex_env_def Let_def)

theorem forward_jump_gaps_witness:
  "\<exists>s1. handle_burst_read (ex_env 1) ex_read_state ex_jump_ack = Ok s1
     \<and> read_gaps s1 = [(80, 80), (160, 80)]
     \<and> tiles (read_gaps s1) 80 240
     \<and> (\<forall>g \<in> set (read_gaps s1). 1 \<le> snd g \<and> snd g \<le> 80 \<and>
            map_of (read_gap_times s1) g = Some 0)
     \<and> burst_size s1 = 80
     \<and> fh s1 = Some (file_write \<lparr>fdata = replicate 80 1, fpos = 240\<rparr> (replicate 80 2))"
proof -
  let ?f = "\<lparr>fdata = replicate 80 1, fpos = 80\<rparr>"
  have h: "fh ex_read_state = Some ?f" "filename ex_read_state = Some ''f''"
    "\<not> (ftp_settings_pkt_loss_tx ex_read_state > 0
        \<and> rand_tx (ex_env 1) < ftp_settings_pkt_loss_tx ex_read_state)"
    "op_opcode ex_jump_ack = OP_Ack" "op_payload ex_jump_ack = Some (replicate 80 2)"
    "op_offset ex_jump_ack > file_tell ?f" "1 \<le> burst_size ex_read_state"
    by (simp_all add: ex_read_state_def ex_jump_ack_def ex_init_def MAVFTP_init_def
        file_tell_def)
  have v: "op_burst_complete ex_jump_ack = 0" "read_gaps ex_read_state = []"
    "burst_size ex_read_state = 80" "op_offset ex_jump_ack = 240" "file_tell ?f = 80"
    by (simp_all add: ex_read_state_def ex_jump_ack_def ex_init_def MAVFTP_init_def
        file_tell_def)
  from forward_jump_gaps [OF h] obtain gs s1 where
    1: "op_burst_complete ex_jump_ack = 0
          \<longrightarrow> handle_burst_read (ex_env 1) ex_read_state ex_jump_ack = Ok s1"
    and 2: "read_gaps s1 = read_gaps ex_read_state @ gs"
      "tiles gs (file_tell ?f) (op_offset ex_jump_ack)"
      "\<forall>g \<in> set gs. 1 \<le> snd g \<and> snd g \<le> burst_size s1"
      "\<forall>g \<in> set gs. map_of (read_gap_times s1) g = Some 0"
      "burst_size s1 = (if int (length (replicate 80 (2::byte))) > burst_size ex_read_state
                        then 239 else burst_size ex_read_state)"
      "fh s1 = Some (file_write (?f\<lparr>fpos := nat (op_offset ex_jump_ack)\<rparr>) (replicate 80 2))"
    by blast
  from 1 v(1) have r: "handle_burst_read (ex_env 1) ex_read_state ex_jump_ack = Ok s1"
    by simp
  with ex_jump_ack_result have g: "read_gaps s1 = [(80, 80), (160, 80)]"
    by auto
  from 2 v have "tiles (read_gaps s1) 80 240"
    "\<forall>g \<in> set (read_gaps s1). 1 \<le> snd g \<and> snd g \<le> 80 \<and>
            map_of (read_gap_times s1) g = Some 0"
    "burst_size s1 = 80"
    "fh s1 = Some (file_write \<lparr>fdata = replicate 80 1, fpos = 240\<rparr> (replicate 80 2))"
    by simp_all
  with r g show ?thesis by blast
qed

subsection \<open>Duplicate replies\<close>

lemma gap_reads_only_refl: "gap_reads_only s s"
  by (simp add: gap_reads_only_def)

lemma gap_reads_only_trans:
  "gap_reads_only s s1 \<Longrightarrow> gap_reads_only s1 s2 \<Longrightarrow> gap_reads_only s s2"
  by (auto simp: gap_reads_only_def)

lemma send_gap_read_only:
  assumes "send_gap_read e s g = Ok s'"
  shows "gap_reads_only s s'"
proof -
  obtain a b where g: "g = (a, b)" by (cases g)
  from assms obtain s1 where s1: "send e s \<lparr>op_seq = seq s, op_session = session s,
      op_opcode = OP_ReadFile, op_size = b, op_req_opcode = 0, op_burst_complete = 0,
      op_offset = a, op_payload = None\<rparr> = Ok s1"
    and mem: "g \<in> set (read_gaps s1)"
    and s': "s' = s1\<lparr>read_gaps := remove1 g (read_gaps s1) @ [g],
                        last_gap_send := now e,
                        read_gap_times := AList.update g (now e) (read_gap_times s1),
                        backlog := backlog s1 + 1\<rparr>"
    unfolding g by (auto simp: send_gap_read_def split: result.splits if_splits)
  from send_Ok [OF s1] obtain buf where b: "s1 = s\<lparr>sent := sent s @ [buf],
      seq := (seq s + 1) mod 256,
      last_op := last_op s1, last_op_time := now e, op_pending := True\<rparr>"
    by auto
  have 1: "gap_reads_only s s1"
    by (subst b) (simp add: gap_reads_only_def)
  have "set (remove1 g (read_gaps s1) @ [g]) = set (read_gaps s1)"
  proof
    show "set (remove1 g (read_gaps s1) @ [g]) \<subseteq> set (read_gaps s1)"
      using mem set_remove1_subset [of g "read_gaps s1"] by auto
    show "set (read_gaps s1) \<subseteq> set (remove1 g (read_gaps s1) @ [g])"
    proof
      fix x assume "x \<in> set (read_gaps s1)"
      then show "x \<in> set (remove1 g (read_gaps s1) @ [g])"
        by (cases "x = g") (simp_all add: in_set_remove1)
    qed
  qed
  then have 2: "gap_reads_only s1 s'"
    by (subst s') (simp add: gap_reads_only_def)
  from 1 2 show ?thesis by (rule gap_reads_only_trans)
qed

lemma send_unsent_gaps_only:
  "send_unsent_gaps e items s = Ok s' \<Longrightarrow> gap_reads_only s s'"
proof (induction items arbitrary: s)
  case Nil
  then show ?case by (simp add: gap_reads_only_refl)
next
  case (Cons it items)
  obtain g v where it: "it = (g, v)" by (cases it)
  show ?case
  proof (cases "v = 0")
    case True
    with Cons.prems it obtain s1 where 1: "send_gap_read e s g = Ok s1"
      and 2: "send_unsent_gaps e items s1 = Ok s'"
      by (auto split: result.splits)
    from send_gap_read_only [OF 1] Cons.IH [OF 2] show ?thesis
      by (rule gap_reads_only_trans)
  next
    case False
    with Cons.prems it have "send_unsent_gaps e items s = Ok s'" by simp
    then show ?thesis by (rule Cons.IH)
  qed
qed

lemma check_read_send_only:
  assumes "check_read_send e s = Ok s'"
  shows "gap_reads_only s s'"
proof (cases "read_gaps s")
  case Nil
  with assms show ?thesis
    by (simp add: check_read_send_def gap_reads_only_refl)
next
  case (Cons g gs)
  have "map_of (read_gap_times s) g \<noteq> None"
  proof
    assume "map_of (read_gap_times s) g = None"
    with Cons have "check_read_send e s = Raise KeyError"
      by (simp add: check_read_send_def)
    with assms show False by simp
  qed
  then obtain tg where tg: "map_of (read_gap_times s) g = Some tg"
    by blast
  show ?thesis
  proof (cases "reached_eof s")
    case False
    with assms Cons tg have "send_unsent_gaps e (read_gap_times s) s = Ok s'"
      by (simp add: check_read_send_def Let_def)
    then show ?thesis by (rule send_unsent_gaps_only)
  next
    case True
    have r: "gap_reads_only s (gap_retry_reset e s g tg)"
      by (simp add: gap_retry_reset_def gap_reads_only_def)
    note eq = check_read_send_eof [OF True Cons tg, of e]
    show ?thesis
    proof (cases "tg \<noteq> 0 \<and> \<not> (tg > 0 \<and> now e - tg > ftp_settings_retry_time s)")
      case pending: True
      then have "check_read_send e s = Ok s"
        unfolding eq by (rule if_P)
      with assms show ?thesis by (simp add: gap_reads_only_refl)
    next
      case ready: False
      show ?thesis
      proof (cases "now e - last_gap_send s < 0.05")
        case True
        then have "check_read_send e s = Ok (gap_retry_reset e s g tg)"
          unfolding eq if_not_P [OF ready] by (rule if_P)
        with assms r show ?thesis by simp
      next
        case False
        then have "check_read_send e s
            = send_gap_read e (gap_retry_reset e s g tg) g"
          unfolding eq if_not_P [OF ready] by (rule if_not_P)
        with assms have "send_gap_read e (gap_retry_reset e s g tg) g = Ok s'" by simp
        from r send_gap_read_only [OF this] show ?thesis
          by (rule gap_reads_only_trans)
      qed
    qed
  qed
qed

lemma check_read_finished_False:
  "\<not> (reached_eof s \<and> read_gaps s = []) \<Longrightarrow> check_read_finished e s = Ok (False, s)"
  unfolding check_read_finished_def by (rule if_not_P)

lemma terminate_session_read:
  assumes "terminate_session e s = Ok s'"
  shows "session s' = (session s + 1) mod 256 \<and> fh s' = None \<and> read_gaps s' = []
       \<and> \<not> reached_eof s' \<and> op_pending s'"
  using assms
  by (auto simp: terminate_session_def split: result.splits dest!: send_Ok)

lemma handle_reply_read_dup:
  assumes "fh s = Some f" and "filename s = Some fn" and "op_opcode op = OP_Ack"
    and "(op_offset op, op_size op) \<notin> set (read_gaps s)"
    and "\<not> op_size op < burst_size s"
  shows "handle_reply_read e s op
       = check_read_send e (s\<lparr>backlog := (if backlog s > 0 then backlog s - 1 else backlog s),
                               duplicates := duplicates s + 1\<rparr>)"
  using assms by (simp add: handle_reply_read_def Let_def)

lemma handle_reply_read_shrunk:
  assumes "fh s = Some f" and "filename s = Some fn" and "op_opcode op = OP_Ack"
    and "(op_offset op, op_size op) \<notin> set (read_gaps s)"
    and "op_size op < burst_size s"
    and "handle_reply_read e s op = Ok s'"
  shows "session s' = (session s + 1) mod 256 \<and> fh s' = None \<and> read_gaps s' = []"
proof -
  let ?s = "s\<lparr>backlog := (if backlog s > 0 then backlog s - 1 else backlog s)\<rparr>"
  have eq: "handle_reply_read e s op
       = (case terminate_session e ?s of
            Ok s1 \<Rightarrow> check_read_send e s1
          | Raise err \<Rightarrow> Raise err
          | Diverges \<Rightarrow> Diverges)"
    using assms(1-5)
    by (simp add: handle_reply_read_def Let_def split: result.splits)
  with assms(6) obtain s1 where t: "terminate_session e ?s = Ok s1"
    and c: "check_read_send e s1 = Ok s'"
    by (auto split: result.splits)
  from terminate_session_read [OF t] have g: "read_gaps s1 = []"
    and f: "session s1 = (session s + 1) mod 256" "fh s1 = None"
    by simp_all
  from c g have "s' = s1"
    by (simp add: check_read_send_def)
  with g f show ?thesis by simp
qed

text \<open>
  Claim C5, as amended. The sink is open and the reply is an Ack. In the burst read
  handler, an Ack that is not dropped, lies below the sink position and matches no
  tracked gap only adds one to \<open>duplicates\<close> (besides noting the arrival): the sink and
  its cursor, the gap list, the gap times and the session are unchanged and nothing is
  sent. In the \<open>ReadFile\<close> reply handler, an Ack that matches no tracked gap and whose
  size is not below \<open>burst_size\<close> adds one to \<open>duplicates\<close>, takes one off a positive
  \<open>backlog\<close>, and the handler goes on with \<open>__check_read_send\<close>: the sink, the session,
  the callback calls and the set of tracked gaps are unchanged, the session is not
  terminated. When the size is below \<open>burst_size\<close>, the handler takes the file to have
  shrunk and terminates the session.
\<close>

theorem duplicate_ack:
  assumes "fh s = Some f" and "filename s = Some fn" and "op_opcode op = OP_Ack"
  shows "(\<not> (ftp_settings_pkt_loss_tx s > 0 \<and> rand_tx e < ftp_settings_pkt_loss_tx s)
          \<and> op_payload op = Some p \<and> op_offset op < file_tell f
          \<and> (op_offset op, int (length p)) \<notin> set (read_gaps s)
          \<longrightarrow> handle_burst_read e s op
              = Ok ((burst_received e s p)\<lparr>duplicates := duplicates s + 1\<rparr>))
       \<and> ((op_offset op, op_size op) \<notin> set (read_gaps s) \<and> \<not> op_size op < burst_size s
          \<longrightarrow> handle_reply_read e s op
              = check_read_send e
                  (s\<lparr>backlog := (if backlog s > 0 then backlog s - 1 else backlog s),
                     duplicates := duplicates s + 1\<rparr>)
            \<and> (\<forall>s'. handle_reply_read e s op = Ok s' \<longrightarrow>
                   duplicates s' = duplicates s + 1 \<and> fh s' = fh s \<and> session s' = session s
                 \<and> set (read_gaps s') = set (read_gaps s) \<and> events s' = events s))
       \<and> ((op_offset op, op_size op) \<notin> set (read_gaps s) \<and> op_size op < burst_size s
          \<longrightarrow> (\<forall>s'. handle_reply_read e s op = Ok s' \<longrightarrow>
                   session s' = (session s + 1) mod 256 \<and> fh s' = None \<and> read_gaps s' = []))"
proof -
  have a: "handle_burst_read e s op
              = Ok ((burst_received e s p)\<lparr>duplicates := duplicates s + 1\<rparr>)"
    if "\<not> (ftp_settings_pkt_loss_tx s > 0 \<and> rand_tx e < ftp_settings_pkt_loss_tx s)"
      "op_payload op = Some p" "op_offset op < file_tell f"
      "(op_offset op, int (length p)) \<notin> set (read_gaps s)"
  proof -
    have "burst_ack_store e (burst_received e s p) op p
        = Ok (True, (burst_received e s p)\<lparr>duplicates := duplicates s + 1\<rparr>)"
      using assms(1) that(3,4)
      by (simp add: burst_ack_store_def burst_received_fields Let_def)
    then show ?thesis
      unfolding handle_burst_read_ack [OF assms(1,2) that(1) assms(3) that(2)] by simp
  qed
  have b: "handle_reply_read e s op
              = check_read_send e
                  (s\<lparr>backlog := (if backlog s > 0 then backlog s - 1 else backlog s),
                     duplicates := duplicates s + 1\<rparr>)
            \<and> (\<forall>s'. handle_reply_read e s op = Ok s' \<longrightarrow>
                   duplicates s' = duplicates s + 1 \<and> fh s' = fh s \<and> session s' = session s
                 \<and> set (read_gaps s') = set (read_gaps s) \<and> events s' = events s)"
    if "(op_offset op, op_size op) \<notin> set (read_gaps s)" "\<not> op_size op < burst_size s"
  proof -
    note eq = handle_reply_read_dup [OF assms that, of e]
    have "duplicates s' = duplicates s + 1 \<and> fh s' = fh s \<and> session s' = session s
                 \<and> set (read_gaps s') = set (read_gaps s) \<and> events s' = events s"
      if "handle_reply_read e s op = Ok s'" for s'
      using check_read_send_only [OF that [unfolded eq]]
      by (simp add: gap_reads_only_def)
    with eq show ?thesis by blast
  qed
  have c: "session s' = (session s + 1) mod 256 \<and> fh s' = None \<and> read_gaps s' = []"
    if "(op_offset op, op_size op) \<notin> set (read_gaps s)" "op_size op < burst_size s"
      "handle_reply_read e s op = Ok s'" for s'
    using handle_reply_read_shrunk [OF assms that] .
  from a b c show ?thesis by blast
qed

text \<open>
  Claim C5 as stated fails on a \<open>ReadFile\<close> Ack of 40 bytes at offset 0 that matches
  no tracked gap while \<open>burst_size\<close> is 80: the session is terminated, the sink
  dropped and the callback told \<open>None\<close>.
\<close>

theorem duplicate_ack_counterexample:
  "(op_offset ex_dup_fill, op_size ex_dup_fill) \<notin> set (read_gaps ex_read_state)
   \<and> handle_reply_read (ex_env 1) ex_read_state ex_dup_fill
       = Ok (ex_read_state\<lparr>sent := [[1, 0, 0, 1, 0, 0, 0, 0, 0, 0, 0, 0] @ replicate 239 0],
               seq := 2, last_op := Some (terminate_op 1 0), last_op_time := 1,
               op_pending := True, fh := None, filename := None,
               events := [Callback None], callback := False, read_total := 0,
               last_burst_read := None, session := 1\<rparr>)"
  by (simp add: handle_reply_read_def terminate_session_def check_read_send_def send_def
      pack_def fits_H_def fits_B_def fits_I_def pack_H_def pack_B_def pack_I_def
      terminate_op_def ex_dup_fill_def ex_read_state_def ex_init_def MAVFTP_init_def
      ex_env_def Let_def)

lemma ex_dup_fill_returns:
  "\<exists>s'. handle_reply_read (ex_env 1) ex_read_state ex_dup_fill = Ok s'"
  by (simp add: handle_reply_read_def terminate_session_def check_read_send_def send_def
      pack_def fits_H_def fits_B_def fits_I_def
      ex_dup_fill_def ex_read_state_def ex_init_def MAVFTP_init_def Let_def)

theorem duplicate_ack_witness:
  "handle_burst_read (ex_env 1) ex_read_state ex_dup_burst
     = Ok (ex_read_state\<lparr>last_burst_read := Some 1, duplicates := 1\<rparr>)
   \<and> handle_reply_read (ex_env 1) ex_read_state (ex_dup_burst\<lparr>op_req_opcode := OP_ReadFile\<rparr>)
     = Ok (ex_read_state\<lparr>duplicates := 1\<rparr>)
   \<and> (\<exists>s'. handle_reply_read (ex_env 1) ex_read_state ex_dup_fill = Ok s'
         \<and> session s' = 1 \<and> fh s' = None \<and> read_gaps s' = [])"
proof -
  let ?f = "\<lparr>fdata = replicate 80 (1::byte), fpos = 80\<rparr>"
  let ?r = "ex_dup_burst\<lparr>op_req_opcode := OP_ReadFile\<rparr>"
  have h: "fh ex_read_state = Some ?f" "filename ex_read_state = Some ''f''"
    "op_opcode ex_dup_burst = OP_Ack" "op_opcode ?r = OP_Ack" "op_opcode ex_dup_fill = OP_Ack"
    by (simp_all add: ex_read_state_def ex_dup_burst_def ex_dup_fill_def)
  have v: "\<not> (ftp_settings_pkt_loss_tx ex_read_state > 0
        \<and> rand_tx (ex_env 1) < ftp_settings_pkt_loss_tx ex_read_state)"
    "op_payload ex_dup_burst = Some (replicate 80 1)"
    "op_offset ex_dup_burst < file_tell ?f"
    "(op_offset ex_dup_burst, int (length (replicate 80 (1::byte))))
       \<notin> set (read_gaps ex_read_state)"
    "(op_offset ?r, op_size ?r) \<notin> set (read_gaps ex_read_state)"
    "\<not> op_size ?r < burst_size ex_read_state"
    "(op_offset ex_dup_fill, op_size ex_dup_fill) \<notin> set (read_gaps ex_read_state)"
    "op_size ex_dup_fill < burst_size ex_read_state"
    by (simp_all add: ex_read_state_def ex_dup_burst_def ex_dup_fill_def ex_init_def
        MAVFTP_init_def file_tell_def)
  have w: "backlog ex_read_state = 0" "duplicates ex_read_state = 0"
    "read_gaps ex_read_state = []" "session ex_read_state = 0"
    "burst_size ex_read_state = 80"
    by (simp_all add: ex_read_state_def ex_init_def MAVFTP_init_def)
  have c1: "\<not> (ftp_settings_pkt_loss_tx ex_read_state > 0
        \<and> rand_tx (ex_env 1) < ftp_settings_pkt_loss_tx ex_read_state)
      \<and> op_payload ex_dup_burst = Some (replicate 80 1)
      \<and> op_offset ex_dup_burst < file_tell ?f
      \<and> (op_offset ex_dup_burst, int (length (replicate 80 (1::byte))))
           \<notin> set (read_gaps ex_read_state)"
    using v(1-4) by blast
  have c2: "(op_offset ?r, op_size ?r) \<notin> set (read_gaps ex_read_state)
      \<and> \<not> op_size ?r < burst_size ex_read_state"
    using v(5,6) by blast
  have c3: "(op_offset ex_dup_fill, op_size ex_dup_fill) \<notin> set (read_gaps ex_read_state)
      \<and> op_size ex_dup_fill < burst_size ex_read_state"
    using v(7,8) by blast
  have "handle_burst_read (ex_env 1) ex_read_state ex_dup_burst
      = Ok ((burst_received (ex_env 1) ex_read_state (replicate 80 1))
              \<lparr>duplicates := duplicates ex_read_state + 1\<rparr>)"
    using duplicate_ack [OF h(1,2,3), of "ex_env 1" "replicate 80 1"] c1 by blast
  then have 1: "handle_burst_read (ex_env 1) ex_read_state ex_dup_burst
     = Ok (ex_read_state\<lparr>last_burst_read := Some 1, duplicates := 1\<rparr>)"
    by (simp add: burst_received_def w ex_env_def)
  have "handle_reply_read (ex_env 1) ex_read_state ?r
      = check_read_send (ex_env 1)
          (ex_read_state\<lparr>backlog := (if backlog ex_read_state > 0
                                       then backlog ex_read_state - 1
                                       else backlog ex_read_state),
             duplicates := duplicates ex_read_state + 1\<rparr>)"
    using duplicate_ack [OF h(1,2,4), of "ex_env 1"] c2 by blast
  then have 2: "handle_reply_read (ex_env 1) ex_read_state ?r
     = Ok (ex_read_state\<lparr>duplicates := 1\<rparr>)"
    by (simp add: w check_read_send_def)
  obtain s' where s': "handle_reply_read (ex_env 1) ex_read_state ex_dup_fill = Ok s'"
    using ex_dup_fill_returns by blast
  with duplicate_ack [OF h(1,2,5), of "ex_env 1"] c3
  have "session s' = (session ex_read_state + 1) mod 256 \<and> fh s' = None \<and> read_gaps s' = []"
    by blast
  then have 3: "session s' = 1 \<and> fh s' = None \<and> read_gaps s' = []"
    by (simp add: w)
  from 1 2 3 s' show ?thesis by blast
qed

subsection \<open>Burst completion\<close>

lemma terminate_session_deliveries:
  assumes "terminate_session e s = Ok s'"
  shows "deliveries s' = deliveries s"
  using assms
  by (auto simp: terminate_session_def deliveries_def split: result.splits dest!: send_Ok)

lemma check_read_finished_OkFalse:
  assumes "check_read_finished e s = Ok (False, s1)"
  shows "s1 = s \<and> \<not> (reached_eof s \<and> read_gaps s = [])"
proof (cases "reached_eof s \<and> read_gaps s = []")
  case False
  with assms show ?thesis
    by (simp add: check_read_finished_False)
next
  case True
  have "check_read_finished e s \<noteq> Ok (False, s1)"
    unfolding check_read_finished_def if_P [OF True]
    by (simp add: Let_def split: option.splits result.splits prod.splits)
  with assms show ?thesis by simp
qed

lemma check_read_finished_OkTrue:
  assumes "check_read_finished e s = Ok (True, s')"
  shows "reached_eof s \<and> read_gaps s = [] \<and> fh s' = None \<and> \<not> op_pending s'
       \<and> session s' = (session s + 1) mod 256
       \<and> (\<exists>f. fh s = Some f
              \<and> deliveries s' = deliveries s
                   @ (if callback s then [Callback (Some (fdata f))] else []))"
proof -
  have c: "reached_eof s \<and> read_gaps s = []"
  proof (rule ccontr)
    assume "\<not> (reached_eof s \<and> read_gaps s = [])"
    then have "check_read_finished e s = Ok (False, s)"
      by (rule check_read_finished_False)
    with assms show False by simp
  qed
  note run = assms [unfolded check_read_finished_def if_P [OF c]]
  from run obtain f where f: "fh s = Some f"
    by (cases "fh s") simp_all
  from run f obtain t0 where t0: "op_start s = Some t0"
    by (cases "op_start s") simp_all
  from run f t0 have dt: "now e - t0 \<noteq> 0"
    by (auto simp: Let_def)
  define s1 where "s1 = (if callback s then
                                 s\<lparr>fh := Some (f\<lparr>fpos := 0\<rparr>),
                                       events := events s @ [Callback (Some (fdata f))],
                                       callback := False\<rparr>
                               else if filename s = Some ''-'' then
                                 s\<lparr>fh := Some (snd (file_read (f\<lparr>fpos := 0\<rparr>) (- 1)))\<rparr>
                               else s)"
  from run f t0 dt have "\<exists>s2. terminate_session e s1 = Ok s2 \<and> s' = s2\<lparr>op_pending := False\<rparr>"
    unfolding s1_def
    by (auto simp: Let_def split: if_splits result.splits prod.splits)
  then obtain s2 where t: "terminate_session e s1 = Ok s2" and s': "s' = s2\<lparr>op_pending := False\<rparr>"
    by blast
  have d1: "deliveries s1 = deliveries s @ (if callback s then [Callback (Some (fdata f))] else [])"
    and ss: "session s1 = session s"
    by (simp_all add: s1_def deliveries_def)
  from terminate_session_deliveries [OF t] terminate_session_read [OF t] d1 ss s' c f
  show ?thesis
    by (simp add: deliveries_def)
qed

lemma write_payload_kept:
  assumes "write_payload s op = Ok s1"
  shows "reached_eof s1 = reached_eof s \<and> burst_size s1 = burst_size s
       \<and> last_op s1 = last_op s \<and> sent s1 = sent s \<and> session s1 = session s
       \<and> seq s1 = seq s \<and> read_gaps s1 = read_gaps s
       \<and> read_gap_times s1 = read_gap_times s \<and> deliveries s1 = deliveries s
       \<and> fh s1 \<noteq> None \<and> callback s1 = callback s"
  using assms
  by (auto simp: write_payload_def Let_def deliveries_def split: option.splits)

lemma burst_ack_store_kept:
  assumes "burst_ack_store e s op p = Ok (False, s1)"
  shows "reached_eof s1 = reached_eof s \<and> burst_size s1 = burst_size s
       \<and> last_op s1 = last_op s \<and> sent s1 = sent s \<and> session s1 = session s
       \<and> seq s1 = seq s \<and> deliveries s1 = deliveries s \<and> callback s1 = callback s
       \<and> fh s1 \<noteq> None"
proof -
  from assms obtain f where f: "fh s = Some f"
    by (cases "fh s") (simp_all add: burst_ack_store_def)
  let ?ofs = "file_tell f"
  let ?gap = "(op_offset op, int (length p))"
  consider (fill) "op_offset op < ?ofs" | (jump) "op_offset op > ?ofs"
    | (inorder) "op_offset op = ?ofs"
    by linarith
  then show ?thesis
  proof cases
    case fill
    let ?sg = "s\<lparr>read_gaps := remove1 ?gap (read_gaps s),
                  read_gap_times := AList.delete ?gap (read_gap_times s)\<rparr>"
    from assms f fill have mem: "?gap \<in> set (read_gaps s)"
      by (auto simp: burst_ack_store_def Let_def split: if_splits)
    from assms f fill mem obtain sa f1 f2 where
      w: "write_payload ?sg op = Ok sa" and f1: "fh sa = Some f1"
      and f2: "file_seek f1 ?ofs = Some f2"
      and fin: "check_read_finished e (sa\<lparr>fh := Some f2\<rparr>) = Ok (False, s1)"
      by (auto simp: burst_ack_store_def Let_def split: option.splits result.splits)
    from check_read_finished_OkFalse [OF fin] have "s1 = sa\<lparr>fh := Some f2\<rparr>" by simp
    with write_payload_kept [OF w] show ?thesis
      by (simp add: deliveries_def)
  next
    case jump
    with assms f obtain gaps tms where
      w: "write_payload (s\<lparr>read_gaps := gaps, read_gap_times := tms\<rparr>) op = Ok s1"
      by (auto simp: burst_ack_store_def Let_def split: option.splits result.splits)
    from write_payload_kept [OF w] show ?thesis
      by (simp add: deliveries_def)
  next
    case inorder
    with assms f have w: "write_payload s op = Ok s1"
      by (auto simp: burst_ack_store_def Let_def split: result.splits)
    from write_payload_kept [OF w] show ?thesis by simp
  qed
qed

lemma burst_eof_Ok:
  assumes "burst_eof e s = Ok s'"
  shows "(read_gaps s \<noteq> [] \<longrightarrow> reached_eof s' \<and> fh s' = fh s \<and> events s' = events s
            \<and> callback s' = callback s \<and> session s' = session s)
       \<and> (read_gaps s = [] \<longrightarrow> fh s' = None \<and> \<not> op_pending s'
            \<and> session s' = (session s + 1) mod 256)"
proof -
  let ?s = "s\<lparr>reached_eof := True\<rparr>"
  from assms have run: "(case check_read_finished e ?s of
           Ok (True, s1) \<Rightarrow> Ok s1
         | Ok (False, s1) \<Rightarrow> check_read_send e s1
         | Raise err \<Rightarrow> Raise err
         | Diverges \<Rightarrow> Diverges) = Ok s'"
    by (simp add: burst_eof_def split: if_splits)
  show ?thesis
  proof (cases "read_gaps s = []")
    case True
    then have "check_read_finished e ?s \<noteq> Ok (False, s1)" for s1
      using check_read_finished_OkFalse [of e ?s s1] by auto
    with run have "check_read_finished e ?s = Ok (True, s')"
      by (auto split: result.splits prod.splits bool.splits)
    from check_read_finished_OkTrue [OF this] True show ?thesis by simp
  next
    case False
    then have "check_read_finished e ?s = Ok (False, ?s)"
      by (intro check_read_finished_False) simp
    with run have "check_read_send e ?s = Ok s'" by simp
    from check_read_send_only [OF this] False show ?thesis
      by (simp add: gap_reads_only_def)
  qed
qed










subsection \<open>Delivery of the assembled file\<close>

lemma handle_burst_read_nack:
  assumes "fh s = Some f" and "filename s = Some fn"
    and "\<not> (ftp_settings_pkt_loss_tx s > 0 \<and> rand_tx e < ftp_settings_pkt_loss_tx s)"
    and "op_opcode op = OP_Nack" and "op_payload op = Some p"
  shows "handle_burst_read e s op = burst_nack e (burst_received e s p) op p"
  using assms by (auto simp add: handle_burst_read_def burst_received_def Let_def)

lemma burst_nack_eof:
  assumes "fh s = Some f" and "uint c = ERR_EndOfFile \<or> uint c = 0"
  shows "burst_nack e s op (c # cs)
       = (if \<not> reached_eof s \<and> op_offset op > file_tell f then Ok s else burst_eof e s)"
  using assms by (auto simp: burst_nack_def Let_def)

lemma burst_lost_eof:
  assumes "fh s = Some f" and "filename s = Some fn"
    and "\<not> (ftp_settings_pkt_loss_tx s > 0 \<and> rand_tx e < ftp_settings_pkt_loss_tx s)"
    and "op_opcode op = OP_Nack" and "op_payload op = Some (c # cs)"
    and "uint c = ERR_EndOfFile \<or> uint c = 0"
    and "\<not> reached_eof s" and "op_offset op > file_tell f"
  shows "handle_burst_read e s op = Ok (burst_received e s (c # cs))"
proof -
  have "burst_nack e (burst_received e s (c # cs)) op (c # cs)
      = Ok (burst_received e s (c # cs))"
    using assms(1,7,8) burst_nack_eof [OF _ assms(6), of "burst_received e s (c # cs)" f e op cs]
    by (simp add: burst_received_fields)
  then show ?thesis
    unfolding handle_burst_read_nack [OF assms(1-5)] .
qed

lemma idle_burst_retry:
  assumes "fh s = Some f" and "last_burst_read s = Some t" and "\<not> reached_eof s"
    and "now e - t > ftp_settings_retry_time s"
    and "last_op s = Some lop" and "op_opcode lop \<noteq> OP_OpenFileRO"
    and "wire_fits (burst_read_op s f)"
  shows "idle_task e s = check_read_send e (burst_retried e s f)"
proof -
  have o: "idle_open_retry e s = Ok (False, s)"
    using assms(5,6) by (simp add: idle_open_retry_def split: option.splits)
  let ?s = "s\<lparr>last_burst_read := Some (now e)\<rparr>"
  let ?op = "burst_read_op s f"
  have oo: "?op\<lparr>op_seq := seq ?s\<rparr> = ?op"
    by (simp add: burst_read_op_def)
  have "length (payload_bytes ?op) \<le> 239"
    by (simp add: payload_bytes_def burst_read_op_def)
  with assms(7) have sd: "send e ?s ?op = Ok (?s\<lparr>sent := sent ?s @ [wire_buffer ?op],
                    seq := (seq ?s + 1) mod 256,
                    last_op := Some ?op,
                    last_op_time := now e,
                    op_pending := True\<rparr>)"
    using send_eq [where op = ?op and s = ?s and e = e] unfolding oo by simp
  show ?thesis
    unfolding idle_task_def o
    using assms(1,2,3,4) sd
    by (simp add: Let_def burst_read_op_def burst_retried_def)
qed

lemma split_gap_nonempty:
  assumes "split_gap gaps tms st len m = Some r"
  shows "fst r \<noteq> []"
  using assms
  by (rule split_gap.raw_induct [where P = "\<lambda>gaps tms st len m r. fst r \<noteq> []", rotated])
    (auto split: if_splits)

lemma send_deliveries:
  "send e s op = Ok s' \<Longrightarrow> deliveries s' = deliveries s"
  by (auto simp: deliveries_def dest!: send_Ok)

lemma gap_reads_only_deliveries:
  "gap_reads_only s s' \<Longrightarrow> deliveries s' = deliveries s"
  by (simp add: gap_reads_only_def deliveries_def)

lemma burst_ack_store_gaps:
  assumes "burst_ack_store e s op p = Ok (b, s1)"
  shows "(deliveries s1 \<noteq> deliveries s
            \<longrightarrow> reached_eof s \<and> remove1 (op_offset op, int (length p)) (read_gaps s) = [])
       \<and> (\<not> b \<longrightarrow> read_gaps s1 = []
            \<longrightarrow> remove1 (op_offset op, int (length p)) (read_gaps s) = [])"
proof -
  from assms obtain f where f: "fh s = Some f"
    by (cases "fh s") (simp_all add: burst_ack_store_def)
  let ?ofs = "file_tell f"
  let ?gap = "(op_offset op, int (length p))"
  consider (fill) "op_offset op < ?ofs" "?gap \<in> set (read_gaps s)"
    | (dup) "op_offset op < ?ofs" "?gap \<notin> set (read_gaps s)"
    | (jump) "op_offset op > ?ofs"
    | (inorder) "op_offset op = ?ofs"
    by fastforce
  then show ?thesis
  proof cases
    case fill
    let ?sg = "s\<lparr>read_gaps := remove1 ?gap (read_gaps s),
                  read_gap_times := AList.delete ?gap (read_gap_times s)\<rparr>"
    from assms f fill obtain sa f1 f2 where
      w: "write_payload ?sg op = Ok sa" and f1: "fh sa = Some f1"
      and f2: "file_seek f1 ?ofs = Some f2"
      and fin: "check_read_finished e (sa\<lparr>fh := Some f2\<rparr>) = Ok (b, s1)"
      by (auto simp: burst_ack_store_def Let_def split: option.splits result.splits)
    from write_payload_kept [OF w] have k: "reached_eof sa = reached_eof s"
      "read_gaps sa = remove1 ?gap (read_gaps s)" "deliveries sa = deliveries s"
      by (simp_all add: deliveries_def)
    show ?thesis
    proof (cases b)
      case True
      with fin have "check_read_finished e (sa\<lparr>fh := Some f2\<rparr>) = Ok (True, s1)"
        by simp
      from check_read_finished_OkTrue [OF this] k show ?thesis
        by simp
    next
      case False
      with fin have "check_read_finished e (sa\<lparr>fh := Some f2\<rparr>) = Ok (False, s1)"
        by simp
      from check_read_finished_OkFalse [OF this] k False show ?thesis
        by (simp add: deliveries_def)
    qed
  next
    case dup
    with assms f have "s1 = s\<lparr>duplicates := duplicates s + 1\<rparr>" "b"
      by (auto simp: burst_ack_store_def Let_def)
    then show ?thesis by (simp add: deliveries_def)
  next
    case jump
    with assms f obtain gaps tms where
      sp: "split_gap (read_gaps s) (read_gap_times s) ?ofs (op_offset op - ?ofs) (burst_size s)
           = Some (gaps, tms)"
      and w: "write_payload (s\<lparr>read_gaps := gaps, read_gap_times := tms\<rparr>) op = Ok s1"
      by (auto simp: burst_ack_store_def Let_def split: option.splits result.splits)
    from split_gap_nonempty [OF sp] have "gaps \<noteq> []" by simp
    with write_payload_kept [OF w] show ?thesis
      by (simp add: deliveries_def)
  next
    case inorder
    with assms f have w: "write_payload s op = Ok s1"
      by (auto simp: burst_ack_store_def Let_def split: result.splits)
    from write_payload_kept [OF w] show ?thesis by auto
  qed
qed

lemma burst_eof_delivery:
  assumes "burst_eof e s = Ok s'" and "deliveries s' \<noteq> deliveries s"
  shows "read_gaps s = []"
  using burst_eof_Ok [OF assms(1)] assms(2) by (auto simp: deliveries_def)

lemma handle_burst_read_delivery:
  assumes run: "handle_burst_read e s op = Ok s'" and del: "deliveries s' \<noteq> deliveries s"
  shows "\<exists>p. op_payload op = Some p
           \<and> remove1 (op_offset op, int (length p)) (read_gaps s) = []
           \<and> (reached_eof s \<or> signals_eof s op p)
           \<and> (op_opcode op = OP_Nack \<longrightarrow> read_gaps s = [])"
proof -
  have nd: "\<not> (ftp_settings_pkt_loss_tx s > 0 \<and> rand_tx e < ftp_settings_pkt_loss_tx s)"
  proof
    assume "ftp_settings_pkt_loss_tx s > 0 \<and> rand_tx e < ftp_settings_pkt_loss_tx s"
    with run have "s' = s" by (simp add: handle_burst_read_def)
    with del show False by simp
  qed
  have "\<not> (fh s = None \<or> filename s = None)"
  proof
    assume "fh s = None \<or> filename s = None"
    with run nd have "s' = s" by (auto simp: handle_burst_read_def)
    with del show False by simp
  qed
  then obtain f fn where f: "fh s = Some f" and fn: "filename s = Some fn"
    by auto
  have "op_payload op \<noteq> None"
  proof
    assume "op_payload op = None"
    with run nd f fn show False by (auto simp: handle_burst_read_def)
  qed
  then obtain p where p: "op_payload op = Some p" by auto
  let ?s0 = "burst_received e s p"
  let ?gap = "(op_offset op, int (length p))"
  have d0: "deliveries ?s0 = deliveries s"
    by (simp add: deliveries_def burst_received_fields)
  consider (ack) "op_opcode op = OP_Ack" | (nack) "op_opcode op = OP_Nack"
    | (other) "op_opcode op \<noteq> OP_Ack" "op_opcode op \<noteq> OP_Nack"
    by blast
  then have "remove1 ?gap (read_gaps s) = [] \<and> (reached_eof s \<or> signals_eof s op p)
      \<and> (op_opcode op = OP_Nack \<longrightarrow> read_gaps s = [])"
  proof cases
    case ack
    note eq = handle_burst_read_ack [OF f fn nd ack p]
    from run eq obtain b s2 where st: "burst_ack_store e ?s0 op p = Ok (b, s2)"
      by (auto split: result.splits)
    note gaps = burst_ack_store_gaps [OF st, unfolded burst_received_fields d0]
    show ?thesis
    proof (cases b)
      case True
      with run eq st have "s' = s2" by simp
      with gaps del ack show ?thesis by simp
    next
      case False
      with st have st': "burst_ack_store e ?s0 op p = Ok (False, s2)" by simp
      note kept = burst_ack_store_kept [OF st', unfolded burst_received_fields d0]
      from run eq st' have c: "burst_ack_complete e s2 op = Ok s'" by simp
      show ?thesis
      proof (cases "op_burst_complete op \<noteq> 0 \<and> op_size op > 0 \<and> op_size op < burst_size s2")
        case True
        with c have be: "burst_eof e s2 = Ok s'"
          by (simp add: burst_ack_complete_def)
        from del kept have "deliveries s' \<noteq> deliveries s2" by simp
        from burst_eof_delivery [OF be this] gaps False True kept ack show ?thesis
          by (simp add: signals_eof_def)
      next
        case nc: False
        have "deliveries s' = deliveries s2"
        proof (cases "op_burst_complete op \<noteq> 0")
          case True
          with c nc obtain more_op where
            "send e s2 (more_op\<lparr>op_offset := op_offset op + op_size op\<rparr>) = Ok s'"
            by (auto simp: burst_ack_complete_def split: option.splits if_splits)
          then show ?thesis by (rule send_deliveries)
        next
          case False
          with c show ?thesis by (simp add: burst_ack_complete_def)
        qed
        with del kept show ?thesis by simp
      qed
    qed
  next
    case nack
    note eq = handle_burst_read_nack [OF f fn nd nack p]
    from run eq have bn: "burst_nack e ?s0 op p = Ok s'" by simp
    then obtain c cs where pc: "p = c # cs"
      by (cases p) (simp_all add: burst_nack_def)
    have code: "uint c = ERR_EndOfFile \<or> uint c = 0"
    proof (rule ccontr)
      assume "\<not> (uint c = ERR_EndOfFile \<or> uint c = 0)"
      with bn pc have "s' = ?s0" by (simp add: burst_nack_def Let_def)
      with del d0 show False by simp
    qed
    have f0: "fh ?s0 = Some f"
      using f by (simp add: burst_received_fields)
    from bn pc burst_nack_eof [OF f0 code, of e op cs]
    have "s' = ?s0 \<or> burst_eof e ?s0 = Ok s'"
      by (auto split: if_splits)
    with del d0 have be: "burst_eof e ?s0 = Ok s'" by auto
    from del d0 have "deliveries s' \<noteq> deliveries ?s0" by simp
    from burst_eof_delivery [OF be this] have "read_gaps s = []"
      by (simp add: burst_received_fields)
    with nack pc code show ?thesis
      by (auto simp: signals_eof_def)
  next
    case other
    with run nd f fn p have "s' = ?s0"
      by (auto simp: handle_burst_read_def burst_received_def Let_def)
    with del d0 show ?thesis by simp
  qed
  with p show ?thesis by blast
qed

lemma check_read_send_deliveries:
  "check_read_send e s = Ok s' \<Longrightarrow> deliveries s' = deliveries s"
  by (rule gap_reads_only_deliveries) (rule check_read_send_only)

lemma handle_reply_read_delivery:
  assumes run: "handle_reply_read e s op = Ok s'" and del: "deliveries s' \<noteq> deliveries s"
  shows "reached_eof s \<and> remove1 (op_offset op, op_size op) (read_gaps s) = []"
proof -
  have "\<not> (fh s = None \<or> filename s = None)"
  proof
    assume "fh s = None \<or> filename s = None"
    with run have "s' = s" by (auto simp: handle_reply_read_def)
    with del show False by simp
  qed
  then obtain f fn where f: "fh s = Some f" and fn: "filename s = Some fn"
    by auto
  let ?s = "s\<lparr>backlog := (if backlog s > 0 then backlog s - 1 else backlog s)\<rparr>"
  let ?gap = "(op_offset op, op_size op)"
  have d0: "deliveries ?s = deliveries s"
    by (simp add: deliveries_def)
  consider (fill) "op_opcode op = OP_Ack" "?gap \<in> set (read_gaps s)"
    | (shrunk) "op_opcode op = OP_Ack \<and> ?gap \<notin> set (read_gaps s) \<and> op_size op < burst_size s
              \<or> op_opcode op \<noteq> OP_Ack \<and> op_opcode op = OP_Nack"
    | (dup) "op_opcode op = OP_Ack" "?gap \<notin> set (read_gaps s)" "\<not> op_size op < burst_size s"
    | (other) "op_opcode op \<noteq> OP_Ack" "op_opcode op \<noteq> OP_Nack"
    by blast
  then show ?thesis
  proof cases
    case fill
    let ?sg = "?s\<lparr>read_gaps := remove1 ?gap (read_gaps ?s),
                   read_gap_times := AList.delete ?gap (read_gap_times ?s)\<rparr>"
    from run f fn fill obtain sa f1 f2 b s1 where
      w: "write_payload ?sg op = Ok sa" and f1: "fh sa = Some f1"
      and f2: "file_seek f1 (file_tell f) = Some f2"
      and fin: "check_read_finished e (sa\<lparr>fh := Some f2\<rparr>) = Ok (b, s1)"
      and rest: "(if b then Ok s1 else check_read_send e s1) = Ok s'"
      by (auto simp: handle_reply_read_def Let_def
          split: option.splits result.splits bool.splits)
    from write_payload_kept [OF w] have k: "reached_eof sa = reached_eof s"
      "read_gaps sa = remove1 ?gap (read_gaps s)" "deliveries sa = deliveries s"
      by (simp_all add: deliveries_def)
    show ?thesis
    proof (cases b)
      case True
      with fin rest have "check_read_finished e (sa\<lparr>fh := Some f2\<rparr>) = Ok (True, s')"
        by simp
      from check_read_finished_OkTrue [OF this] k show ?thesis by simp
    next
      case False
      with fin have "check_read_finished e (sa\<lparr>fh := Some f2\<rparr>) = Ok (False, s1)"
        by simp
      from check_read_finished_OkFalse [OF this] have "s1 = sa\<lparr>fh := Some f2\<rparr>" by simp
      with k have "deliveries s1 = deliveries s" by (simp add: deliveries_def)
      moreover from rest False have "deliveries s' = deliveries s1"
        by (simp add: check_read_send_deliveries)
      ultimately show ?thesis using del by simp
    qed
  next
    case shrunk
    with run f fn obtain s1 where t: "terminate_session e ?s = Ok s1"
      and c: "check_read_send e s1 = Ok s'"
      by (auto simp: handle_reply_read_def Let_def split: result.splits)
    from terminate_session_deliveries [OF t] check_read_send_deliveries [OF c] d0 del
    show ?thesis by simp
  next
    case dup
    with run f fn have "check_read_send e (?s\<lparr>duplicates := duplicates ?s + 1\<rparr>) = Ok s'"
      by (simp add: handle_reply_read_def Let_def)
    from check_read_send_deliveries [OF this] del show ?thesis
      by (simp add: deliveries_def)
  next
    case other
    with run f fn have "check_read_send e ?s = Ok s'"
      by (simp add: handle_reply_read_def Let_def)
    from check_read_send_deliveries [OF this] del d0 show ?thesis by simp
  qed
qed

lemma idle_open_retry_deliveries:
  assumes "idle_open_retry e s = Ok (b, s1)"
  shows "deliveries s1 = deliveries s"
proof (cases "op_start s")
  case None
  with assms show ?thesis by (simp add: idle_open_retry_def)
next
  case (Some t0)
  show ?thesis
  proof (cases "now e - t0 > 1.0")
    case False
    with assms Some show ?thesis by (simp add: idle_open_retry_def)
  next
    case late: True
    with assms Some obtain send_op where lo: "last_op s = Some send_op"
      by (cases "last_op s") (simp_all add: idle_open_retry_def)
    show ?thesis
    proof (cases "op_opcode send_op = OP_OpenFileRO")
      case False
      with assms Some late lo show ?thesis by (simp add: idle_open_retry_def)
    next
      case opn: True
      let ?s1 = "s\<lparr>op_start := Some (now e), open_retries := open_retries s + 1\<rparr>"
      show ?thesis
      proof (cases "open_retries s + 1 > 2")
        case True
        with assms Some late lo opn
        have "\<exists>s2. terminate_session e (?s1\<lparr>op_start := None\<rparr>) = Ok s2 \<and> s1 = s2"
          by (simp add: idle_open_retry_def Let_def split: result.splits)
        then have "terminate_session e (?s1\<lparr>op_start := None\<rparr>) = Ok s1" by simp
        from terminate_session_deliveries [OF this] show ?thesis
          by (simp add: deliveries_def)
      next
        case False
        with assms Some late lo opn
        have "\<exists>s2. send e ?s1 \<lparr>op_seq = seq ?s1, op_session = session ?s1,
                                          op_opcode = OP_TerminateSession, op_size = 0,
                                          op_req_opcode = 0, op_burst_complete = 0,
                                          op_offset = 0, op_payload = None\<rparr> = Ok s2
            \<and> send e (s2\<lparr>session := (session s2 + 1) mod 256\<rparr>)
                  (send_op\<lparr>op_session := session (s2\<lparr>session := (session s2 + 1) mod 256\<rparr>)\<rparr>)
                = Ok s1"
          by (simp add: idle_open_retry_def Let_def split: result.splits)
        then obtain s2 where
          1: "send e ?s1 \<lparr>op_seq = seq ?s1, op_session = session ?s1,
                                          op_opcode = OP_TerminateSession, op_size = 0,
                                          op_req_opcode = 0, op_burst_complete = 0,
                                          op_offset = 0, op_payload = None\<rparr> = Ok s2"
          and 2: "send e (s2\<lparr>session := (session s2 + 1) mod 256\<rparr>)
                  (send_op\<lparr>op_session := session (s2\<lparr>session := (session s2 + 1) mod 256\<rparr>)\<rparr>)
                = Ok s1"
          by blast
        from send_deliveries [OF 1] send_deliveries [OF 2] show ?thesis
          by (simp add: deliveries_def)
      qed
    qed
  qed
qed

lemma idle_task_deliveries:
  assumes "idle_task e s = Ok s'"
  shows "deliveries s' = deliveries s"
proof -
  from assms obtain b s1 where o: "idle_open_retry e s = Ok (b, s1)"
    by (cases "idle_open_retry e s") (auto simp: idle_task_def)
  note d1 = idle_open_retry_deliveries [OF o]
  show ?thesis
  proof (cases b)
    case True
    with assms o have "s' = s1" by (simp add: idle_task_def)
    with d1 show ?thesis by simp
  next
    case nb: False
    show ?thesis
    proof (cases "read_gaps s1 = [] \<and> last_burst_read s1 = None \<and> write_list s1 = None")
      case True
      with assms o nb have "s' = s1" by (simp add: idle_task_def)
      with d1 show ?thesis by simp
    next
      case busy: False
      show ?thesis
      proof (cases "fh s1")
        case None
        with assms o nb busy have "s' = s1" by (simp add: idle_task_def)
        with d1 show ?thesis by simp
      next
        case (Some f)
        show ?thesis
        proof (cases "last_burst_read s1")
          case None
          with assms o nb busy Some have "check_read_send e s1 = Ok s'"
            by (auto simp add: idle_task_def Let_def)
          from check_read_send_deliveries [OF this] d1 show ?thesis by simp
        next
          case lbr: (Some t)
          show ?thesis
          proof (cases "\<not> reached_eof s1 \<and> now e - t > ftp_settings_retry_time s1")
            case False
            with assms o nb busy Some lbr have "check_read_send e s1 = Ok s'"
              by (auto simp add: idle_task_def Let_def)
            from check_read_send_deliveries [OF this] d1 show ?thesis by simp
          next
            case True
            let ?op = "\<lparr>op_seq = seq s1, op_session = session s1,
                        op_opcode = OP_BurstReadFile, op_size = burst_size s1,
                        op_req_opcode = 0, op_burst_complete = 0,
                        op_offset = file_tell f, op_payload = None\<rparr>"
            from assms o nb busy Some lbr True
            have "\<exists>s2. send e (s1\<lparr>last_burst_read := Some (now e)\<rparr>) ?op = Ok s2
                  \<and> check_read_send e (s2\<lparr>read_retries := read_retries s2 + 1\<rparr>) = Ok s'"
              by (auto simp add: idle_task_def Let_def split: result.splits)
            then obtain s2 where
              1: "send e (s1\<lparr>last_burst_read := Some (now e)\<rparr>) ?op = Ok s2"
              and 2: "check_read_send e (s2\<lparr>read_retries := read_retries s2 + 1\<rparr>) = Ok s'"
              by blast
            from send_deliveries [OF 1] check_read_send_deliveries [OF 2] d1
            show ?thesis by (simp add: deliveries_def)
          qed
        qed
      qed
    qed
  qed
qed

text \<open>
  Claim C3. The completion callback is handed the assembled file only by
  \<open>__check_read_finished\<close>, and only when \<open>reached_eof\<close> is true and the gap list is
  empty; what it gets is the sink's contents. For the entry points of a get: a burst
  read reply delivers the file only if no gap other than the one it fills is tracked
  and EOF was reached before or is signalled by this reply; a \<open>ReadFile\<close> reply only
  if EOF was reached and no gap other than the one it fills is tracked; the idle task
  never. A Nack (so also one with the error code \<open>EndOfFile\<close> or 0) that arrives while
  gaps remain never delivers the file. A Nack with the code \<open>EndOfFile\<close> or 0 whose
  offset is beyond the sink position while \<open>reached_eof\<close> is false only notes the
  arrival: \<open>reached_eof\<close> stays false, and once \<open>retry_time\<close> has passed the idle task
  sends a new \<open>BurstReadFile\<close> request at the sink position.
\<close>

theorem eof_completion:
  "(\<forall>b s'. check_read_finished e s = Ok (b, s') \<longrightarrow> deliveries s' \<noteq> deliveries s \<longrightarrow>
        reached_eof s \<and> read_gaps s = []
      \<and> (\<exists>f. fh s = Some f \<and> deliveries s' = deliveries s @ [Callback (Some (fdata f))]))
   \<and> (\<forall>s'. handle_burst_read e s op = Ok s' \<longrightarrow> deliveries s' \<noteq> deliveries s \<longrightarrow>
        (\<exists>p. op_payload op = Some p
           \<and> remove1 (op_offset op, int (length p)) (read_gaps s) = []
           \<and> (reached_eof s \<or> signals_eof s op p)))
   \<and> (\<forall>s'. handle_reply_read e s op = Ok s' \<longrightarrow> deliveries s' \<noteq> deliveries s \<longrightarrow>
        reached_eof s \<and> remove1 (op_offset op, op_size op) (read_gaps s) = [])
   \<and> (\<forall>s'. idle_task e s = Ok s' \<longrightarrow> deliveries s' = deliveries s)
   \<and> (op_opcode op = OP_Nack \<and> read_gaps s \<noteq> [] \<longrightarrow>
        (\<forall>s'. handle_burst_read e s op = Ok s' \<longrightarrow> deliveries s' = deliveries s))
   \<and> (fh s = Some f \<and> filename s = Some fn
        \<and> \<not> (ftp_settings_pkt_loss_tx s > 0 \<and> rand_tx e < ftp_settings_pkt_loss_tx s)
        \<and> op_opcode op = OP_Nack \<and> op_payload op = Some (c # cs)
        \<and> (uint c = ERR_EndOfFile \<or> uint c = 0)
        \<and> \<not> reached_eof s \<and> op_offset op > file_tell f \<longrightarrow>
        handle_burst_read e s op = Ok (burst_received e s (c # cs))
      \<and> \<not> reached_eof (burst_received e s (c # cs))
      \<and> (\<forall>e' lop. now e' - now e > ftp_settings_retry_time s
             \<and> last_op s = Some lop \<and> op_opcode lop \<noteq> OP_OpenFileRO
             \<and> wire_fits (burst_read_op (burst_received e s (c # cs)) f) \<longrightarrow>
             idle_task e' (burst_received e s (c # cs))
               = check_read_send e' (burst_retried e' (burst_received e s (c # cs)) f)))"
proof -
  have 1: "reached_eof s \<and> read_gaps s = []
      \<and> (\<exists>f. fh s = Some f \<and> deliveries s' = deliveries s @ [Callback (Some (fdata f))])"
    if "check_read_finished e s = Ok (b, s')" "deliveries s' \<noteq> deliveries s" for b s'
  proof (cases b)
    case True
    with that(1) have "check_read_finished e s = Ok (True, s')" by simp
    from check_read_finished_OkTrue [OF this] that(2) show ?thesis
      by (auto split: if_splits)
  next
    case False
    with that(1) have "check_read_finished e s = Ok (False, s')" by simp
    from check_read_finished_OkFalse [OF this] that(2) show ?thesis by simp
  qed
  have 2: "\<exists>p. op_payload op = Some p
           \<and> remove1 (op_offset op, int (length p)) (read_gaps s) = []
           \<and> (reached_eof s \<or> signals_eof s op p)"
    if "handle_burst_read e s op = Ok s'" "deliveries s' \<noteq> deliveries s" for s'
    using handle_burst_read_delivery [OF that] by blast
  have 3: "reached_eof s \<and> remove1 (op_offset op, op_size op) (read_gaps s) = []"
    if "handle_reply_read e s op = Ok s'" "deliveries s' \<noteq> deliveries s" for s'
    using that by (rule handle_reply_read_delivery)
  have 4: "deliveries s' = deliveries s" if "idle_task e s = Ok s'" for s'
    using that by (rule idle_task_deliveries)
  have 5: "deliveries s' = deliveries s"
    if "op_opcode op = OP_Nack \<and> read_gaps s \<noteq> []" "handle_burst_read e s op = Ok s'" for s'
  proof (rule ccontr)
    assume "deliveries s' \<noteq> deliveries s"
    from handle_burst_read_delivery [OF that(2) this] that(1) show False by blast
  qed
  have 6: "handle_burst_read e s op = Ok (burst_received e s (c # cs))
      \<and> \<not> reached_eof (burst_received e s (c # cs))
      \<and> (\<forall>e' lop. now e' - now e > ftp_settings_retry_time s
             \<and> last_op s = Some lop \<and> op_opcode lop \<noteq> OP_OpenFileRO
             \<and> wire_fits (burst_read_op (burst_received e s (c # cs)) f) \<longrightarrow>
             idle_task e' (burst_received e s (c # cs))
               = check_read_send e' (burst_retried e' (burst_received e s (c # cs)) f))"
    if h: "fh s = Some f \<and> filename s = Some fn
        \<and> \<not> (ftp_settings_pkt_loss_tx s > 0 \<and> rand_tx e < ftp_settings_pkt_loss_tx s)
        \<and> op_opcode op = OP_Nack \<and> op_payload op = Some (c # cs)
        \<and> (uint c = ERR_EndOfFile \<or> uint c = 0)
        \<and> \<not> reached_eof s \<and> op_offset op > file_tell f"
  proof -
    let ?s0 = "burst_received e s (c # cs)"
    from h have hs: "fh s = Some f" "filename s = Some fn"
      "\<not> (ftp_settings_pkt_loss_tx s > 0 \<and> rand_tx e < ftp_settings_pkt_loss_tx s)"
      "op_opcode op = OP_Nack" "op_payload op = Some (c # cs)"
      "uint c = ERR_EndOfFile \<or> uint c = 0" "\<not> reached_eof s" "op_offset op > file_tell f"
      by blast+
    have a: "handle_burst_read e s op = Ok ?s0"
      using hs by (rule burst_lost_eof)
    from h have b: "\<not> reached_eof ?s0"
      by (simp add: burst_received_fields)
    have c: "idle_task e' ?s0 = check_read_send e' (burst_retried e' ?s0 f)"
      if "now e' - now e > ftp_settings_retry_time s" "last_op s = Some lop"
        "op_opcode lop \<noteq> OP_OpenFileRO" "wire_fits (burst_read_op ?s0 f)" for e' lop
    proof (rule idle_burst_retry)
      show "fh ?s0 = Some f" using h by (simp add: burst_received_fields)
      show "last_burst_read ?s0 = Some (now e)" by (simp add: burst_received_def)
      show "\<not> reached_eof ?s0" by (rule b)
      show "now e' - now e > ftp_settings_retry_time ?s0"
        using that(1) by (simp add: burst_received_def)
      show "last_op ?s0 = Some lop" using that(2) by (simp add: burst_received_fields)
      show "op_opcode lop \<noteq> OP_OpenFileRO" by (rule that(3))
      show "wire_fits (burst_read_op ?s0 f)" by (rule that(4))
    qed
    from a b c show ?thesis by blast
  qed
  show ?thesis
    by (intro conjI allI impI) (use 1 2 3 4 5 6 in blast)+
qed

lemma ex_done_state_delivers:
  "\<exists>s'. check_read_finished (ex_env 1) ex_done_state = Ok (True, s')
       \<and> deliveries s' \<noteq> deliveries ex_done_state"
  by (simp add: check_read_finished_def terminate_session_def send_def pack_def fits_H_def
      fits_B_def fits_I_def deliveries_def ex_done_state_def ex_eof_state_def ex_init_def
      MAVFTP_init_def ex_env_def Let_def)

lemma ex_eof_ack_delivers:
  "\<exists>s'. handle_burst_read (ex_env 1) ex_read_state ex_eof_ack = Ok s'
       \<and> deliveries s' \<noteq> deliveries ex_read_state"
  by (simp add: handle_burst_read_def burst_ack_store_def burst_ack_complete_def
      burst_eof_def eof_log_raises_def check_read_finished_def terminate_session_def
      write_payload_def file_seek_def file_tell_def send_def pack_def fits_H_def fits_B_def
      fits_I_def deliveries_def ex_eof_ack_def ex_read_state_def ex_init_def MAVFTP_init_def
      ex_env_def Let_def)

lemma ex_fill_ack_delivers:
  "\<exists>s'. handle_reply_read (ex_env 1) ex_eof_state ex_fill_ack = Ok s'
       \<and> deliveries s' \<noteq> deliveries ex_eof_state"
  by (simp add: handle_reply_read_def check_read_finished_def terminate_session_def
      write_payload_def file_seek_def file_tell_def send_def pack_def fits_H_def fits_B_def
      fits_I_def deliveries_def ex_fill_ack_def ex_eof_state_def ex_init_def MAVFTP_init_def
      ex_env_def Let_def)

lemma ex_idle_returns: "idle_task (ex_env 1) ex_read_state = Ok ex_read_state"
  by (simp add: idle_task_def idle_open_retry_def check_read_send_def ex_read_state_def
      ex_burst_request_def ex_init_def MAVFTP_init_def ex_env_def Let_def)

lemma ex_eof_nack_gaps_returns:
  "\<exists>s'. handle_burst_read (ex_env 1) ex_eof_state ex_eof_nack = Ok s'"
  by (simp add: handle_burst_read_def burst_nack_def burst_eof_def eof_log_raises_def
      check_read_finished_def check_read_send_def send_gap_read_def file_tell_def send_def
      pack_def fits_H_def fits_B_def fits_I_def ex_eof_nack_def ex_eof_state_def ex_init_def
      MAVFTP_init_def ex_env_def Let_def)

theorem eof_completion_witness:
  "(\<exists>s'. check_read_finished (ex_env 1) ex_done_state = Ok (True, s')
        \<and> reached_eof ex_done_state \<and> read_gaps ex_done_state = []
        \<and> deliveries s' = deliveries ex_done_state @ [Callback (Some (replicate 160 7))])
   \<and> (\<exists>s'. handle_burst_read (ex_env 1) ex_read_state ex_eof_ack = Ok s'
        \<and> deliveries s' \<noteq> deliveries ex_read_state
        \<and> remove1 (80, 40) (read_gaps ex_read_state) = []
        \<and> signals_eof ex_read_state ex_eof_ack (replicate 40 3))
   \<and> (\<exists>s'. handle_reply_read (ex_env 1) ex_eof_state ex_fill_ack = Ok s'
        \<and> deliveries s' \<noteq> deliveries ex_eof_state
        \<and> reached_eof ex_eof_state \<and> remove1 (0, 80) (read_gaps ex_eof_state) = [])
   \<and> idle_task (ex_env 1) ex_read_state = Ok ex_read_state
   \<and> (\<exists>s'. handle_burst_read (ex_env 1) ex_eof_state ex_eof_nack = Ok s'
        \<and> read_gaps ex_eof_state \<noteq> [] \<and> deliveries s' = deliveries ex_eof_state)
   \<and> handle_burst_read (ex_env 1) ex_read_state ex_eof_nack
       = Ok (burst_received (ex_env 1) ex_read_state [6])
   \<and> \<not> reached_eof (burst_received (ex_env 1) ex_read_state [6])
   \<and> idle_task (ex_env 2) (burst_received (ex_env 1) ex_read_state [6])
       = check_read_send (ex_env 2)
           (burst_retried (ex_env 2) (burst_received (ex_env 1) ex_read_state [6])
              \<lparr>fdata = replicate 80 1, fpos = 80\<rparr>)"
proof -
  let ?f = "\<lparr>fdata = replicate 80 (1::byte), fpos = 80\<rparr>"
  have 1: "\<exists>s'. check_read_finished (ex_env 1) ex_done_state = Ok (True, s')
        \<and> reached_eof ex_done_state \<and> read_gaps ex_done_state = []
        \<and> deliveries s' = deliveries ex_done_state @ [Callback (Some (replicate 160 7))]"
  proof -
    from ex_done_state_delivers obtain s' where
      r: "check_read_finished (ex_env 1) ex_done_state = Ok (True, s')"
      and d: "deliveries s' \<noteq> deliveries ex_done_state" by blast
    have f: "fh ex_done_state = Some \<lparr>fdata = replicate 160 7, fpos = 160\<rparr>"
      by (simp add: ex_done_state_def ex_eof_state_def)
    from eof_completion [of "ex_env 1" ex_done_state, THEN conjunct1, rule_format, OF r d]
    have "reached_eof ex_done_state \<and> read_gaps ex_done_state = []
        \<and> (\<exists>f. fh ex_done_state = Some f
              \<and> deliveries s' = deliveries ex_done_state @ [Callback (Some (fdata f))])" .
    with f r show ?thesis by auto
  qed
  have 2: "\<exists>s'. handle_burst_read (ex_env 1) ex_read_state ex_eof_ack = Ok s'
        \<and> deliveries s' \<noteq> deliveries ex_read_state
        \<and> remove1 (80, 40) (read_gaps ex_read_state) = []
        \<and> signals_eof ex_read_state ex_eof_ack (replicate 40 3)"
  proof -
    from ex_eof_ack_delivers obtain s' where
      r: "handle_burst_read (ex_env 1) ex_read_state ex_eof_ack = Ok s'"
      and d: "deliveries s' \<noteq> deliveries ex_read_state" by blast
    have v: "op_payload ex_eof_ack = Some (replicate 40 3)" "op_offset ex_eof_ack = 80"
      "\<not> reached_eof ex_read_state"
      by (simp_all add: ex_eof_ack_def ex_read_state_def ex_init_def MAVFTP_init_def)
    from eof_completion [of "ex_env 1" ex_read_state ex_eof_ack,
        THEN conjunct2, THEN conjunct1, rule_format, OF r d]
    have "\<exists>p. op_payload ex_eof_ack = Some p
           \<and> remove1 (op_offset ex_eof_ack, int (length p)) (read_gaps ex_read_state) = []
           \<and> (reached_eof ex_read_state \<or> signals_eof ex_read_state ex_eof_ack p)"
      .
    with v r d show ?thesis by auto
  qed
  have 3: "\<exists>s'. handle_reply_read (ex_env 1) ex_eof_state ex_fill_ack = Ok s'
        \<and> deliveries s' \<noteq> deliveries ex_eof_state
        \<and> reached_eof ex_eof_state \<and> remove1 (0, 80) (read_gaps ex_eof_state) = []"
  proof -
    from ex_fill_ack_delivers obtain s' where
      r: "handle_reply_read (ex_env 1) ex_eof_state ex_fill_ack = Ok s'"
      and d: "deliveries s' \<noteq> deliveries ex_eof_state" by blast
    have v: "op_offset ex_fill_ack = 0" "op_size ex_fill_ack = 80"
      by (simp_all add: ex_fill_ack_def)
    from eof_completion [of "ex_env 1" ex_eof_state ex_fill_ack,
        THEN conjunct2, THEN conjunct2, THEN conjunct1, rule_format, OF r d]
    have "reached_eof ex_eof_state
        \<and> remove1 (op_offset ex_fill_ack, op_size ex_fill_ack) (read_gaps ex_eof_state) = []"
      .
    with v r d show ?thesis by auto
  qed
  have 5: "\<exists>s'. handle_burst_read (ex_env 1) ex_eof_state ex_eof_nack = Ok s'
        \<and> read_gaps ex_eof_state \<noteq> [] \<and> deliveries s' = deliveries ex_eof_state"
  proof -
    from ex_eof_nack_gaps_returns obtain s' where
      r: "handle_burst_read (ex_env 1) ex_eof_state ex_eof_nack = Ok s'" ..
    have v: "op_opcode ex_eof_nack = OP_Nack" "read_gaps ex_eof_state \<noteq> []"
      by (simp_all add: ex_eof_nack_def ex_eof_state_def)
    from v have "op_opcode ex_eof_nack = OP_Nack \<and> read_gaps ex_eof_state \<noteq> []" by blast
    from eof_completion [of "ex_env 1" ex_eof_state ex_eof_nack, THEN conjunct2,
        THEN conjunct2, THEN conjunct2, THEN conjunct2, THEN conjunct1, rule_format, OF this r]
    have "deliveries s' = deliveries ex_eof_state" .
    with r v show ?thesis by blast
  qed
  have h: "fh ex_read_state = Some ?f \<and> filename ex_read_state = Some ''f''
        \<and> \<not> (ftp_settings_pkt_loss_tx ex_read_state > 0
              \<and> rand_tx (ex_env 1) < ftp_settings_pkt_loss_tx ex_read_state)
        \<and> op_opcode ex_eof_nack = OP_Nack \<and> op_payload ex_eof_nack = Some (6 # [])
        \<and> (uint (6 :: byte) = ERR_EndOfFile \<or> uint (6 :: byte) = 0)
        \<and> \<not> reached_eof ex_read_state \<and> op_offset ex_eof_nack > file_tell ?f"
    by (simp add: ex_read_state_def ex_eof_nack_def ex_init_def MAVFTP_init_def file_tell_def)
  have i: "now (ex_env 2) - now (ex_env 1) > ftp_settings_retry_time ex_read_state
             \<and> last_op ex_read_state = Some ex_burst_request
             \<and> op_opcode ex_burst_request \<noteq> OP_OpenFileRO
             \<and> wire_fits (burst_read_op (burst_received (ex_env 1) ex_read_state [6]) ?f)"
    by (simp add: ex_env_def ex_read_state_def ex_burst_request_def ex_init_def
        MAVFTP_init_def burst_read_op_def burst_received_def wire_fits_def file_tell_def
        fits_H_def fits_B_def fits_I_def)
  from eof_completion [of "ex_env 1" ex_read_state ex_eof_nack ?f "''f''" 6 "[]",
      THEN conjunct2, THEN conjunct2, THEN conjunct2, THEN conjunct2, THEN conjunct2,
      THEN mp, OF h]
  have 6: "handle_burst_read (ex_env 1) ex_read_state ex_eof_nack
       = Ok (burst_received (ex_env 1) ex_read_state [6])"
    "\<not> reached_eof (burst_received (ex_env 1) ex_read_state [6])"
    "\<forall>e' lop. now e' - now (ex_env 1) > ftp_settings_retry_time ex_read_state
             \<and> last_op ex_read_state = Some lop \<and> op_opcode lop \<noteq> OP_OpenFileRO
             \<and> wire_fits (burst_read_op (burst_received (ex_env 1) ex_read_state [6]) ?f) \<longrightarrow>
             idle_task e' (burst_received (ex_env 1) ex_read_state [6])
               = check_read_send e'
                   (burst_retried e' (burst_received (ex_env 1) ex_read_state [6]) ?f)"
    by blast+
  from 6(3) i have 7: "idle_task (ex_env 2) (burst_received (ex_env 1) ex_read_state [6])
       = check_read_send (ex_env 2)
           (burst_retried (ex_env 2) (burst_received (ex_env 1) ex_read_state [6]) ?f)"
    by blast
  have 4: "idle_task (ex_env 1) ex_read_state = Ok ex_read_state"
    using eof_completion [of "ex_env 1" ex_read_state, THEN conjunct2, THEN conjunct2,
        THEN conjunct2, THEN conjunct1, rule_format, OF ex_idle_returns] ex_idle_returns
    by simp
  show ?thesis
    using 1 2 3 4 5 6(1,2) 7 by (intro conjI)
qed

end
